(* ===== verification/Prelude.thy ===== *)
theory Prelude
  imports Complex_Main "HOL-Library.Word" "HOL-Library.Multiset"
begin

text \<open>
  Shared vocabulary of the development. JavaScript strings are sequences of UTF-16
  code units (\<open>js_string\<close>); the exceptions the handlers can meet inside their
  \<^verbatim>\<open>try\<close> blocks form one datatype \<open>exn\<close>; a handler body is a computation in a
  state-exception monad \<open>('a, 's) exn_st\<close> whose thrown exception keeps the state
  reached so far, as an exception escaping an \<^verbatim>\<open>await\<close> does. The keyed-list
  lemmas at the end serve the refinement of the document store to a map.
\<close>

named_theorems exn_st_simps "evaluation equations of the state-exception monad"
named_theorems keyed_simps "equations of keyed association lists"
named_theorems eval_simps "definitions unfolded to evaluate the model on concrete inputs"

section \<open>JavaScript strings\<close>

type_synonym js_string = "16 word list"

text \<open>An ASCII literal as the UTF-16 code units JavaScript stores for it.\<close>

definition js_str :: "string \<Rightarrow> js_string" where
  "js_str s = map (\<lambda>c. of_nat (of_char c)) s"

section \<open>Exceptions met inside the handlers' try blocks\<close>

datatype exn =
    TypeError          \<comment> \<open>JavaScript: destructuring \<^verbatim>\<open>null\<close>, calling a missing \<^verbatim>\<open>trim\<close>\<close>
  | SyntaxError        \<comment> \<open>\<^verbatim>\<open>request.json()\<close> on a body that is not JSON\<close>
  | ValidationError    \<comment> \<open>Mongoose schema or update validators\<close>
  | CastError          \<comment> \<open>Mongoose: a query id that is no ObjectId\<close>
  | DuplicateKey       \<comment> \<open>MongoDB E11000 on an \<^verbatim>\<open>_id\<close> already stored\<close>
  | StoreFailure       \<comment> \<open>the database did not answer a query\<close>
  | ConnectFailure     \<comment> \<open>\<^verbatim>\<open>dbConnect()\<close> could not open the connection\<close>

section \<open>State-exception monad\<close>

type_synonym ('a, 's) exn_st = "'s \<Rightarrow> (exn + 'a) \<times> 's"

definition returnE :: "'a \<Rightarrow> ('a, 's) exn_st" where
  "returnE x = (\<lambda>s. (Inr x, s))"

definition throwE :: "exn \<Rightarrow> ('a, 's) exn_st" where
  "throwE e = (\<lambda>s. (Inl e, s))"

definition liftE :: "exn + 'a \<Rightarrow> ('a, 's) exn_st" where
  "liftE r = (\<lambda>s. (r, s))"

definition bindE :: "('a, 's) exn_st \<Rightarrow> ('a \<Rightarrow> ('b, 's) exn_st) \<Rightarrow> ('b, 's) exn_st" where
  "bindE m f = (\<lambda>s. case m s of (Inl e, s') \<Rightarrow> (Inl e, s') | (Inr x, s') \<Rightarrow> f x s')"

text \<open>
  A computation preserves a predicate of the state when every outcome, normal or
  thrown, ends in a state satisfying it. Invariant proofs of the handlers compose this.
\<close>

definition preserves :: "('s \<Rightarrow> bool) \<Rightarrow> ('a, 's) exn_st \<Rightarrow> bool" where
  "preserves P m \<longleftrightarrow> (\<forall>s. P s \<longrightarrow> P (snd (m s)))"

section \<open>Keyed association lists\<close>

text \<open>
  A list of records each carrying its own key, read as a map from keys to records.
  The store keeps its documents this way; these lemmas relate the list operations the
  store performs to map operations.
\<close>

definition keyed :: "('a \<Rightarrow> 'k) \<Rightarrow> 'a list \<Rightarrow> 'k \<rightharpoonup> 'a" where
  "keyed key xs = map_of (map (\<lambda>x. (key x, x)) xs)"

declare js_str_def [eval_simps] Let_def [eval_simps]

section \<open>Lemmas of the monad\<close>

lemma returnE_apply [simp, exn_st_simps]: "returnE x s = (Inr x, s)"
  by (simp add: returnE_def)

lemma throwE_apply [simp, exn_st_simps]: "throwE e s = (Inl e, s)"
  by (simp add: throwE_def)

lemma liftE_apply [simp, exn_st_simps]: "liftE r s = (r, s)"
  by (simp add: liftE_def)

lemma bindE_apply [simp, exn_st_simps]:
  "bindE m f s = (case m s of (Inl e, s') \<Rightarrow> (Inl e, s') | (Inr x, s') \<Rightarrow> f x s')"
  by (simp add: bindE_def)

lemma bindE_Inr:
  "m s = (Inr x, s') \<Longrightarrow> bindE m f s = f x s'"
  by simp

lemma bindE_Inl:
  "m s = (Inl e, s') \<Longrightarrow> bindE m f s = (Inl e, s')"
  by simp

lemma preserves_returnE [intro, simp]: "preserves P (returnE x)"
  by (simp add: preserves_def)

lemma preserves_throwE [intro, simp]: "preserves P (throwE e)"
  by (simp add: preserves_def)

lemma preserves_liftE [intro, simp]: "preserves P (liftE r)"
  by (simp add: preserves_def)

lemma preserves_bindE [intro]:
  assumes "preserves P m" and "\<And>x. preserves P (f x)"
  shows "preserves P (bindE m f)"
  unfolding preserves_def
proof (intro allI impI)
  fix s assume "P s"
  with assms(1) have "P (snd (m s))" by (simp add: preserves_def)
  with assms(2) show "P (snd (bindE m f s))"
    by (auto simp: preserves_def split: prod.splits sum.splits)
qed

lemma preserves_case_sum [intro]:
  "(\<And>a. preserves P (f a)) \<Longrightarrow> (\<And>b. preserves P (g b)) \<Longrightarrow> preserves P (case_sum f g r)"
  by (cases r) auto

lemma preserves_case_option [intro]:
  "preserves P f \<Longrightarrow> (\<And>b. preserves P (g b)) \<Longrightarrow> preserves P (case_option f g r)"
  by (cases r) auto

lemma preserves_case_prod [intro]:
  "(\<And>a b. preserves P (f a b)) \<Longrightarrow> preserves P (case_prod f r)"
  by (cases r) auto

lemma preserves_if [intro]:
  "preserves P f \<Longrightarrow> preserves P g \<Longrightarrow> preserves P (if b then f else g)"
  by simp

lemmas preserves_combinators = preserves_bindE preserves_case_sum preserves_case_option
  preserves_case_prod preserves_if preserves_returnE

lemma preservesD: "preserves P m \<Longrightarrow> P s \<Longrightarrow> m s = (r, s') \<Longrightarrow> P s'"
  by (metis preserves_def snd_conv)

section \<open>Lemmas of keyed lists\<close>

lemma keyed_Nil [simp, keyed_simps]: "keyed key [] = Map.empty"
  by (simp add: keyed_def)

lemma keyed_Cons [simp, keyed_simps]: "keyed key (x # xs) = (keyed key xs)(key x \<mapsto> x)"
  by (simp add: keyed_def)

lemma keyed_append [keyed_simps]:
  "keyed key (xs @ ys) = keyed key ys ++ keyed key xs"
  by (simp add: keyed_def)

lemma keyed_None_iff [keyed_simps]: "keyed key xs k = None \<longleftrightarrow> k \<notin> key ` set xs"
  by (induction xs) auto

lemma dom_keyed [keyed_simps]: "dom (keyed key xs) = key ` set xs"
  by (auto simp: dom_def keyed_None_iff)

lemma keyed_Some_D: "keyed key xs k = Some x \<Longrightarrow> x \<in> set xs \<and> key x = k"
  by (induction xs) (auto split: if_splits)

lemma keyed_find: "keyed key xs k = find (\<lambda>x. key x = k) xs"
  by (induction xs) auto

lemma keyed_member:
  "distinct (map key xs) \<Longrightarrow> x \<in> set xs \<Longrightarrow> keyed key xs (key x) = Some x"
proof (induction xs)
  case (Cons a xs)
  show ?case
  proof (cases "x = a")
    case False
    with Cons.prems have "x \<in> set xs" and "key x \<noteq> key a" by (auto simp: image_iff)
    with Cons show ?thesis by simp
  qed simp
qed simp

lemma keyed_filter_other:
  "keyed key (filter (\<lambda>y. key y \<noteq> k) xs) = (keyed key xs)(k := None)"
  by (induction xs) (auto simp: fun_upd_twist)

lemma keyed_map_replace:
  "keyed key (map (\<lambda>y. if key y = k then f y else y) xs) =
     (\<lambda>j. if j = k then map_option f (keyed key xs k) else keyed key xs j)"
  if "\<And>y. key (f y) = key y"
  using that by (induction xs) (auto simp: fun_eq_iff)

lemma keyed_map_const:
  "key y0 = k \<Longrightarrow>
     keyed key (map (\<lambda>y. if key y = k then y0 else y) xs) =
       (if k \<in> key ` set xs then (keyed key xs)(k \<mapsto> y0) else keyed key xs)"
  by (induction xs) (auto simp: fun_upd_twist)

lemma distinct_map_filter_keyed:
  "distinct (map key xs) \<Longrightarrow> distinct (map key (filter P xs))"
  by (induction xs) auto

lemma map_key_replace:
  "(\<And>y. key (f y) = key y) \<Longrightarrow>
     map key (map (\<lambda>y. if key y = k then f y else y) xs) = map key xs"
  by (induction xs) auto

lemma keyed_snoc:
  "key x \<notin> key ` set xs \<Longrightarrow> keyed key (xs @ [x]) = (keyed key xs)(key x \<mapsto> x)"
  by (induction xs) (auto simp: fun_upd_twist)

lemma map_replace_absent:
  "keyed key xs k = None \<Longrightarrow> map (\<lambda>m. if key m = k then f m else m) xs = xs"
  by (induction xs) (auto split: if_splits)

lemma filter_absent:
  "keyed key xs k = None \<Longrightarrow> filter (\<lambda>m. key m \<noteq> k) xs = xs"
  by (induction xs) (auto split: if_splits)


section \<open>Lemmas on JavaScript strings\<close>

lemma length_js_str [simp]: "length (js_str s) = length s"
  by (simp add: js_str_def)

end
