(* ===== verification/Js_Runtime.thy ===== *)
theory Js_Runtime
  imports Prelude
begin

text \<open>
  The pieces of JavaScript semantics the route handlers rely on: the values
  \<^verbatim>\<open>request.json()\<close> can produce, truthiness (\<^verbatim>\<open>!title\<close>), property reads of the
  destructuring \<^verbatim>\<open>const { title, content } = body\<close>, and \<^verbatim>\<open>String.prototype.trim\<close>,
  which removes ECMAScript WhiteSpace and LineTerminator code units from both ends.
  Calling \<^verbatim>\<open>trim\<close> on anything but a string throws a \<^verbatim>\<open>TypeError\<close>.
\<close>

section \<open>String.prototype.trim\<close>

text \<open>ECMAScript WhiteSpace (TAB, VT, FF, SP, NBSP, ZWNBSP and the Zs category) and LineTerminator.\<close>

definition is_js_space :: "16 word \<Rightarrow> bool" where
  "is_js_space c \<longleftrightarrow>
     c \<in> {0x9, 0xA, 0xB, 0xC, 0xD, 0x20, 0xA0, 0x1680, 0x2028, 0x2029, 0x202F, 0x205F,
          0x3000, 0xFEFF} \<or> (0x2000 \<le> c \<and> c \<le> 0x200A)"

definition js_trim :: "js_string \<Rightarrow> js_string" where
  "js_trim s = rev (dropWhile is_js_space (rev (dropWhile is_js_space s)))"

section \<open>JSON values\<close>

text \<open>
  A value \<^verbatim>\<open>JSON.parse\<close> can return. Numbers are finite doubles, hence rationals;
  object members are kept in source order, and a duplicated key reads as its last
  occurrence, as \<^verbatim>\<open>JSON.parse\<close> builds the object.
\<close>

datatype jsval =
    JNull
  | JBool bool
  | JNum rat
  | JStr js_string
  | JArr "jsval list"
  | JObj "(js_string \<times> jsval) list"

text \<open>The body of an HTTP request: JSON text, or something \<^verbatim>\<open>request.json()\<close> rejects.\<close>

datatype request_body = Malformed | Json jsval

definition request_json :: "request_body \<Rightarrow> exn + jsval" where
  "request_json b = (case b of Malformed \<Rightarrow> Inl SyntaxError | Json v \<Rightarrow> Inr v)"

text \<open>
  Reading a field while destructuring: \<open>None\<close> is \<^verbatim>\<open>undefined\<close>. Destructuring
  \<^verbatim>\<open>null\<close> throws; numbers, booleans, strings and arrays have no own or inherited
  \<^verbatim>\<open>title\<close> or \<^verbatim>\<open>content\<close> property, the only fields the handlers read.
\<close>

fun js_get_field :: "jsval \<Rightarrow> js_string \<Rightarrow> exn + jsval option" where
  "js_get_field JNull k = Inl TypeError"
| "js_get_field (JObj kvs) k = Inr (map_of (rev kvs) k)"
| "js_get_field (JBool b) k = Inr None"
| "js_get_field (JNum n) k = Inr None"
| "js_get_field (JStr s) k = Inr None"
| "js_get_field (JArr vs) k = Inr None"

text \<open>Truthiness of a possibly undefined value (\<^verbatim>\<open>!v\<close> is its negation).\<close>

fun js_truthy :: "jsval option \<Rightarrow> bool" where
  "js_truthy None = False"
| "js_truthy (Some JNull) = False"
| "js_truthy (Some (JBool b)) = b"
| "js_truthy (Some (JNum n)) = (n \<noteq> 0)"
| "js_truthy (Some (JStr s)) = (s \<noteq> [])"
| "js_truthy (Some (JArr vs)) = True"
| "js_truthy (Some (JObj kvs)) = True"

text \<open>\<^verbatim>\<open>v.trim()\<close>: a \<^verbatim>\<open>TypeError\<close> unless \<^verbatim>\<open>v\<close> is a string.\<close>

fun js_call_trim :: "jsval option \<Rightarrow> exn + js_string" where
  "js_call_trim (Some (JStr s)) = Inr (js_trim s)"
| "js_call_trim v = Inl TypeError"

declare is_js_space_def [eval_simps] js_trim_def [eval_simps] request_json_def [eval_simps]

section \<open>Properties of trim\<close>

lemma js_trim_Nil [simp]: "js_trim [] = []"
  by (simp add: js_trim_def)

lemma js_trim_nonempty: "js_trim s \<noteq> [] \<Longrightarrow> s \<noteq> []"
  by auto


lemma dropWhile_rev_nonspace:
  "dropWhile P (rev xs) = [] \<longleftrightarrow> (\<forall>x\<in>set xs. P x)"
  by (simp add: dropWhile_eq_Nil_conv)

lemma js_trim_Nil_iff: "js_trim s = [] \<longleftrightarrow> (\<forall>c\<in>set s. is_js_space c)"
proof -
  have "js_trim s = [] \<longleftrightarrow> (\<forall>c\<in>set (dropWhile is_js_space s). is_js_space c)"
    by (simp add: js_trim_def dropWhile_eq_Nil_conv)
  also have "\<dots> \<longleftrightarrow> (\<forall>c\<in>set s. is_js_space c)"
    by (induction s) auto
  finally show ?thesis .
qed

lemma rev_takeWhile_dropWhile:
  "rev (dropWhile P (rev xs)) @ rev (takeWhile P (rev xs)) = xs"
proof -
  have "rev (takeWhile P (rev xs) @ dropWhile P (rev xs)) = xs" by simp
  then show ?thesis by (simp only: rev_append)
qed

lemma js_trim_decomp:
  "\<exists>p q. s = p @ js_trim s @ q \<and> (\<forall>c\<in>set p. is_js_space c) \<and> (\<forall>c\<in>set q. is_js_space c)"
proof (intro exI conjI)
  let ?m = "dropWhile is_js_space s"
  show "s = takeWhile is_js_space s @ js_trim s @ rev (takeWhile is_js_space (rev ?m))"
    using rev_takeWhile_dropWhile [of is_js_space ?m] by (simp add: js_trim_def)
  show "\<forall>c\<in>set (takeWhile is_js_space s). is_js_space c"
    by (auto dest: set_takeWhileD)
  show "\<forall>c\<in>set (rev (takeWhile is_js_space (rev ?m))). is_js_space c"
    by (auto dest: set_takeWhileD)
qed

lemma js_trim_length: "length (js_trim s) \<le> length s"
  using js_trim_decomp [of s] by (metis le_add1 length_append trans_le_add2)
lemma js_trim_hd_last:
  "js_trim s \<noteq> [] \<Longrightarrow> \<not> is_js_space (hd (js_trim s)) \<and> \<not> is_js_space (last (js_trim s))"
proof -
  assume ne: "js_trim s \<noteq> []"
  define m where "m = dropWhile is_js_space s"
  have t: "js_trim s = rev (dropWhile is_js_space (rev m))" by (simp add: js_trim_def m_def)
  have last: "\<not> is_js_space (last (js_trim s))"
    using ne unfolding t by (simp add: last_rev hd_dropWhile)
  obtain q where mq: "m = js_trim s @ q"
  proof
    have "rev m = takeWhile is_js_space (rev m) @ dropWhile is_js_space (rev m)" by simp
    then show "m = js_trim s @ rev (takeWhile is_js_space (rev m))"
      unfolding t by (metis rev_append rev_rev_ident)
  qed
  have "m \<noteq> []" using mq ne by simp
  then have "\<not> is_js_space (hd m)" by (simp add: m_def hd_dropWhile dropWhile_eq_Nil_conv)
  with mq ne have "\<not> is_js_space (hd (js_trim s))" by simp
  with last show ?thesis by simp
qed

lemma js_trim_idem [simp]: "js_trim (js_trim s) = js_trim s"
proof (cases "js_trim s = []")
  case True
  then show ?thesis by (simp add: js_trim_def [of "[]"])
next
  case False
  then have h: "\<not> is_js_space (hd (js_trim s))" and l: "\<not> is_js_space (last (js_trim s))"
    using js_trim_hd_last by auto
  from h False have "dropWhile is_js_space (js_trim s) = js_trim s"
    by (simp add: dropWhile_eq_self_iff)
  moreover from l False have "dropWhile is_js_space (rev (js_trim s)) = rev (js_trim s)"
    by (simp add: dropWhile_eq_self_iff hd_rev)
  ultimately show ?thesis by (simp add: js_trim_def)
qed

end
