(* ===== verification/ObjectId.thy ===== *)
theory ObjectId
  imports Prelude
begin

text \<open>
  MongoDB identifiers. An ObjectId is 12 bytes (\<open>96 word\<close>); the handlers receive it
  as the \<^verbatim>\<open>[id]\<close> segment of the URL, a string, and check it with
  \<^verbatim>\<open>mongoose.Types.ObjectId.isValid\<close> before any query: a string is valid when it is
  24 hexadecimal digits, either case. \<^verbatim>\<open>findById\<close> and its kin cast the string to the
  96-bit value, and a note's \<^verbatim>\<open>_id\<close> is serialised as 24 lower-case hex digits.
  The theory proves that serialising and casting back is the identity.
\<close>

type_synonym oid = "96 word"

section \<open>Hex digits\<close>

definition hex_val :: "16 word \<Rightarrow> nat option" where
  "hex_val c =
     (if 0x30 \<le> c \<and> c \<le> 0x39 then Some (unat c - 0x30)
      else if 0x61 \<le> c \<and> c \<le> 0x66 then Some (unat c - 0x61 + 10)
      else if 0x41 \<le> c \<and> c \<le> 0x46 then Some (unat c - 0x41 + 10)
      else None)"

definition hex_char :: "nat \<Rightarrow> 16 word" where
  "hex_char d = (if d < 10 then of_nat (0x30 + d) else of_nat (0x61 + d - 10))"

definition horner16 :: "nat list \<Rightarrow> nat" where
  "horner16 ds = foldl (\<lambda>acc d. 16 * acc + d) 0 ds"

primrec digits16 :: "nat \<Rightarrow> nat \<Rightarrow> nat list" where
  "digits16 0 v = []"
| "digits16 (Suc n) v = digits16 n (v div 16) @ [v mod 16]"

section \<open>ObjectId.isValid, the cast, and the hex serialisation\<close>

definition is_valid_object_id :: "js_string \<Rightarrow> bool" where
  "is_valid_object_id s \<longleftrightarrow> length s = 24 \<and> list_all (\<lambda>c. hex_val c \<noteq> None) s"

definition object_id_of_hex :: "js_string \<Rightarrow> oid option" where
  "object_id_of_hex s =
     (if length s = 24 then map_option (\<lambda>ds. of_nat (horner16 ds)) (those (map hex_val s))
      else None)"

definition oid_to_hex :: "oid \<Rightarrow> js_string" where
  "oid_to_hex w = map hex_char (digits16 24 (unat w))"

declare hex_val_def [eval_simps] hex_char_def [eval_simps] horner16_def [eval_simps]
  is_valid_object_id_def [eval_simps] object_id_of_hex_def [eval_simps]

section \<open>Lemmas\<close>

lemma hex_val_hex_char: "d < 16 \<Longrightarrow> hex_val (hex_char d) = Some d"
proof -
  have "\<forall>d\<in>set [0..<16]. hex_val (hex_char d) = Some d"
    by (simp add: upt_rec hex_val_def hex_char_def)
  then show "d < 16 \<Longrightarrow> ?thesis" by simp
qed

lemma horner16_snoc: "horner16 (ds @ [d]) = 16 * horner16 ds + d"
  by (simp add: horner16_def)

lemma length_digits16 [simp]: "length (digits16 n v) = n"
  by (induction n arbitrary: v) auto

lemma digits16_less: "d \<in> set (digits16 n v) \<Longrightarrow> d < 16"
  by (induction n arbitrary: v) auto

lemma horner16_digits16: "horner16 (digits16 n v) = v mod 16 ^ n"
proof (induction n arbitrary: v)
  case 0
  then show ?case by (simp add: horner16_def)
next
  case (Suc n)
  have "horner16 (digits16 (Suc n) v) = 16 * (v div 16 mod 16 ^ n) + v mod 16"
    by (simp add: horner16_snoc Suc.IH)
  also have "\<dots> = v mod (16 * 16 ^ n)"
    by (simp add: mod_mult2_eq)
  finally show ?case by simp
qed

lemma those_map_hex_val:
  "\<forall>d\<in>set ds. d < 16 \<Longrightarrow> those (map hex_val (map hex_char ds)) = Some ds"
  by (induction ds) (auto simp: hex_val_hex_char)

lemma those_Some_length: "those xs = Some ys \<Longrightarrow> length ys = length xs"
  by (induction xs arbitrary: ys) (auto split: option.splits)

lemma those_eq_None_iff: "those xs = None \<longleftrightarrow> None \<in> set xs"
  by (induction xs) (auto split: option.splits)

lemma object_id_of_hex_oid_to_hex [simp]: "object_id_of_hex (oid_to_hex w) = Some w"
proof -
  have lt: "unat w < 16 ^ 24"
    using unsigned_less [of w] by simp
  have "those (map hex_val (oid_to_hex w)) = Some (digits16 24 (unat w))"
    unfolding oid_to_hex_def by (rule those_map_hex_val) (auto dest: digits16_less)
  moreover have "horner16 (digits16 24 (unat w)) = unat w"
    using lt by (simp add: horner16_digits16)
  ultimately show ?thesis
    by (simp add: object_id_of_hex_def oid_to_hex_def)
qed

lemma oid_to_hex_eq_iff [simp]: "oid_to_hex a = oid_to_hex b \<longleftrightarrow> a = b"
  by (metis object_id_of_hex_oid_to_hex option.inject)

lemma is_valid_object_id_iff: "is_valid_object_id s \<longleftrightarrow> object_id_of_hex s \<noteq> None"
proof -
  have "those (map hex_val s) \<noteq> None \<longleftrightarrow> list_all (\<lambda>c. hex_val c \<noteq> None) s"
    by (induction s) (auto split: option.splits)
  then show ?thesis by (simp add: is_valid_object_id_def object_id_of_hex_def)
qed

lemma oid_to_hex_valid: "is_valid_object_id (oid_to_hex w)"
  by (simp add: is_valid_object_id_iff)

end
