(* ===== verification/Note_Model.thy ===== *)
theory Note_Model
  imports Js_Runtime ObjectId
begin

text \<open>
  The note entity of \<^verbatim>\<open>src/models/Note.ts\<close> and the MongoDB collection behind the
  Mongoose model, with the five Mongoose operations the route handlers call
  (\<^verbatim>\<open>Note.find().sort()\<close>, \<^verbatim>\<open>Note.create\<close>, \<^verbatim>\<open>Note.findById\<close>,
  \<^verbatim>\<open>Note.findByIdAndUpdate\<close>, \<^verbatim>\<open>Note.findByIdAndDelete\<close>) and the lazily opened
  connection of \<^verbatim>\<open>dbConnect\<close>. The server state holds the collection in its natural
  (insertion) order, the clock \<^verbatim>\<open>Date.now()\<close> in milliseconds, whether the connection
  is open and whether the database answers. Every operation is a state-exception
  computation: a refused query is a thrown exception, which the handlers catch.
  The lemmas show the store invariant is kept by every operation and that the
  operations refine a map from ObjectIds to notes.
\<close>

section \<open>The note document\<close>

record INote =
  note_id :: oid
  title :: js_string
  content :: js_string
  createdAt :: int
  updatedAt :: int

text \<open>
  The schema's casting and validation of the two string paths: the \<^verbatim>\<open>trim\<close> setter,
  the \<^verbatim>\<open>required\<close> validator (a string is present when non-empty) and
  \<^verbatim>\<open>maxlength: 100\<close> on the title, counted in UTF-16 code units as
  \<^verbatim>\<open>String.length\<close> counts.
\<close>

definition note_schema_cast :: "js_string \<Rightarrow> js_string \<Rightarrow> exn + js_string \<times> js_string" where
  "note_schema_cast t c =
     (let t' = js_trim t; c' = js_trim c
      in if t' = [] \<or> 100 < length t' \<or> c' = [] then Inl ValidationError else Inr (t', c'))"

section \<open>Server state\<close>

record server =
  docs :: "INote list"
  clock :: int
  connected :: bool
  reachable :: bool

text \<open>\<^verbatim>\<open>dbConnect()\<close>: reuse the cached connection, else open one, once.\<close>

definition db_connect :: "(unit, server) exn_st" where
  "db_connect s =
     (if connected s then (Inr (), s)
      else if reachable s then (Inr (), s\<lparr>connected := True\<rparr>)
      else (Inl ConnectFailure, s))"

text \<open>A query reaches the database only over an open connection to a live server.\<close>

definition store_guard :: "(unit, server) exn_st" where
  "store_guard s = (if connected s \<and> reachable s then (Inr (), s) else (Inl StoreFailure, s))"

text \<open>Casting the route's id string for a query.\<close>

definition cast_id :: "js_string \<Rightarrow> (oid, server) exn_st" where
  "cast_id i = liftE (case object_id_of_hex i of None \<Rightarrow> Inl CastError | Some k \<Rightarrow> Inr k)"

definition find_note :: "oid \<Rightarrow> INote list \<Rightarrow> INote option" where
  "find_note k ns = find (\<lambda>n. note_id n = k) ns"

section \<open>Mongoose operations\<close>

text \<open>\<^verbatim>\<open>sort({ createdAt: -1 })\<close>: newest first; ties keep the natural order.\<close>

definition sort_by_created_desc :: "INote list \<Rightarrow> INote list" where
  "sort_by_created_desc ns = sort_key (\<lambda>n. - createdAt n) ns"

definition note_find_sorted :: "(INote list, server) exn_st" where
  "note_find_sorted =
     bindE store_guard (\<lambda>_. \<lambda>s. (Inr (sort_by_created_desc (docs s)), s))"

text \<open>
  \<^verbatim>\<open>Note.create\<close>: cast and validate the document, then insert it with the
  ObjectId the driver generated (\<open>fresh\<close>) and both timestamps set to the same
  \<^verbatim>\<open>new Date()\<close>. Inserting an \<^verbatim>\<open>_id\<close> already present is a duplicate-key error.
\<close>

definition note_create :: "oid \<Rightarrow> js_string \<Rightarrow> js_string \<Rightarrow> (INote, server) exn_st" where
  "note_create fresh t c =
     bindE (liftE (note_schema_cast t c)) (\<lambda>(t', c').
     bindE store_guard (\<lambda>_. \<lambda>s.
       if fresh \<in> set (map note_id (docs s)) then (Inl DuplicateKey, s)
       else let n = \<lparr>note_id = fresh, title = t', content = c',
                     createdAt = clock s, updatedAt = clock s\<rparr>
            in (Inr n, s\<lparr>docs := docs s @ [n]\<rparr>)))"

definition note_find_by_id :: "js_string \<Rightarrow> (INote option, server) exn_st" where
  "note_find_by_id i =
     bindE (cast_id i) (\<lambda>k.
     bindE store_guard (\<lambda>_. \<lambda>s. (Inr (find_note k (docs s)), s)))"

text \<open>
  \<^verbatim>\<open>findByIdAndUpdate(id, {title, content}, {new: true, runValidators: true})\<close>:
  the update is cast and validated before the query is sent; the timestamps plugin
  adds \<^verbatim>\<open>updatedAt = new Date()\<close> to the \<^verbatim>\<open>$set\<close> and leaves \<^verbatim>\<open>createdAt\<close>;
  the document after the update is returned, or \<^verbatim>\<open>null\<close> when none matched.
\<close>

definition apply_update :: "js_string \<Rightarrow> js_string \<Rightarrow> int \<Rightarrow> INote \<Rightarrow> INote" where
  "apply_update t c now n = n\<lparr>title := t, content := c, updatedAt := now\<rparr>"

definition note_find_by_id_and_update ::
  "js_string \<Rightarrow> js_string \<Rightarrow> js_string \<Rightarrow> (INote option, server) exn_st" where
  "note_find_by_id_and_update i t c =
     bindE (cast_id i) (\<lambda>k.
     bindE (liftE (note_schema_cast t c)) (\<lambda>(t', c').
     bindE store_guard (\<lambda>_. \<lambda>s.
       case find_note k (docs s) of
         None \<Rightarrow> (Inr None, s)
       | Some n \<Rightarrow>
           (Inr (Some (apply_update t' c' (clock s) n)),
            s\<lparr>docs := map (\<lambda>m. if note_id m = k then apply_update t' c' (clock s) m else m)
                          (docs s)\<rparr>))))"

definition note_find_by_id_and_delete :: "js_string \<Rightarrow> (INote option, server) exn_st" where
  "note_find_by_id_and_delete i =
     bindE (cast_id i) (\<lambda>k.
     bindE store_guard (\<lambda>_. \<lambda>s.
       case find_note k (docs s) of
         None \<Rightarrow> (Inr None, s)
       | Some n \<Rightarrow> (Inr (Some n), s\<lparr>docs := filter (\<lambda>m. note_id m \<noteq> k) (docs s)\<rparr>)))"

section \<open>The store invariant\<close>

text \<open>
  What the schema and the timestamps guarantee of every stored note at clock
  \<open>now\<close>, and of the collection: identifiers are unique.
\<close>

definition note_wf :: "int \<Rightarrow> INote \<Rightarrow> bool" where
  "note_wf now n \<longleftrightarrow>
     title n \<noteq> [] \<and> js_trim (title n) = title n \<and> length (title n) \<le> 100 \<and>
     content n \<noteq> [] \<and> js_trim (content n) = content n \<and>
     createdAt n \<le> updatedAt n \<and> updatedAt n \<le> now"

definition store_wf :: "server \<Rightarrow> bool" where
  "store_wf s \<longleftrightarrow> distinct (map note_id (docs s)) \<and> (\<forall>n\<in>set (docs s). note_wf (clock s) n)"

text \<open>The collection read as a map from ObjectIds, the abstraction of the refinement.\<close>

definition store_map :: "server \<Rightarrow> oid \<rightharpoonup> INote" where
  "store_map s = keyed note_id (docs s)"

section \<open>Abstract specification of the collection\<close>

text \<open>
  What the five operations promise, stated on the collection read as a map from
  ObjectIds to notes (\<open>store_map\<close>, the abstraction function): a create inserts a
  validated note under an unused id, a lookup reads the map, an update rewrites the
  entry in place with \<open>updatedAt\<close> set to the clock, a delete removes the entry. The
  commands name the operations; \<open>store_exec\<close> runs the Mongoose model of each.
\<close>

datatype store_cmd =
    CreateCmd oid js_string js_string
  | FindCmd js_string
  | UpdateCmd js_string js_string js_string
  | DeleteCmd js_string

datatype store_result = Created INote | Found "INote option"

fun store_exec :: "store_cmd \<Rightarrow> (store_result, server) exn_st" where
  "store_exec (CreateCmd k t c) = bindE (note_create k t c) (\<lambda>n. returnE (Created n))"
| "store_exec (FindCmd i) = bindE (note_find_by_id i) (\<lambda>r. returnE (Found r))"
| "store_exec (UpdateCmd i t c) = bindE (note_find_by_id_and_update i t c) (\<lambda>r. returnE (Found r))"
| "store_exec (DeleteCmd i) = bindE (note_find_by_id_and_delete i) (\<lambda>r. returnE (Found r))"

fun store_spec ::
  "store_cmd \<Rightarrow> int \<Rightarrow> (oid \<rightharpoonup> INote) \<Rightarrow> (store_result \<times> (oid \<rightharpoonup> INote)) option" where
  "store_spec (CreateCmd k t c) now m =
     (case note_schema_cast t c of
        Inl _ \<Rightarrow> None
      | Inr (t', c') \<Rightarrow>
          if m k \<noteq> None then None
          else let n = \<lparr>note_id = k, title = t', content = c', createdAt = now, updatedAt = now\<rparr>
               in Some (Created n, m(k \<mapsto> n)))"
| "store_spec (FindCmd i) now m =
     map_option (\<lambda>k. (Found (m k), m)) (object_id_of_hex i)"
| "store_spec (UpdateCmd i t c) now m =
     (case (object_id_of_hex i, note_schema_cast t c) of
        (Some k, Inr (t', c')) \<Rightarrow>
          let r = map_option (apply_update t' c' now) (m k) in Some (Found r, m(k := r))
      | _ \<Rightarrow> None)"
| "store_spec (DeleteCmd i) now m =
     map_option (\<lambda>k. (Found (m k), m(k := None))) (object_id_of_hex i)"

declare note_schema_cast_def [eval_simps] db_connect_def [eval_simps] find_note_def [eval_simps]
  sort_by_created_desc_def [eval_simps] apply_update_def [eval_simps] note_find_sorted_def [eval_simps]
  note_create_def [eval_simps] note_find_by_id_def [eval_simps]
  note_find_by_id_and_update_def [eval_simps] note_find_by_id_and_delete_def [eval_simps]
  cast_id_def [eval_simps] store_guard_def [eval_simps]

section \<open>Lemmas\<close>

lemma note_schema_cast_Inr:
  "note_schema_cast t c = Inr (t', c') \<longleftrightarrow>
     t' = js_trim t \<and> c' = js_trim c \<and> t' \<noteq> [] \<and> length t' \<le> 100 \<and> c' \<noteq> []"
  by (auto simp: note_schema_cast_def Let_def)

lemma note_schema_cast_Inl:
  "note_schema_cast t c = Inl e \<longleftrightarrow>
     e = ValidationError \<and> (js_trim t = [] \<or> 100 < length (js_trim t) \<or> js_trim c = [])"
  by (auto simp: note_schema_cast_def Let_def)

lemma note_schema_cast_wf:
  "note_schema_cast t c = Inr (t', c') \<Longrightarrow>
     t' \<noteq> [] \<and> js_trim t' = t' \<and> length t' \<le> 100 \<and> c' \<noteq> [] \<and> js_trim c' = c'"
  by (auto simp: note_schema_cast_Inr js_trim_idem)

lemma find_note_keyed: "find_note k ns = keyed note_id ns k"
  by (simp add: find_note_def keyed_find)

lemma find_note_Some: "find_note k ns = Some n \<Longrightarrow> n \<in> set ns \<and> note_id n = k"
  unfolding find_note_keyed by (rule keyed_Some_D)

lemma find_note_None: "find_note k ns = None \<longleftrightarrow> k \<notin> set (map note_id ns)"
  by (simp add: find_note_keyed keyed_None_iff)

lemma store_guard_apply [simp]:
  "store_guard s = (if connected s \<and> reachable s then (Inr (), s) else (Inl StoreFailure, s))"
  by (simp add: store_guard_def)

lemma db_connect_apply:
  "db_connect s =
     (if connected s then (Inr (), s)
      else if reachable s then (Inr (), s\<lparr>connected := True\<rparr>)
      else (Inl ConnectFailure, s))"
  by (simp add: db_connect_def)

lemma cast_id_apply [simp]:
  "cast_id i s = (case object_id_of_hex i of None \<Rightarrow> Inl CastError | Some k \<Rightarrow> Inr k, s)"
  by (simp add: cast_id_def)

lemmas store_op_defs = note_find_sorted_def note_create_def note_find_by_id_def
  note_find_by_id_and_update_def note_find_by_id_and_delete_def

lemma db_connect_ok:
  "connected s \<or> reachable s \<Longrightarrow> db_connect s = (Inr (), s\<lparr>connected := True\<rparr>)"
  by (cases s) (auto simp: db_connect_def)

lemma db_connect_docs:
  "db_connect s = (r, s') \<Longrightarrow> docs s' = docs s \<and> clock s' = clock s \<and> reachable s' = reachable s"
  by (auto simp: db_connect_def split: if_splits)

lemma note_create_Inl_state: "note_create fresh t c s = (Inl e, s') \<Longrightarrow> s' = s"
  by (auto simp: note_create_def Let_def split: sum.splits if_splits)

subsection \<open>Invariant preservation\<close>

lemma note_wf_mono: "note_wf now n \<Longrightarrow> now \<le> now' \<Longrightarrow> note_wf now' n"
  by (auto simp: note_wf_def)

lemma store_wf_docs_clock:
  "store_wf s \<Longrightarrow> docs s' = docs s \<Longrightarrow> clock s \<le> clock s' \<Longrightarrow> store_wf s'"
  by (auto simp: store_wf_def intro: note_wf_mono)

lemma preserves_db_connect: "preserves store_wf db_connect"
  by (auto simp: preserves_def store_wf_def db_connect_apply)

lemma preserves_store_guard: "preserves store_wf store_guard"
  by (simp add: preserves_def)

lemma preserves_cast_id: "preserves store_wf (cast_id i)"
  by (simp add: preserves_def)

lemma preserves_note_find_sorted: "preserves store_wf note_find_sorted"
  by (simp add: preserves_def note_find_sorted_def)

lemma preserves_note_find_by_id: "preserves store_wf (note_find_by_id i)"
  by (auto simp: preserves_def note_find_by_id_def split: option.splits)

lemma preserves_note_create: "preserves store_wf (note_create fresh t c)"
proof (unfold preserves_def, intro allI impI)
  fix s assume wf: "store_wf s"
  show "store_wf (snd (note_create fresh t c s))"
  proof (cases "note_schema_cast t c")
    case (Inl e)
    with wf show ?thesis by (simp add: note_create_def)
  next
    case (Inr p)
    obtain t' c' where p: "p = (t', c')" by (cases p)
    with Inr have v: "t' \<noteq> [] \<and> js_trim t' = t' \<and> length t' \<le> 100 \<and> c' \<noteq> [] \<and> js_trim c' = c'"
      by (simp add: note_schema_cast_wf)
    have new: "note_wf (clock s) \<lparr>note_id = fresh, title = t', content = c',
                   createdAt = clock s, updatedAt = clock s\<rparr>"
      using v by (simp add: note_wf_def)
    show ?thesis
      using wf Inr p new by (auto simp: note_create_def store_wf_def Let_def)
  qed
qed

lemma note_id_apply_update [simp]: "note_id (apply_update t c now n) = note_id n"
  by (simp add: apply_update_def)

lemma map_note_id_replace [simp]:
  "map (note_id \<circ> (\<lambda>m. if note_id m = k then apply_update t c now m else m)) xs = map note_id xs"
  by (induction xs) auto

lemma note_wf_apply_update:
  "note_wf now n \<Longrightarrow> note_schema_cast t c = Inr (t', c') \<Longrightarrow> note_wf now (apply_update t' c' now n)"
  by (auto simp: note_wf_def apply_update_def dest!: note_schema_cast_wf)

lemma preserves_note_find_by_id_and_update: "preserves store_wf (note_find_by_id_and_update i t c)"
proof (unfold preserves_def, intro allI impI)
  fix s assume wf: "store_wf s"
  show "store_wf (snd (note_find_by_id_and_update i t c s))"
  proof (cases "note_schema_cast t c")
    case (Inl e)
    with wf show ?thesis
      by (simp add: note_find_by_id_and_update_def split: option.splits)
  next
    case (Inr p)
    obtain t' c' where p: "p = (t', c')" by (cases p)
    have "\<forall>n\<in>set (docs s). note_wf (clock s) (apply_update t' c' (clock s) n)"
      using wf Inr p by (auto simp: store_wf_def intro: note_wf_apply_update)
    with wf Inr p show ?thesis
      by (auto simp: note_find_by_id_and_update_def store_wf_def split: option.splits)
  qed
qed

lemma preserves_note_find_by_id_and_delete: "preserves store_wf (note_find_by_id_and_delete i)"
  unfolding preserves_def note_find_by_id_and_delete_def
  by (auto simp: store_wf_def distinct_map_filter_keyed split: sum.splits option.splits)

lemma preserves_connected_ops:
  "preserves (\<lambda>s. connected s) note_find_sorted"
  "preserves (\<lambda>s. connected s) (note_create fresh t c)"
  "preserves (\<lambda>s. connected s) (note_find_by_id i)"
  "preserves (\<lambda>s. connected s) (note_find_by_id_and_update i t c)"
  "preserves (\<lambda>s. connected s) (note_find_by_id_and_delete i)"
  by (auto simp: preserves_def note_find_sorted_def note_create_def Let_def note_find_by_id_def
                 note_find_by_id_and_update_def note_find_by_id_and_delete_def
           split: sum.splits option.splits)

lemmas store_preserves = preserves_db_connect preserves_note_find_sorted preserves_note_create
  preserves_note_find_by_id preserves_note_find_by_id_and_update
  preserves_note_find_by_id_and_delete

subsection \<open>Refinement of the collection to a map\<close>

lemma note_create_Inr:
  "note_create fresh t c s = (Inr n, s') \<longleftrightarrow>
     connected s \<and> reachable s \<and> fresh \<notin> set (map note_id (docs s)) \<and>
     note_schema_cast t c = Inr (title n, content n) \<and>
     note_id n = fresh \<and> createdAt n = clock s \<and> updatedAt n = clock s \<and>
     s' = s\<lparr>docs := docs s @ [n]\<rparr>"
  by (cases n) (auto simp: note_create_def Let_def split: sum.splits)

lemma note_create_Inr_docs: "note_create fresh t c s = (Inr n, s') \<Longrightarrow> docs s' = docs s @ [n]"
  by (simp add: note_create_Inr)

lemma store_map_note_create:
  "note_create fresh t c s = (Inr n, s') \<Longrightarrow>
     store_map s fresh = None \<and> store_map s' = (store_map s)(fresh \<mapsto> n)"
  by (auto simp: note_create_Inr store_map_def keyed_snoc keyed_None_iff)

lemma note_find_by_id_Inr:
  "note_find_by_id i s = (Inr r, s') \<longleftrightarrow>
     (\<exists>k. object_id_of_hex i = Some k \<and> connected s \<and> reachable s \<and>
          r = store_map s k \<and> s' = s)"
  by (auto simp: note_find_by_id_def store_map_def find_note_keyed split: option.splits)

lemma note_find_by_id_and_update_Inr:
  "note_find_by_id_and_update i t c s = (Inr r, s') \<longleftrightarrow>
     (\<exists>k t' c'. object_id_of_hex i = Some k \<and> note_schema_cast t c = Inr (t', c') \<and>
        connected s \<and> reachable s \<and>
        r = map_option (apply_update t' c' (clock s)) (store_map s k) \<and>
        s' = s\<lparr>docs := map (\<lambda>m. if note_id m = k then apply_update t' c' (clock s) m else m)
                          (docs s)\<rparr>)"
  by (auto simp: note_find_by_id_and_update_def store_map_def find_note_keyed
           map_replace_absent split: option.splits sum.splits)

lemma store_map_replace:
  "store_map (s\<lparr>docs := map (\<lambda>m. if note_id m = k then apply_update t c now m else m) (docs s)\<rparr>) =
     (store_map s)(k := map_option (apply_update t c now) (store_map s k))"
  by (simp add: store_map_def keyed_map_replace fun_eq_iff)

lemma store_map_remove:
  "store_map (s\<lparr>docs := filter (\<lambda>m. note_id m \<noteq> k) (docs s)\<rparr>) = (store_map s)(k := None)"
  by (simp add: store_map_def keyed_filter_other)

lemma store_map_note_find_by_id_and_update:
  "note_find_by_id_and_update i t c s = (Inr r, s') \<Longrightarrow>
     \<exists>k. object_id_of_hex i = Some k \<and> store_map s' = (store_map s)(k := r)"
  by (auto simp: note_find_by_id_and_update_Inr store_map_def keyed_map_replace fun_eq_iff)

lemma note_find_by_id_and_delete_Inr:
  "note_find_by_id_and_delete i s = (Inr r, s') \<longleftrightarrow>
     (\<exists>k. object_id_of_hex i = Some k \<and> connected s \<and> reachable s \<and>
        r = store_map s k \<and> s' = s\<lparr>docs := filter (\<lambda>m. note_id m \<noteq> k) (docs s)\<rparr>)"
  by (auto simp: note_find_by_id_and_delete_def store_map_def find_note_keyed
           filter_absent split: option.splits)

lemma store_map_note_find_by_id_and_delete:
  "note_find_by_id_and_delete i s = (Inr r, s') \<Longrightarrow>
     \<exists>k. object_id_of_hex i = Some k \<and> r = store_map s k \<and> store_map s' = (store_map s)(k := None)"
  by (auto simp: note_find_by_id_and_delete_Inr store_map_def keyed_filter_other)

lemma sort_by_created_desc_sorted:
  "sorted_wrt (\<lambda>a b. createdAt b \<le> createdAt a) (sort_by_created_desc ns)"
proof -
  have "sorted (map (\<lambda>n. - createdAt n) (sort_key (\<lambda>n. - createdAt n) ns))"
    by (rule sorted_sort_key)
  then show ?thesis by (simp add: sort_by_created_desc_def sorted_map)
qed

lemma mset_sort_by_created_desc: "mset (sort_by_created_desc ns) = mset ns"
  by (simp add: sort_by_created_desc_def)

lemma note_find_sorted_Inr:
  "note_find_sorted s = (Inr ns, s') \<longleftrightarrow>
     connected s \<and> reachable s \<and> ns = sort_by_created_desc (docs s) \<and> s' = s"
  by (auto simp: note_find_sorted_def)

text \<open>
  C13. Refinement: whenever a Mongoose operation of the model returns normally, the
  abstract specification on the map view of the collection allows exactly that
  result and that new map (the clock being the one at the call).
\<close>

theorem store_exec_refines_spec:
  "store_exec cmd s = (Inr r, s') \<Longrightarrow> store_spec cmd (clock s) (store_map s) = Some (r, store_map s')"
proof (cases cmd)
  case (CreateCmd k t c)
  then show "store_exec cmd s = (Inr r, s') \<Longrightarrow> ?thesis"
    by (auto simp: note_create_Inr store_map_note_create Let_def split: sum.splits prod.splits)
next
  case (FindCmd i)
  then show "store_exec cmd s = (Inr r, s') \<Longrightarrow> ?thesis"
    by (auto simp: note_find_by_id_Inr split: sum.splits prod.splits)
next
  case (UpdateCmd i t c)
  then show "store_exec cmd s = (Inr r, s') \<Longrightarrow> ?thesis"
    by (auto simp: note_find_by_id_and_update_Inr store_map_replace Let_def
             split: sum.splits prod.splits)
next
  case (DeleteCmd i)
  then show "store_exec cmd s = (Inr r, s') \<Longrightarrow> ?thesis"
    by (auto simp: note_find_by_id_and_delete_Inr store_map_remove split: sum.splits prod.splits)
qed

theorem store_exec_refines_spec_witness:
  "store_spec (DeleteCmd (js_str ''000000000000000000000007'')) (clock \<lparr>docs = [\<lparr>note_id = 7, title = js_str ''Shopping'', content = js_str ''Milk, eggs'', createdAt = 1000, updatedAt = 1000\<rparr>], clock = 2000, connected = True, reachable = True\<rparr>) (store_map \<lparr>docs = [\<lparr>note_id = 7, title = js_str ''Shopping'', content = js_str ''Milk, eggs'', createdAt = 1000, updatedAt = 1000\<rparr>], clock = 2000, connected = True, reachable = True\<rparr>) =
     Some (Found (Some \<lparr>note_id = 7, title = js_str ''Shopping'', content = js_str ''Milk, eggs'', createdAt = 1000, updatedAt = 1000\<rparr>), store_map (\<lparr>docs = [\<lparr>note_id = 7, title = js_str ''Shopping'', content = js_str ''Milk, eggs'', createdAt = 1000, updatedAt = 1000\<rparr>], clock = 2000, connected = True, reachable = True\<rparr>\<lparr>docs := []\<rparr>))"
  by (rule store_exec_refines_spec) (simp add: eval_simps)

end
