(* ===== verification/Notes_Api.thy ===== *)
theory Notes_Api
  imports Note_Model
begin

text \<open>
  The REST routes of \<^verbatim>\<open>src/app/api/notes/route.ts\<close> (\<^verbatim>\<open>GET\<close> lists, \<^verbatim>\<open>POST\<close>
  creates) and \<^verbatim>\<open>src/app/api/notes/[id]/route.ts\<close> (\<^verbatim>\<open>GET\<close>, \<^verbatim>\<open>PUT\<close>,
  \<^verbatim>\<open>DELETE\<close> one note). Each handler is its \<^verbatim>\<open>try\<close> block as a state-exception
  computation over the server state, closed by its \<^verbatim>\<open>catch\<close>, which turns every
  exception into a 500 response with the handler's fixed message and keeps the state
  the exception left. Early \<^verbatim>\<open>return\<close>s inside the block are normal results. The
  responses are the \<^verbatim>\<open>{success, data, error, message}\<close> envelope with an HTTP status.
\<close>

section \<open>Responses\<close>

datatype payload = NoteData INote | NoteList "INote list"

record envelope =
  success :: bool
  data :: "payload option"
  error :: "string option"
  message :: "string option"

record response =
  status :: nat
  body :: envelope

text \<open>\<^verbatim>\<open>NextResponse.json(body, { status })\<close>, status 200 when none is given.\<close>

definition json_response :: "nat \<Rightarrow> envelope \<Rightarrow> response" where
  "json_response st e = \<lparr>status = st, body = e\<rparr>"

definition data_response :: "nat \<Rightarrow> payload \<Rightarrow> response" where
  "data_response st p =
     json_response st \<lparr>success = True, data = Some p, error = None, message = None\<rparr>"

definition error_response :: "nat \<Rightarrow> string \<Rightarrow> response" where
  "error_response st msg =
     json_response st \<lparr>success = False, data = None, error = Some msg, message = None\<rparr>"

definition message_response :: "nat \<Rightarrow> string \<Rightarrow> response" where
  "message_response st msg =
     json_response st \<lparr>success = True, data = None, error = None, message = Some msg\<rparr>"

text \<open>\<^verbatim>\<open>try { ... } catch (error) { return 500 }\<close>.\<close>

definition run_route :: "string \<Rightarrow> (response, server) exn_st \<Rightarrow> server \<Rightarrow> response \<times> server" where
  "run_route msg m s =
     (case m s of (Inl e, s') \<Rightarrow> (error_response 500 msg, s') | (Inr r, s') \<Rightarrow> (r, s'))"

section \<open>Reading and validating the body\<close>

text \<open>
  The lines both \<^verbatim>\<open>POST\<close> and \<^verbatim>\<open>PUT\<close> run on the request body:
  \<^verbatim>\<open>request.json()\<close>, the destructuring of \<open>title\<close> and \<open>content\<close>, the
  truthiness check, the two \<^verbatim>\<open>trim()\<close> calls and the emptiness check. The result
  is either an early 400 response (\<open>Inl\<close>) or the two trimmed strings (\<open>Inr\<close>).
\<close>

definition read_note_fields ::
  "request_body \<Rightarrow> (response + js_string \<times> js_string, server) exn_st" where
  "read_note_fields req =
     bindE (liftE (request_json req)) (\<lambda>b.
     bindE (liftE (js_get_field b (js_str ''title''))) (\<lambda>tv.
     bindE (liftE (js_get_field b (js_str ''content''))) (\<lambda>cv.
     if \<not> js_truthy tv \<or> \<not> js_truthy cv
     then returnE (Inl (error_response 400 ''Title and content are required''))
     else
       bindE (liftE (js_call_trim tv)) (\<lambda>t.
       bindE (liftE (js_call_trim cv)) (\<lambda>c.
       if t = [] \<or> c = []
       then returnE (Inl (error_response 400 ''Title and content cannot be empty''))
       else returnE (Inr (t, c)))))))"

section \<open>The collection route: route.ts\<close>

definition api_get_notes :: "server \<Rightarrow> response \<times> server" where
  "api_get_notes =
     run_route ''Failed to fetch notes''
       (bindE db_connect (\<lambda>_.
        bindE note_find_sorted (\<lambda>ns.
        returnE (data_response 200 (NoteList ns)))))"

text \<open>\<open>fresh\<close> is the ObjectId the driver generates for the inserted document.\<close>

definition api_post_note :: "oid \<Rightarrow> request_body \<Rightarrow> server \<Rightarrow> response \<times> server" where
  "api_post_note fresh req =
     run_route ''Failed to create note''
       (bindE db_connect (\<lambda>_.
        bindE (read_note_fields req) (\<lambda>r.
        case r of
          Inl early \<Rightarrow> returnE early
        | Inr (t, c) \<Rightarrow>
            bindE (note_create fresh t c) (\<lambda>n.
            returnE (data_response 201 (NoteData n))))))"

section \<open>The member route: [id]/route.ts\<close>

definition api_get_note :: "js_string \<Rightarrow> server \<Rightarrow> response \<times> server" where
  "api_get_note i =
     run_route ''Failed to fetch note''
       (bindE db_connect (\<lambda>_.
        if \<not> is_valid_object_id i
        then returnE (error_response 400 ''Invalid note ID format'')
        else
          bindE (note_find_by_id i) (\<lambda>r.
          case r of
            None \<Rightarrow> returnE (error_response 404 ''Note not found'')
          | Some n \<Rightarrow> returnE (data_response 200 (NoteData n)))))"

definition api_put_note :: "js_string \<Rightarrow> request_body \<Rightarrow> server \<Rightarrow> response \<times> server" where
  "api_put_note i req =
     run_route ''Failed to update note''
       (bindE db_connect (\<lambda>_.
        if \<not> is_valid_object_id i
        then returnE (error_response 400 ''Invalid note ID format'')
        else
          bindE (read_note_fields req) (\<lambda>r.
          case r of
            Inl early \<Rightarrow> returnE early
          | Inr (t, c) \<Rightarrow>
              bindE (note_find_by_id_and_update i t c) (\<lambda>u.
              case u of
                None \<Rightarrow> returnE (error_response 404 ''Note not found'')
              | Some n \<Rightarrow> returnE (data_response 200 (NoteData n))))))"

definition api_delete_note :: "js_string \<Rightarrow> server \<Rightarrow> response \<times> server" where
  "api_delete_note i =
     run_route ''Failed to delete note''
       (bindE db_connect (\<lambda>_.
        if \<not> is_valid_object_id i
        then returnE (error_response 400 ''Invalid note ID format'')
        else
          bindE (note_find_by_id_and_delete i) (\<lambda>r.
          case r of
            None \<Rightarrow> returnE (error_response 404 ''Note not found'')
          | Some n \<Rightarrow> returnE (message_response 200 ''Note deleted successfully''))))"

section \<open>Routing\<close>

text \<open>
  The requests the two route files answer, as the Next.js router dispatches them;
  the client and the system model issue requests through this interface.
\<close>

datatype api_request =
    ListNotes
  | CreateNote oid request_body
  | GetNote js_string
  | UpdateNote js_string request_body
  | DeleteNote js_string

fun api_handle :: "api_request \<Rightarrow> server \<Rightarrow> response \<times> server" where
  "api_handle ListNotes = api_get_notes"
| "api_handle (CreateNote fresh req) = api_post_note fresh req"
| "api_handle (GetNote i) = api_get_note i"
| "api_handle (UpdateNote i req) = api_put_note i req"
| "api_handle (DeleteNote i) = api_delete_note i"

declare json_response_def [eval_simps] data_response_def [eval_simps]
  error_response_def [eval_simps] message_response_def [eval_simps] run_route_def [eval_simps]
  read_note_fields_def [eval_simps] api_get_notes_def [eval_simps] api_post_note_def [eval_simps]
  api_get_note_def [eval_simps] api_put_note_def [eval_simps] api_delete_note_def [eval_simps]

section \<open>Lemmas on the shared steps\<close>

lemma read_note_fields_state: "read_note_fields req s = (r, s') \<Longrightarrow> s' = s"
  by (auto simp: read_note_fields_def split: sum.splits if_splits)

lemma read_note_fields_result:
  "read_note_fields req s = (r, s') \<Longrightarrow>
     s' = s \<and> (\<forall>early. r = Inr (Inl early) \<longrightarrow> status early = 400 \<and> data (body early) = None)"
  by (auto simp: read_note_fields_def error_response_def json_response_def split: sum.splits if_splits)

lemma read_note_fields_strings:
  assumes "js_get_field b (js_str ''title'') = Inr (Some (JStr t))"
    and "js_get_field b (js_str ''content'') = Inr (Some (JStr c))"
  shows "read_note_fields (Json b) s =
    (Inr (if t = [] \<or> c = [] then Inl (error_response 400 ''Title and content are required'')
          else if js_trim t = [] \<or> js_trim c = []
          then Inl (error_response 400 ''Title and content cannot be empty'')
          else Inr (js_trim t, js_trim c)), s)"
  using assms by (simp add: read_note_fields_def request_json_def)

lemma preserves_read_note_fields: "preserves P (read_note_fields req)"
proof (unfold preserves_def, intro allI impI)
  fix s assume "P s"
  moreover obtain r s' where "read_note_fields req s = (r, s')"
    by (cases "read_note_fields req s")
  ultimately show "P (snd (read_note_fields req s))"
    by (auto dest: read_note_fields_state)
qed

lemma preserves_run_route: "preserves P m \<Longrightarrow> P s \<Longrightarrow> P (snd (run_route msg m s))"
  by (auto simp: run_route_def preserves_def split: prod.splits sum.splits)

lemma api_get_note_valid:
  assumes "object_id_of_hex i = Some k" and "reachable s"
  shows "api_get_note i s =
    ((case store_map s k of None \<Rightarrow> error_response 404 ''Note not found''
      | Some n \<Rightarrow> data_response 200 (NoteData n)), s\<lparr>connected := True\<rparr>)"
  using assms
  by (simp add: api_get_note_def run_route_def db_connect_ok is_valid_object_id_iff
                note_find_by_id_def store_map_def find_note_keyed split: option.splits)

lemma api_put_note_data:
  assumes "api_put_note i req s = (r, s')" and "data (body r) = Some (NoteData n)"
  shows "\<exists>t c. note_find_by_id_and_update i t c (snd (db_connect s)) = (Inr (Some n), s')"
  using assms
  by (fastforce simp: api_put_note_def run_route_def error_response_def data_response_def
                 json_response_def dest!: read_note_fields_result
           split: sum.splits if_splits option.splits prod.splits)

lemma api_delete_note_200:
  assumes "api_delete_note i s = (r, s1)" and "status r = 200"
  shows "\<exists>k. object_id_of_hex i = Some k \<and> store_map s1 k = None"
  using assms
  by (auto simp: api_delete_note_def run_route_def error_response_def message_response_def
                 json_response_def note_find_by_id_and_delete_Inr store_map_def keyed_filter_other
           split: prod.splits sum.splits if_splits option.splits)

lemma run_route_connect:
  assumes "\<And>x. preserves (\<lambda>s. connected s) (f x)" and "connected s \<or> reachable s"
  shows "connected (snd (run_route msg (bindE db_connect f) s))"
proof -
  have "connected (s\<lparr>connected := True\<rparr>)" by simp
  with assms(1) have "connected (snd (f () (s\<lparr>connected := True\<rparr>)))"
    by (simp add: preserves_def)
  with assms(2) show ?thesis
    by (auto simp: run_route_def db_connect_ok split: prod.splits sum.splits)
qed

lemma api_handle_store_wf: "store_wf s \<Longrightarrow> store_wf (snd (api_handle q s))"
  by (cases q, simp_all only: api_handle.simps api_get_notes_def api_post_note_def
        api_get_note_def api_put_note_def api_delete_note_def)
     (rule preserves_run_route,
      (intro preserves_combinators store_preserves preserves_read_note_fields), assumption)+

lemma api_delete_stored:
  assumes "reachable s" and "n \<in> set (docs s)"
  shows "api_delete_note (oid_to_hex (note_id n)) s =
           (message_response 200 ''Note deleted successfully'',
            s\<lparr>connected := True, docs := filter (\<lambda>m. note_id m \<noteq> note_id n) (docs s)\<rparr>)"
proof -
  from assms(2) obtain m where "find_note (note_id n) (docs s) = Some m"
    by (cases "find_note (note_id n) (docs s)") (auto simp: find_note_None)
  with assms(1) show ?thesis
    by (simp add: api_delete_note_def run_route_def db_connect_ok oid_to_hex_valid
                  note_find_by_id_and_delete_def cast_id_def)
qed

section \<open>Properties of the routes\<close>

text \<open>
  C1. Creating a note from a JSON object whose \<open>title\<close> and \<open>content\<close> are strings,
  non-empty after trimming and with a title of at most 100 code units, answers 201 with
  the stored note: the generated id, the trimmed strings, and \<open>createdAt = updatedAt\<close>
  equal to the request's clock; the collection gains exactly that document.
\<close>

theorem post_creates_note:
  assumes "reachable s" and "fresh \<notin> set (map note_id (docs s))"
    and "js_get_field b (js_str ''title'') = Inr (Some (JStr t))"
    and "js_get_field b (js_str ''content'') = Inr (Some (JStr c))"
    and "js_trim t \<noteq> []" and "length (js_trim t) \<le> 100" and "js_trim c \<noteq> []"
  shows "api_post_note fresh (Json b) s =
    (data_response 201 (NoteData \<lparr>note_id = fresh, title = js_trim t, content = js_trim c,
                                 createdAt = clock s, updatedAt = clock s\<rparr>),
     s\<lparr>connected := True,
       docs := docs s @ [\<lparr>note_id = fresh, title = js_trim t, content = js_trim c,
                          createdAt = clock s, updatedAt = clock s\<rparr>]\<rparr>)"
proof -
  have "t \<noteq> []" and "c \<noteq> []" using assms(5,7) by (auto dest: js_trim_nonempty)
  then show ?thesis
    using assms
    by (simp add: api_post_note_def run_route_def db_connect_ok read_note_fields_strings
                  note_create_def note_schema_cast_def Let_def)
qed

theorem post_creates_note_witness:
  "api_post_note 7
     (Json (JObj [(js_str ''title'', JStr (js_str '' Shopping '')),
                  (js_str ''content'', JStr (js_str ''Milk, eggs''))]))
     \<lparr>docs = [], clock = 1000, connected = False, reachable = True\<rparr> =
   (data_response 201 (NoteData \<lparr>note_id = 7, title = js_str ''Shopping'',
        content = js_str ''Milk, eggs'', createdAt = 1000, updatedAt = 1000\<rparr>),
    \<lparr>docs = [\<lparr>note_id = 7, title = js_str ''Shopping'', content = js_str ''Milk, eggs'',
              createdAt = 1000, updatedAt = 1000\<rparr>],
     clock = 1000, connected = True, reachable = True\<rparr>)"
proof -
  have "api_post_note 7
     (Json (JObj [(js_str ''title'', JStr (js_str '' Shopping '')),
                  (js_str ''content'', JStr (js_str ''Milk, eggs''))]))
     \<lparr>docs = [], clock = 1000, connected = False, reachable = True\<rparr> =
   (data_response 201 (NoteData \<lparr>note_id = 7, title = js_trim (js_str '' Shopping ''),
        content = js_trim (js_str ''Milk, eggs''),
        createdAt = clock \<lparr>docs = [], clock = 1000, connected = False, reachable = True\<rparr>,
        updatedAt = clock \<lparr>docs = [], clock = 1000, connected = False, reachable = True\<rparr>\<rparr>),
    \<lparr>docs = [], clock = 1000, connected = False, reachable = True\<rparr>\<lparr>connected := True,
      docs := docs \<lparr>docs = [], clock = 1000, connected = False, reachable = True\<rparr> @
        [\<lparr>note_id = 7, title = js_trim (js_str '' Shopping ''),
          content = js_trim (js_str ''Milk, eggs''),
          createdAt = clock \<lparr>docs = [], clock = 1000, connected = False, reachable = True\<rparr>,
          updatedAt = clock \<lparr>docs = [], clock = 1000, connected = False, reachable = True\<rparr>\<rparr>]\<rparr>)"
    by (rule post_creates_note) (simp_all add: eval_simps)
  then show ?thesis by (simp add: js_trim_def is_js_space_def js_str_def)
qed

text \<open>
  C2. A create request either answers 201 and appends exactly the returned note to the
  collection, or answers 400 or 500 and persists nothing.
\<close>

theorem post_outcome:
  "case api_post_note fresh req s of (r, s') \<Rightarrow>
     (status r = 201 \<and> (\<exists>n. docs s' = docs s @ [n] \<and> data (body r) = Some (NoteData n))) \<or>
     ((status r = 400 \<or> status r = 500) \<and> docs s' = docs s)"
  unfolding api_post_note_def run_route_def
  by (auto simp: error_response_def data_response_def json_response_def
           dest!: db_connect_docs read_note_fields_result
                  note_create_Inl_state note_create_Inr_docs
           split: prod.splits sum.splits)

text \<open>
  C3. A create request whose title or content is empty or whitespace only (both given as
  strings) answers 400, with the message of the check that caught it, and leaves the
  collection as it was.
\<close>

theorem post_blank_fields_400:
  assumes "connected s \<or> reachable s"
    and "js_get_field b (js_str ''title'') = Inr (Some (JStr t))"
    and "js_get_field b (js_str ''content'') = Inr (Some (JStr c))"
    and "js_trim t = [] \<or> js_trim c = []"
  shows "api_post_note fresh (Json b) s =
    (error_response 400 (if t = [] \<or> c = [] then ''Title and content are required''
                         else ''Title and content cannot be empty''), s\<lparr>connected := True\<rparr>)"
  using assms by (auto simp: api_post_note_def run_route_def db_connect_ok read_note_fields_strings)

theorem post_blank_fields_400_witness:
  "api_post_note 7 (Json (JObj [(js_str ''title'', JStr (js_str ''   '')),
                               (js_str ''content'', JStr (js_str ''x''))])) \<lparr>docs = [], clock = 1000, connected = False, reachable = True\<rparr> =
   (error_response 400 ''Title and content cannot be empty'', \<lparr>docs = [], clock = 1000, connected = False, reachable = True\<rparr>\<lparr>connected := True\<rparr>)"
  using post_blank_fields_400 [of "\<lparr>docs = [], clock = 1000, connected = False, reachable = True\<rparr>" "JObj [(js_str ''title'', JStr (js_str ''   '')),
                               (js_str ''content'', JStr (js_str ''x''))]"
                               "js_str ''   ''" "js_str ''x''" 7]
  by (simp add: js_trim_def is_js_space_def js_str_def)

text \<open>
  C4. Fetching with an id that is not 24 hex digits answers 400 and never reaches the
  collection: the only state change is the connection \<^verbatim>\<open>dbConnect\<close> opened.
\<close>

theorem get_invalid_id_400:
  "\<not> is_valid_object_id i \<Longrightarrow> connected s \<or> reachable s \<Longrightarrow>
     api_get_note i s = (error_response 400 ''Invalid note ID format'', s\<lparr>connected := True\<rparr>)"
  by (simp add: api_get_note_def run_route_def db_connect_ok)

theorem get_invalid_id_400_witness:
  "api_get_note (js_str ''hello'') \<lparr>docs = [], clock = 1000, connected = False, reachable = True\<rparr> =
     (error_response 400 ''Invalid note ID format'', \<lparr>docs = [], clock = 1000, connected = False, reachable = True\<rparr>\<lparr>connected := True\<rparr>)"
  using get_invalid_id_400 [of "js_str ''hello''" "\<lparr>docs = [], clock = 1000, connected = False, reachable = True\<rparr>"]
  by (simp add: js_str_def is_valid_object_id_def)

text \<open>
  C5. Fetching a well-formed id that no stored note has answers 404 and changes nothing
  but the connection.
\<close>

theorem get_missing_404:
  "object_id_of_hex i = Some k \<Longrightarrow> reachable s \<Longrightarrow> store_map s k = None \<Longrightarrow>
     api_get_note i s = (error_response 404 ''Note not found'', s\<lparr>connected := True\<rparr>)"
  by (simp add: api_get_note_valid)

theorem get_missing_404_witness:
  "api_get_note (js_str ''000000000000000000000007'') \<lparr>docs = [], clock = 1000, connected = False, reachable = True\<rparr> = (error_response 404 ''Note not found'', \<lparr>docs = [], clock = 1000, connected = False, reachable = True\<rparr>\<lparr>connected := True\<rparr>)"
  using get_missing_404 [of "js_str ''000000000000000000000007''" 7 "\<lparr>docs = [], clock = 1000, connected = False, reachable = True\<rparr>"]
  by (simp add: js_str_def object_id_of_hex_def hex_val_def horner16_def store_map_def)

text \<open>
  C6. A successful update returns the stored note with its id and \<open>createdAt\<close>
  unchanged and \<open>updatedAt\<close> set to the request's clock, which is at least the previous
  \<open>updatedAt\<close> and at least \<open>createdAt\<close>; the collection then holds exactly the
  returned note under that id.
\<close>

theorem put_refreshes_updatedAt:
  assumes "store_wf s" and "api_put_note i req s = (r, s')" and "data (body r) = Some (NoteData n)"
  shows "\<exists>old. store_map s (note_id n) = Some old \<and> createdAt n = createdAt old \<and>
           updatedAt n = clock s \<and> updatedAt old \<le> updatedAt n \<and> createdAt n \<le> updatedAt n \<and>
           store_map s' (note_id n) = Some n"
proof -
  define s1 where "s1 = snd (db_connect s)"
  have s1: "docs s1 = docs s" "clock s1 = clock s"
    unfolding s1_def by (metis db_connect_docs prod.collapse)+
  obtain t c where upd: "note_find_by_id_and_update i t c s1 = (Inr (Some n), s')"
    using api_put_note_data [OF assms(2,3)] unfolding s1_def by blast
  from upd obtain k t' c' where k: "object_id_of_hex i = Some k"
    and r: "Some n = map_option (apply_update t' c' (clock s1)) (store_map s1 k)"
    by (auto simp: note_find_by_id_and_update_Inr)
  then obtain old where old: "store_map s1 k = Some old" and n: "n = apply_update t' c' (clock s1) old"
    by (cases "store_map s1 k") auto
  from store_map_note_find_by_id_and_update [OF upd] k
  have "store_map s' k = Some n" by auto
  moreover have "note_id n = k" "note_id old = k"
    using old n by (auto simp: store_map_def dest: keyed_Some_D)
  moreover have "note_wf (clock s) old"
    using assms(1) old s1 by (auto simp: store_wf_def store_map_def dest: keyed_Some_D)
  ultimately show ?thesis
    using old n s1 by (auto simp: store_map_def apply_update_def note_wf_def)
qed

theorem put_refreshes_updatedAt_witness:
  "\<exists>old. store_map \<lparr>docs = [\<lparr>note_id = 7, title = js_str ''Shopping'', content = js_str ''Milk, eggs'', createdAt = 1000, updatedAt = 1000\<rparr>], clock = 2000, connected = True, reachable = True\<rparr> (note_id \<lparr>note_id = 7, title = js_str ''Shopping list'', content = js_str ''Milk, eggs, bread'', createdAt = 1000, updatedAt = 2000\<rparr>) = Some old \<and> createdAt \<lparr>note_id = 7, title = js_str ''Shopping list'', content = js_str ''Milk, eggs, bread'', createdAt = 1000, updatedAt = 2000\<rparr> = createdAt old \<and>
     updatedAt \<lparr>note_id = 7, title = js_str ''Shopping list'', content = js_str ''Milk, eggs, bread'', createdAt = 1000, updatedAt = 2000\<rparr> = clock \<lparr>docs = [\<lparr>note_id = 7, title = js_str ''Shopping'', content = js_str ''Milk, eggs'', createdAt = 1000, updatedAt = 1000\<rparr>], clock = 2000, connected = True, reachable = True\<rparr> \<and> updatedAt old \<le> updatedAt \<lparr>note_id = 7, title = js_str ''Shopping list'', content = js_str ''Milk, eggs, bread'', createdAt = 1000, updatedAt = 2000\<rparr> \<and>
     createdAt \<lparr>note_id = 7, title = js_str ''Shopping list'', content = js_str ''Milk, eggs, bread'', createdAt = 1000, updatedAt = 2000\<rparr> \<le> updatedAt \<lparr>note_id = 7, title = js_str ''Shopping list'', content = js_str ''Milk, eggs, bread'', createdAt = 1000, updatedAt = 2000\<rparr> \<and>
     store_map (snd (api_put_note (js_str ''000000000000000000000007'') (Json (JObj [(js_str ''title'', JStr (js_str ''Shopping list'')), (js_str ''content'', JStr (js_str ''Milk, eggs, bread''))])) \<lparr>docs = [\<lparr>note_id = 7, title = js_str ''Shopping'', content = js_str ''Milk, eggs'', createdAt = 1000, updatedAt = 1000\<rparr>], clock = 2000, connected = True, reachable = True\<rparr>)) (note_id \<lparr>note_id = 7, title = js_str ''Shopping list'', content = js_str ''Milk, eggs, bread'', createdAt = 1000, updatedAt = 2000\<rparr>) = Some \<lparr>note_id = 7, title = js_str ''Shopping list'', content = js_str ''Milk, eggs, bread'', createdAt = 1000, updatedAt = 2000\<rparr>"
proof -
  have wf: "store_wf \<lparr>docs = [\<lparr>note_id = 7, title = js_str ''Shopping'', content = js_str ''Milk, eggs'', createdAt = 1000, updatedAt = 1000\<rparr>], clock = 2000, connected = True, reachable = True\<rparr>"
    by (simp add: store_wf_def note_wf_def eval_simps)
  have run: "api_put_note (js_str ''000000000000000000000007'') (Json (JObj [(js_str ''title'', JStr (js_str ''Shopping list'')), (js_str ''content'', JStr (js_str ''Milk, eggs, bread''))])) \<lparr>docs = [\<lparr>note_id = 7, title = js_str ''Shopping'', content = js_str ''Milk, eggs'', createdAt = 1000, updatedAt = 1000\<rparr>], clock = 2000, connected = True, reachable = True\<rparr> =
      (fst (api_put_note (js_str ''000000000000000000000007'') (Json (JObj [(js_str ''title'', JStr (js_str ''Shopping list'')), (js_str ''content'', JStr (js_str ''Milk, eggs, bread''))])) \<lparr>docs = [\<lparr>note_id = 7, title = js_str ''Shopping'', content = js_str ''Milk, eggs'', createdAt = 1000, updatedAt = 1000\<rparr>], clock = 2000, connected = True, reachable = True\<rparr>), snd (api_put_note (js_str ''000000000000000000000007'') (Json (JObj [(js_str ''title'', JStr (js_str ''Shopping list'')), (js_str ''content'', JStr (js_str ''Milk, eggs, bread''))])) \<lparr>docs = [\<lparr>note_id = 7, title = js_str ''Shopping'', content = js_str ''Milk, eggs'', createdAt = 1000, updatedAt = 1000\<rparr>], clock = 2000, connected = True, reachable = True\<rparr>))"
    by simp
  have d: "data (body (fst (api_put_note (js_str ''000000000000000000000007'') (Json (JObj [(js_str ''title'', JStr (js_str ''Shopping list'')), (js_str ''content'', JStr (js_str ''Milk, eggs, bread''))])) \<lparr>docs = [\<lparr>note_id = 7, title = js_str ''Shopping'', content = js_str ''Milk, eggs'', createdAt = 1000, updatedAt = 1000\<rparr>], clock = 2000, connected = True, reachable = True\<rparr>))) = Some (NoteData \<lparr>note_id = 7, title = js_str ''Shopping list'', content = js_str ''Milk, eggs, bread'', createdAt = 1000, updatedAt = 2000\<rparr>)"
    by (simp add: eval_simps)
  show ?thesis by (rule put_refreshes_updatedAt [OF wf run d])
qed

text \<open>
  C7. After a delete that answered 200, fetching the same id answers 404, as long as the
  database still answers.
\<close>

theorem delete_then_get_404:
  assumes "api_delete_note i s = (r, s1)" and "status r = 200" and "reachable s1"
  shows "fst (api_get_note i s1) = error_response 404 ''Note not found''"
  using api_delete_note_200 [OF assms(1,2)] assms(3) by (auto simp: api_get_note_valid)

theorem delete_then_get_404_witness:
  "fst (api_get_note (js_str ''000000000000000000000007'') (snd (api_delete_note (js_str ''000000000000000000000007'') \<lparr>docs = [\<lparr>note_id = 7, title = js_str ''Shopping'', content = js_str ''Milk, eggs'', createdAt = 1000, updatedAt = 1000\<rparr>], clock = 2000, connected = True, reachable = True\<rparr>))) = error_response 404 ''Note not found''"
proof -
  have run: "api_delete_note (js_str ''000000000000000000000007'') \<lparr>docs = [\<lparr>note_id = 7, title = js_str ''Shopping'', content = js_str ''Milk, eggs'', createdAt = 1000, updatedAt = 1000\<rparr>], clock = 2000, connected = True, reachable = True\<rparr> = (fst (api_delete_note (js_str ''000000000000000000000007'') \<lparr>docs = [\<lparr>note_id = 7, title = js_str ''Shopping'', content = js_str ''Milk, eggs'', createdAt = 1000, updatedAt = 1000\<rparr>], clock = 2000, connected = True, reachable = True\<rparr>), snd (api_delete_note (js_str ''000000000000000000000007'') \<lparr>docs = [\<lparr>note_id = 7, title = js_str ''Shopping'', content = js_str ''Milk, eggs'', createdAt = 1000, updatedAt = 1000\<rparr>], clock = 2000, connected = True, reachable = True\<rparr>))"
    by simp
  have ok: "status (fst (api_delete_note (js_str ''000000000000000000000007'') \<lparr>docs = [\<lparr>note_id = 7, title = js_str ''Shopping'', content = js_str ''Milk, eggs'', createdAt = 1000, updatedAt = 1000\<rparr>], clock = 2000, connected = True, reachable = True\<rparr>)) = 200"
    by (simp add: eval_simps)
  have up: "reachable (snd (api_delete_note (js_str ''000000000000000000000007'') \<lparr>docs = [\<lparr>note_id = 7, title = js_str ''Shopping'', content = js_str ''Milk, eggs'', createdAt = 1000, updatedAt = 1000\<rparr>], clock = 2000, connected = True, reachable = True\<rparr>))"
    by (simp add: eval_simps)
  show ?thesis by (rule delete_then_get_404 [OF run ok up])
qed

text \<open>
  C8. Listing answers 200 with every stored note exactly once, newest \<open>createdAt\<close>
  first.
\<close>

theorem list_newest_first:
  "reachable s \<Longrightarrow>
     \<exists>ns. api_get_notes s = (data_response 200 (NoteList ns), s\<lparr>connected := True\<rparr>) \<and>
          mset ns = mset (docs s) \<and> sorted_wrt (\<lambda>a b. createdAt b \<le> createdAt a) ns"
  by (auto simp: api_get_notes_def run_route_def db_connect_ok note_find_sorted_def
                 mset_sort_by_created_desc sort_by_created_desc_sorted)

theorem list_newest_first_witness:
  "\<exists>ns. api_get_notes \<lparr>docs = [\<lparr>note_id = 7, title = js_str ''Shopping'', content = js_str ''Milk, eggs'', createdAt = 1000, updatedAt = 1000\<rparr>], clock = 2000, connected = True, reachable = True\<rparr> = (data_response 200 (NoteList ns), \<lparr>docs = [\<lparr>note_id = 7, title = js_str ''Shopping'', content = js_str ''Milk, eggs'', createdAt = 1000, updatedAt = 1000\<rparr>], clock = 2000, connected = True, reachable = True\<rparr>\<lparr>connected := True\<rparr>) \<and>
     mset ns = mset (docs \<lparr>docs = [\<lparr>note_id = 7, title = js_str ''Shopping'', content = js_str ''Milk, eggs'', createdAt = 1000, updatedAt = 1000\<rparr>], clock = 2000, connected = True, reachable = True\<rparr>) \<and> sorted_wrt (\<lambda>a b. createdAt b \<le> createdAt a) ns"
  by (rule list_newest_first) simp

text \<open>
  C10. A create request whose trimmed title is longer than 100 code units passes the
  route's checks and fails the schema's \<^verbatim>\<open>maxlength\<close> validator inside
  \<^verbatim>\<open>Note.create\<close>; the \<^verbatim>\<open>ValidationError\<close> reaches the \<^verbatim>\<open>catch\<close> and the answer
  is 500, not the 400 the specification gives for an oversized title.
\<close>

theorem post_long_title_500:
  assumes "reachable s"
    and "js_get_field b (js_str ''title'') = Inr (Some (JStr t))"
    and "js_get_field b (js_str ''content'') = Inr (Some (JStr c))"
    and "js_trim c \<noteq> []" and "100 < length (js_trim t)"
  shows "api_post_note fresh (Json b) s = (error_response 500 ''Failed to create note'', s\<lparr>connected := True\<rparr>)"
proof -
  have tt: "js_trim t \<noteq> []" using assms(5) by auto
  then have "t \<noteq> []" "c \<noteq> []" using assms(4) by (auto dest: js_trim_nonempty)
  with tt show ?thesis
    using assms by (simp add: api_post_note_def run_route_def db_connect_ok read_note_fields_strings
                              note_create_def note_schema_cast_def Let_def)
qed

theorem post_long_title_500_witness:
  "api_post_note 7 (Json (JObj [(js_str ''title'', JStr (replicate 101 0x61)),
                               (js_str ''content'', JStr (js_str ''x''))])) \<lparr>docs = [], clock = 1000, connected = False, reachable = True\<rparr> =
   (error_response 500 ''Failed to create note'', \<lparr>docs = [], clock = 1000, connected = False, reachable = True\<rparr>\<lparr>connected := True\<rparr>)"
  using post_long_title_500 [of "\<lparr>docs = [], clock = 1000, connected = False, reachable = True\<rparr>" "JObj [(js_str ''title'', JStr (replicate 101 0x61)),
                               (js_str ''content'', JStr (js_str ''x''))]"
                               "replicate 101 0x61" "js_str ''x''" 7]
  by (simp add: js_trim_def is_js_space_def js_str_def)

text \<open>
  C11. A create request whose title is a truthy JSON value that is not a string (a
  number, \<open>true\<close>, an array or an object) passes the truthiness check and throws a
  \<^verbatim>\<open>TypeError\<close> at \<^verbatim>\<open>title.trim()\<close>: the answer is 500, not 400.
\<close>

theorem post_nonstring_title_500:
  assumes "connected s \<or> reachable s"
    and "js_get_field b (js_str ''title'') = Inr (Some tv)" and "js_truthy (Some tv)"
    and "\<forall>str. tv \<noteq> JStr str"
    and "js_get_field b (js_str ''content'') = Inr (Some cv)" and "js_truthy (Some cv)"
  shows "api_post_note fresh (Json b) s = (error_response 500 ''Failed to create note'', s\<lparr>connected := True\<rparr>)"
proof -
  have "js_call_trim (Some tv) = Inl TypeError" using assms(4) by (cases tv) auto
  then show ?thesis
    using assms by (simp add: api_post_note_def run_route_def db_connect_ok read_note_fields_def
                              request_json_def)
qed

theorem post_nonstring_title_500_witness:
  "api_post_note 7 (Json (JObj [(js_str ''title'', JNum 42), (js_str ''content'', JStr (js_str ''x''))]))
     \<lparr>docs = [], clock = 1000, connected = False, reachable = True\<rparr> = (error_response 500 ''Failed to create note'', \<lparr>docs = [], clock = 1000, connected = False, reachable = True\<rparr>\<lparr>connected := True\<rparr>)"
  using post_nonstring_title_500 [of "\<lparr>docs = [], clock = 1000, connected = False, reachable = True\<rparr>" "JObj [(js_str ''title'', JNum 42),
                                    (js_str ''content'', JStr (js_str ''x''))]"
                                  "JNum 42" "JStr (js_str ''x'')" 7]
  by (simp add: js_str_def)

text \<open>
  C12. The member routes open the connection before they look at the id: with the
  database unreachable, even a malformed id answers 500, not 400.
\<close>

theorem get_db_down_500:
  "\<not> connected s \<Longrightarrow> \<not> reachable s \<Longrightarrow>
     api_get_note i s = (error_response 500 ''Failed to fetch note'', s)"
  by (simp add: api_get_note_def run_route_def db_connect_def)

theorem get_db_down_500_witness:
  "api_get_note (js_str ''hello'') \<lparr>docs = [], clock = 0, connected = False, reachable = False\<rparr> =
     (error_response 500 ''Failed to fetch note'', \<lparr>docs = [], clock = 0, connected = False, reachable = False\<rparr>)"
  by (rule get_db_down_500) simp_all

text \<open>
  C14. The connection is opened lazily and then kept: a request answered while the
  connection is open or the database reachable leaves the connection open, whatever the
  route and whatever the answer, so \<^verbatim>\<open>dbConnect\<close> opens it at most once.
\<close>

theorem api_keeps_connection:
  "connected s \<or> reachable s \<Longrightarrow> connected (snd (api_handle q s))"
  by (cases q, simp_all only: api_handle.simps api_get_notes_def api_post_note_def
        api_get_note_def api_put_note_def api_delete_note_def)
     (rule run_route_connect,
      (intro preserves_combinators preserves_connected_ops preserves_read_note_fields),
      assumption)+

theorem api_keeps_connection_witness:
  "connected (snd (api_handle (DeleteNote (js_str ''hello''))
     \<lparr>docs = [], clock = 0, connected = False, reachable = True\<rparr>))"
  by (rule api_keeps_connection) simp

end
