(* ===== verification/Server_Events.thy ===== *)
theory Server_Events
  imports Notes_Api
begin

text \<open>
  The server as a system of events: HTTP requests answered by the route files
  (\<open>api_handle\<close>), clock ticks, and the database going down and coming back. A run
  collects the responses. The store invariant of \<open>Note_Model\<close> holds in every state a
  fresh deployment can reach.
\<close>

section \<open>Events and runs\<close>

datatype event =
    Req api_request   \<comment> \<open>an HTTP request, answered by the route files\<close>
  | Tick nat          \<comment> \<open>milliseconds pass\<close>
  | DbDown            \<comment> \<open>the database stops answering\<close>
  | DbUp              \<comment> \<open>the database answers again\<close>

fun server_step :: "server \<Rightarrow> event \<Rightarrow> response option \<times> server" where
  "server_step s (Req q) = (let (r, s') = api_handle q s in (Some r, s'))"
| "server_step s (Tick d) = (None, s\<lparr>clock := clock s + int d\<rparr>)"
| "server_step s DbDown = (None, s\<lparr>reachable := False\<rparr>)"
| "server_step s DbUp = (None, s\<lparr>reachable := True\<rparr>)"

fun server_run :: "server \<Rightarrow> event list \<Rightarrow> response list \<times> server" where
  "server_run s [] = ([], s)"
| "server_run s (e # es) =
     (let (r, s') = server_step s e; (rs, s'') = server_run s' es
      in (case r of None \<Rightarrow> rs | Some x \<Rightarrow> x # rs, s''))"

text \<open>A fresh deployment: an empty collection, no connection yet.\<close>

definition init_server :: "int \<Rightarrow> bool \<Rightarrow> server" where
  "init_server t up = \<lparr>docs = [], clock = t, connected = False, reachable = up\<rparr>"

inductive server_reachable :: "server \<Rightarrow> bool" where
  init: "server_reachable (init_server t up)"
| step: "server_reachable s \<Longrightarrow> server_reachable (snd (server_step s e))"

inductive_cases server_reachable_stepE: "server_reachable (snd (server_step s e))"

section \<open>Lemmas\<close>

lemma server_step_store_wf: "store_wf s \<Longrightarrow> store_wf (snd (server_step s e))"
proof (cases e)
  case (Req q)
  assume "store_wf s"
  then have "store_wf (snd (api_handle q s))" by (rule api_handle_store_wf)
  with Req show ?thesis by (simp add: case_prod_unfold Let_def)
qed (auto intro: store_wf_docs_clock)

end
