(* ===== verification/Api_Contract.thy ===== *)
theory Api_Contract
  imports Notes_Api
begin

text \<open>
  The interface between the route files and the page. The page reads a response through
  \<^verbatim>\<open>response.ok\<close> (status 200 to 299) and the envelope's \<^verbatim>\<open>success\<close> and
  \<^verbatim>\<open>data\<close>; \<open>api_contract\<close> states what such a response tells it about the
  collection: a failed request left it as it was, a successful one changed it as its
  route promises and carries the note or list the page splices in. The page's
  lemmas use only this contract; \<open>api_handle_contract\<close> shows the routes meet it.
\<close>

section \<open>The contract\<close>

text \<open>\<^verbatim>\<open>Response.ok\<close> of the Fetch API.\<close>

definition response_ok :: "response \<Rightarrow> bool" where
  "response_ok r = (200 \<le> status r \<and> status r < 300)"

text \<open>The effect a successful answer to each request has on the collection.\<close>

fun ok_effect :: "api_request \<Rightarrow> server \<Rightarrow> response \<Rightarrow> INote list \<Rightarrow> bool" where
  "ok_effect ListNotes s r ds \<longleftrightarrow>
     ds = docs s \<and> data (body r) = Some (NoteList (sort_by_created_desc (docs s)))"
| "ok_effect (CreateNote fresh req) s r ds \<longleftrightarrow>
     (\<exists>n. data (body r) = Some (NoteData n) \<and> note_id n = fresh \<and>
          createdAt n = clock s \<and> updatedAt n = clock s \<and> ds = docs s @ [n])"
| "ok_effect (GetNote i) s r ds \<longleftrightarrow>
     ds = docs s \<and>
     (\<exists>k n. object_id_of_hex i = Some k \<and> find_note k (docs s) = Some n \<and>
            data (body r) = Some (NoteData n))"
| "ok_effect (UpdateNote i req) s r ds \<longleftrightarrow>
     (\<exists>k n t c. object_id_of_hex i = Some k \<and> find_note k (docs s) = Some n \<and>
        data (body r) = Some (NoteData (apply_update t c (clock s) n)) \<and>
        ds = map (\<lambda>m. if note_id m = k then apply_update t c (clock s) m else m) (docs s))"
| "ok_effect (DeleteNote i) s r ds \<longleftrightarrow>
     (\<exists>k. object_id_of_hex i = Some k \<and> find_note k (docs s) \<noteq> None \<and>
          ds = filter (\<lambda>m. note_id m \<noteq> k) (docs s))"

text \<open>
  A request leaves the clock and the database's availability alone; \<^verbatim>\<open>success\<close>
  agrees with \<^verbatim>\<open>response.ok\<close>; and the collection changed as \<open>ok_effect\<close> says, or
  not at all.
\<close>

definition api_contract :: "api_request \<Rightarrow> server \<Rightarrow> response \<Rightarrow> server \<Rightarrow> bool" where
  "api_contract q s r s' \<longleftrightarrow>
     clock s' = clock s \<and> reachable s' = reachable s \<and> success (body r) = response_ok r \<and>
     (if response_ok r then ok_effect q s r (docs s') else docs s' = docs s)"

declare response_ok_def [eval_simps]

section \<open>Lemmas\<close>

lemma response_ok_simps [simp]:
  "response_ok (error_response st msg) \<longleftrightarrow> 200 \<le> st \<and> st < 300"
  "response_ok (data_response st p) \<longleftrightarrow> 200 \<le> st \<and> st < 300"
  "response_ok (message_response st msg) \<longleftrightarrow> 200 \<le> st \<and> st < 300"
  by (simp_all add: response_ok_def error_response_def data_response_def
                    message_response_def json_response_def)

lemma envelope_simps [simp]:
  "success (body (error_response st msg)) = False"
  "success (body (data_response st p)) = True"
  "success (body (message_response st msg)) = True"
  "data (body (data_response st p)) = Some p"
  by (simp_all add: error_response_def data_response_def message_response_def json_response_def)

lemma api_get_notes_contract:
  "api_contract ListNotes s (fst (api_get_notes s)) (snd (api_get_notes s))"
  by (auto simp: api_contract_def api_get_notes_def run_route_def db_connect_def note_find_sorted_def)

lemma ok_effect_connected [simp]:
  "ok_effect q (s\<lparr>connected := b\<rparr>) r ds = ok_effect q s r ds"
proof -
  have "clock (s\<lparr>connected := b\<rparr>) = clock s" "docs (s\<lparr>connected := b\<rparr>) = docs s" by simp_all
  then show ?thesis by (cases q) (simp_all only: ok_effect.simps)
qed

lemma api_contract_connected [simp]:
  "api_contract q (s\<lparr>connected := b\<rparr>) r s' = api_contract q s r s'"
  by (simp add: api_contract_def)

lemma api_contract_fail:
  "\<not> response_ok r \<Longrightarrow> \<not> success (body r) \<Longrightarrow> docs s' = docs s \<Longrightarrow> clock s' = clock s \<Longrightarrow>
   reachable s' = reachable s \<Longrightarrow> api_contract q s r s'"
  by (simp add: api_contract_def)

lemma run_route_contract:
  assumes "\<And>e s'. m s = (Inl e, s') \<Longrightarrow> docs s' = docs s \<and> clock s' = clock s \<and> reachable s' = reachable s"
    and "\<And>r s'. m s = (Inr r, s') \<Longrightarrow> api_contract q s r s'"
  shows "api_contract q s (fst (run_route msg m s)) (snd (run_route msg m s))"
proof (cases "m s")
  case (Pair x s')
  then show ?thesis
    using assms by (cases x) (auto simp: run_route_def intro: api_contract_fail)
qed

lemma run_route_connect_contract:
  assumes "api_contract q (s\<lparr>connected := True\<rparr>) (fst (run_route msg (f ()) (s\<lparr>connected := True\<rparr>)))
                     (snd (run_route msg (f ()) (s\<lparr>connected := True\<rparr>)))"
  shows "api_contract q s (fst (run_route msg (bindE db_connect f) s))
                          (snd (run_route msg (bindE db_connect f) s))"
proof (cases "connected s \<or> reachable s")
  case True
  then have "run_route msg (bindE db_connect f) s = run_route msg (f ()) (s\<lparr>connected := True\<rparr>)"
    by (simp add: run_route_def db_connect_ok)
  with assms show ?thesis by simp
next
  case False
  then have "run_route msg (bindE db_connect f) s = (error_response 500 msg, s)"
    by (simp add: run_route_def db_connect_def)
  then show ?thesis by (simp add: api_contract_fail)
qed

lemma read_note_fields_out:
  "read_note_fields req s = (x, s') \<Longrightarrow>
     s' = s \<and> (\<forall>early. x = Inr (Inl early) \<longrightarrow> \<not> response_ok early \<and> \<not> success (body early))"
  by (auto simp: read_note_fields_def split: sum.splits if_splits)

lemma api_post_note_contract:
  "api_contract (CreateNote fresh req) s (fst (api_post_note fresh req s)) (snd (api_post_note fresh req s))"
  unfolding api_post_note_def
  apply (rule run_route_connect_contract)
  apply (rule run_route_contract)
   apply (auto split: prod.splits sum.splits dest!: read_note_fields_out note_create_Inl_state)[1]
  apply (auto simp: api_contract_def note_create_Inr split: prod.splits sum.splits
           dest!: read_note_fields_out)
  done

lemma store_ops_Inl_state:
  "note_find_by_id i s = (Inl e, s') \<Longrightarrow> s' = s"
  "note_find_by_id_and_update i t c s = (Inl e, s') \<Longrightarrow> s' = s"
  "note_find_by_id_and_delete i s = (Inl e, s') \<Longrightarrow> s' = s"
  by (auto simp: note_find_by_id_def note_find_by_id_and_update_def note_find_by_id_and_delete_def
           split: option.splits sum.splits if_splits prod.splits)

lemma api_get_note_contract:
  "api_contract (GetNote i) s (fst (api_get_note i s)) (snd (api_get_note i s))"
  unfolding api_get_note_def
  apply (rule run_route_connect_contract)
  apply (rule run_route_contract)
   apply (auto split: prod.splits sum.splits if_splits option.splits dest!: store_ops_Inl_state(1))[1]
  apply (auto simp: api_contract_def note_find_by_id_Inr store_map_def find_note_keyed
              split: prod.splits sum.splits if_splits option.splits)
  done

lemma api_put_note_contract:
  "api_contract (UpdateNote i req) s (fst (api_put_note i req s)) (snd (api_put_note i req s))"
  unfolding api_put_note_def
  apply (rule run_route_connect_contract)
  apply (rule run_route_contract)
   apply (auto split: prod.splits sum.splits if_splits option.splits
               dest!: read_note_fields_out store_ops_Inl_state(2))[1]
  apply (auto simp: api_contract_def note_find_by_id_and_update_Inr store_map_def find_note_keyed
                    map_replace_absent
              split: prod.splits sum.splits if_splits option.splits dest!: read_note_fields_out)
  apply blast
  done

lemma api_delete_note_contract:
  "api_contract (DeleteNote i) s (fst (api_delete_note i s)) (snd (api_delete_note i s))"
  unfolding api_delete_note_def
  apply (rule run_route_connect_contract)
  apply (rule run_route_contract)
   apply (auto split: prod.splits sum.splits if_splits option.splits dest!: store_ops_Inl_state(3))[1]
  apply (auto simp: api_contract_def note_find_by_id_and_delete_Inr store_map_def find_note_keyed
                    filter_absent
              split: prod.splits sum.splits if_splits option.splits)
  done

section \<open>The routes meet the contract\<close>

text \<open>
  Every request the routes answer meets the contract: the clock and the database's
  availability are untouched, \<^verbatim>\<open>success\<close> equals \<^verbatim>\<open>response.ok\<close>, a failed
  request leaves the collection as it was, and a successful one changed it exactly as
  its route promises and carries the matching note or list.
\<close>

lemma api_handle_contract:
  "api_contract q s (fst (api_handle q s)) (snd (api_handle q s))"
  by (cases q) (simp_all add: api_get_notes_contract api_post_note_contract api_get_note_contract
                              api_put_note_contract api_delete_note_contract)

end
