(* ===== verification/Note_Form.thy ===== *)
theory Note_Form
  imports Note_Model
begin

text \<open>
  The form component \<^verbatim>\<open>src/components/NoteForm.tsx\<close>: its three pieces of state
  (\<^verbatim>\<open>title\<close>, \<^verbatim>\<open>content\<close>, \<^verbatim>\<open>saving\<close>), the effect that fills it from the
  note being edited, the two input handlers, and \<^verbatim>\<open>handleSubmit\<close> split at its
  \<^verbatim>\<open>await\<close>: the synchronous part validates and hands the trimmed fields to
  \<^verbatim>\<open>onSubmit\<close>, the \<^verbatim>\<open>finally\<close> part clears \<^verbatim>\<open>saving\<close> once that promise
  settles. The lemmas show that what the form submits is trimmed and non-empty, and
  passes the schema validation of the note model when the title field respects its
  \<^verbatim>\<open>maxLength\<close>.
\<close>

section \<open>State and handlers\<close>

record form =
  form_title :: js_string
  form_content :: js_string
  saving :: bool

text \<open>The three \<^verbatim>\<open>useState\<close> initial values.\<close>

definition form_init :: form where
  "form_init = \<lparr>form_title = [], form_content = [], saving = False\<rparr>"

text \<open>\<^verbatim>\<open>useEffect(() => { if (note) {...} else {...} }, [note])\<close>.\<close>

definition form_load :: "INote option \<Rightarrow> form \<Rightarrow> form" where
  "form_load nt f =
     (case nt of
        Some n \<Rightarrow> f\<lparr>form_title := title n, form_content := content n\<rparr>
      | None \<Rightarrow> f\<lparr>form_title := [], form_content := []\<rparr>)"

text \<open>
  \<^verbatim>\<open>onChange={(e) => setTitle(e.target.value)}\<close> on an input with
  \<^verbatim>\<open>maxLength={100}\<close> and \<^verbatim>\<open>disabled={saving}\<close>: a disabled input takes no edit,
  and the browser refuses an edit that would make the value longer than 100 code units.
\<close>

definition form_input_title :: "js_string \<Rightarrow> form \<Rightarrow> form" where
  "form_input_title v f = (if saving f \<or> 100 < length v then f else f\<lparr>form_title := v\<rparr>)"

text \<open>The textarea: \<^verbatim>\<open>disabled={saving}\<close>, no length limit.\<close>

definition form_input_content :: "js_string \<Rightarrow> form \<Rightarrow> form" where
  "form_input_content v f = (if saving f then f else f\<lparr>form_content := v\<rparr>)"

text \<open>
  What the synchronous part of \<^verbatim>\<open>handleSubmit\<close> ends with: an \<^verbatim>\<open>alert\<close> and an
  early \<^verbatim>\<open>return\<close>, or the call \<^verbatim>\<open>onSubmit({title, content})\<close>.
\<close>

datatype form_outcome = FormAlert string | FormSubmit js_string js_string

definition form_submit :: "form \<Rightarrow> form_outcome \<times> form" where
  "form_submit f =
     (if js_trim (form_title f) = [] then (FormAlert ''Please enter a title'', f)
      else if js_trim (form_content f) = [] then (FormAlert ''Please enter some content'', f)
      else (FormSubmit (js_trim (form_title f)) (js_trim (form_content f)), f\<lparr>saving := True\<rparr>))"

text \<open>\<^verbatim>\<open>finally { setSaving(false) }\<close>, once the promise \<^verbatim>\<open>onSubmit\<close> returned settles.\<close>

definition form_submit_done :: "form \<Rightarrow> form" where
  "form_submit_done f = f\<lparr>saving := False\<rparr>"

text \<open>
  What the form shows: its heading, the counter \<^verbatim>\<open>{title.length}/100 characters\<close>, the
  submit button's label, and whether its inputs and buttons are enabled
  (\<^verbatim>\<open>disabled={saving}\<close>).
\<close>

record form_view =
  fv_heading :: string
  fv_count :: nat
  fv_submit_label :: string
  fv_enabled :: bool

definition render_form :: "INote option \<Rightarrow> form \<Rightarrow> form_view" where
  "render_form nt f =
     \<lparr>fv_heading = (case nt of Some _ \<Rightarrow> ''Edit Note'' | None \<Rightarrow> ''Create New Note''),
      fv_count = length (form_title f),
      fv_submit_label = (if saving f then ''Saving...''
                         else case nt of Some _ \<Rightarrow> ''Update'' | None \<Rightarrow> ''Create''),
      fv_enabled = (\<not> saving f)\<rparr>"

declare form_init_def [eval_simps] form_load_def [eval_simps] form_input_title_def [eval_simps]
  form_input_content_def [eval_simps] form_submit_def [eval_simps] form_submit_done_def [eval_simps]
  render_form_def [eval_simps]

section \<open>Lemmas\<close>

lemma form_submit_FormSubmit:
  "form_submit f = (FormSubmit t c, f') \<longleftrightarrow>
     t = js_trim (form_title f) \<and> c = js_trim (form_content f) \<and> t \<noteq> [] \<and> c \<noteq> [] \<and>
     f' = f\<lparr>saving := True\<rparr>"
  by (auto simp: form_submit_def)

lemma form_submit_FormAlert:
  "form_submit f = (FormAlert a, f') \<Longrightarrow> f' = f"
  by (auto simp: form_submit_def split: if_splits)

text \<open>
  C17. What the form hands to \<^verbatim>\<open>onSubmit\<close> is trimmed and non-empty; when the title
  field holds at most 100 code units, as its \<^verbatim>\<open>maxLength\<close> keeps it, the pair passes
  the note schema's cast and validation unchanged.
\<close>

theorem form_submit_passes_schema:
  assumes "form_submit f = (FormSubmit t c, f')" and "length (form_title f) \<le> 100"
  shows "js_trim t = t \<and> js_trim c = c \<and> t \<noteq> [] \<and> c \<noteq> [] \<and>
         note_schema_cast t c = Inr (t, c)"
proof -
  from assms(1) have t: "t = js_trim (form_title f)" and c: "c = js_trim (form_content f)"
    and ne: "t \<noteq> []" "c \<noteq> []"
    using assms(1) unfolding form_submit_FormSubmit by auto
  have "length t \<le> 100"
    using assms(2) js_trim_length [of "form_title f"] t by simp
  with t c ne show ?thesis by (simp add: note_schema_cast_def)
qed

theorem form_submit_passes_schema_witness:
  "js_trim (js_str ''Shopping'') = js_str ''Shopping'' \<and> js_trim (js_str ''Milk'') = js_str ''Milk'' \<and>
   js_str ''Shopping'' \<noteq> [] \<and> js_str ''Milk'' \<noteq> [] \<and>
   note_schema_cast (js_str ''Shopping'') (js_str ''Milk'') = Inr (js_str ''Shopping'', js_str ''Milk'')"
proof -
  define f where "f = \<lparr>form_title = js_str '' Shopping'', form_content = js_str ''Milk '', saving = False\<rparr>"
  have sub: "form_submit f = (FormSubmit (js_str ''Shopping'') (js_str ''Milk''), f\<lparr>saving := True\<rparr>)"
    by (simp add: f_def form_submit_def js_trim_def is_js_space_def js_str_def)
  have len: "length (form_title f) \<le> 100" by (simp add: f_def)
  show ?thesis by (rule form_submit_passes_schema [OF sub len])
qed

end
