(* ===== verification/Note_Card.thy ===== *)
theory Note_Card
  imports Note_Model
begin

text \<open>
  What \<^verbatim>\<open>src/components/NoteCard.tsx\<close> computes from a note: the content preview
  (at most 150 UTF-16 code units, then an ellipsis), whether the \<^verbatim>\<open>Updated:\<close> line
  is shown, and the whole card as \<open>render_card\<close>. The date formatting goes through
  the browser's locale (\<^verbatim>\<open>toLocaleDateString\<close>), so the two locale functions are
  parameters of \<open>format_date\<close>. The lemmas fix the preview's length and prefix, and
  characterise when cutting at 150 code units splits a surrogate pair.
\<close>

section \<open>Preview and timestamps\<close>

text \<open>
  \<^verbatim>\<open>note.content.length > 150 ? note.content.substring(0, 150) + '...' : note.content\<close>;
  \<^verbatim>\<open>length\<close> and \<^verbatim>\<open>substring\<close> count UTF-16 code units.
\<close>

definition card_preview :: "js_string \<Rightarrow> js_string" where
  "card_preview c = (if 150 < length c then take 150 c @ js_str ''...'' else c)"

text \<open>
  \<^verbatim>\<open>note.updatedAt && note.updatedAt !== note.createdAt\<close>: the timestamps reach the
  client as ISO strings, equal exactly when the milliseconds are equal.
\<close>

definition card_shows_updated :: "INote \<Rightarrow> bool" where
  "card_shows_updated n = (updatedAt n \<noteq> createdAt n)"

text \<open>
  \<^verbatim>\<open>note._id\<close> as the card and the page read it: the JSON encoding of an ObjectId,
  its 24 lowercase hex digits.
\<close>

definition note_key :: "INote \<Rightarrow> js_string" where
  "note_key n = oid_to_hex (note_id n)"

text \<open>
  \<^verbatim>\<open>formatDate\<close>: \<^verbatim>\<open>toLocaleDateString()\<close>, a space,
  \<^verbatim>\<open>toLocaleTimeString([], {hour: '2-digit', minute: '2-digit'})\<close>. Both depend on the
  browser's locale and time zone, so they are parameters (\<open>loc_date\<close>,
  \<open>loc_time\<close>, from milliseconds since the epoch); \<^verbatim>\<open>new Date(date)\<close> reads the ISO
  string back to those milliseconds.
\<close>

definition format_date :: "(int \<Rightarrow> js_string) \<Rightarrow> (int \<Rightarrow> js_string) \<Rightarrow> int \<Rightarrow> js_string" where
  "format_date loc_date loc_time t = loc_date t @ js_str '' '' @ loc_time t"

text \<open>
  What a card shows: the title, the preview, the \<^verbatim>\<open>Created:\<close> line, the
  \<^verbatim>\<open>Updated:\<close> line when present, and the id its \<^verbatim>\<open>Delete\<close> button passes to
  \<^verbatim>\<open>onDelete\<close> (its \<^verbatim>\<open>Edit\<close> button passes the note itself).
\<close>

record card_view =
  card_heading :: js_string
  card_text :: js_string
  card_created :: js_string
  card_updated :: "js_string option"
  card_delete_id :: js_string

definition render_card :: "(int \<Rightarrow> js_string) \<Rightarrow> (int \<Rightarrow> js_string) \<Rightarrow> INote \<Rightarrow> card_view" where
  "render_card loc_date loc_time n =
     \<lparr>card_heading = title n, card_text = card_preview (content n),
      card_created = format_date loc_date loc_time (createdAt n),
      card_updated = (if card_shows_updated n then Some (format_date loc_date loc_time (updatedAt n))
                      else None),
      card_delete_id = note_key n\<rparr>"

section \<open>Well-formed UTF-16\<close>

definition is_high_surrogate :: "16 word \<Rightarrow> bool" where
  "is_high_surrogate c = (0xD800 \<le> c \<and> c \<le> 0xDBFF)"

definition is_low_surrogate :: "16 word \<Rightarrow> bool" where
  "is_low_surrogate c = (0xDC00 \<le> c \<and> c \<le> 0xDFFF)"

text \<open>Every high surrogate is followed by a low one, and no low surrogate stands alone.\<close>

fun utf16_wf :: "js_string \<Rightarrow> bool" where
  "utf16_wf [] = True"
| "utf16_wf (c # cs) =
     (if is_high_surrogate c
      then (case cs of [] \<Rightarrow> False | d # ds \<Rightarrow> is_low_surrogate d \<and> utf16_wf ds)
      else \<not> is_low_surrogate c \<and> utf16_wf cs)"

declare card_preview_def [eval_simps] card_shows_updated_def [eval_simps] note_key_def [eval_simps]
  format_date_def [eval_simps] render_card_def [eval_simps]
  is_high_surrogate_def [eval_simps] is_low_surrogate_def [eval_simps]

section \<open>Lemmas\<close>

lemma utf16_wf_replicate_plain:
  assumes "\<not> is_high_surrogate a" and "\<not> is_low_surrogate a"
  shows "utf16_wf (replicate n a @ xs) = utf16_wf xs"
  using assms by (induction n) simp_all

lemma surrogate_disj: "\<not> (is_high_surrogate x \<and> is_low_surrogate x)"
proof
  assume "is_high_surrogate x \<and> is_low_surrogate x"
  then have "(0xDC00::16 word) \<le> 0xDBFF"
    unfolding is_high_surrogate_def is_low_surrogate_def by (blast intro: order_trans)
  then show False by simp
qed

lemma utf16_wf_append_plain:
  assumes ys: "utf16_wf ys" and nolow: "\<forall>d ds. ys = d # ds \<longrightarrow> \<not> is_low_surrogate d"
  shows "utf16_wf xs \<Longrightarrow> n \<le> length xs \<Longrightarrow>
           utf16_wf (take n xs @ ys) \<longleftrightarrow> n = 0 \<or> \<not> is_high_surrogate (xs ! (n - 1))"
proof (induction xs arbitrary: n rule: utf16_wf.induct)
  case 1
  then show ?case using ys by simp
next
  case (2 c cs)
  show ?case
  proof (cases n)
    case 0
    then show ?thesis using ys by simp
  next
    case (Suc n')
    show ?thesis
    proof (cases "is_high_surrogate c")
      case True
      with "2.prems"(1) obtain d ds where cs: "cs = d # ds" and d: "is_low_surrogate d"
        and wf: "utf16_wf ds"
        by (simp split: list.splits)
      show ?thesis
      proof (cases n')
        case 0
        have "\<not> utf16_wf (c # ys)" using True nolow by (cases ys) simp_all
        then show ?thesis using Suc 0 True by simp
      next
        case (Suc m)
        have le: "m \<le> length ds" using "2.prems"(2) \<open>n = Suc n'\<close> Suc cs by simp
        have ih: "utf16_wf (take m ds @ ys) \<longleftrightarrow> m = 0 \<or> \<not> is_high_surrogate (ds ! (m - 1))"
          using "2.IH"(1) [OF True cs wf le] .
        have "\<not> is_high_surrogate d" using d surrogate_disj [of d] by blast
        then show ?thesis using ih True d \<open>n = Suc n'\<close> Suc cs by (cases m) simp_all
      qed
    next
      case False
      with "2.prems"(1) have nl: "\<not> is_low_surrogate c" and wf: "utf16_wf cs" by simp_all
      have le: "n' \<le> length cs" using "2.prems"(2) Suc by simp
      have ih: "utf16_wf (take n' cs @ ys) \<longleftrightarrow> n' = 0 \<or> \<not> is_high_surrogate (cs ! (n' - 1))"
        using "2.IH"(2) [OF False wf le] .
      then show ?thesis using False nl Suc by (cases n') simp_all
    qed
  qed
qed

text \<open>
  C15. The preview of a content of at most 150 code units has the content's length; of
  a longer one it has 153 code units (150 and the ellipsis). In both cases it starts
  with the content's first 150 code units, so it is never longer than 153.
\<close>

theorem card_preview_shape:
  "length (card_preview c) = (if length c \<le> 150 then length c else 153) \<and>
   take 150 (card_preview c) = take 150 c \<and> length (card_preview c) \<le> 153"
  by (simp add: card_preview_def min_def)

text \<open>
  C16. Cutting at a code-unit position splits a surrogate pair exactly when one
  straddles the cut: the preview of a well-formed content is well-formed UTF-16 if and
  only if the content is short enough to be shown whole or its 150th code unit is not
  a high surrogate. Otherwise the visible text ends in a lone high surrogate, which the
  browser renders as a replacement character.
\<close>

theorem card_preview_wf_iff:
  "utf16_wf c \<Longrightarrow>
     utf16_wf (card_preview c) \<longleftrightarrow> length c \<le> 150 \<or> \<not> is_high_surrogate (c ! 149)"
proof -
  assume wf: "utf16_wf c"
  have dots: "utf16_wf (js_str ''...'')" "\<forall>d ds. js_str ''...'' = d # ds \<longrightarrow> \<not> is_low_surrogate d"
    by (simp_all add: js_str_def is_high_surrogate_def is_low_surrogate_def)
  show ?thesis
  proof (cases "length c \<le> 150")
    case False
    then show ?thesis
      using utf16_wf_append_plain [OF dots wf, of 150] by (simp add: card_preview_def)
  qed (simp add: card_preview_def wf)
qed

theorem card_preview_wf_iff_witness:
  "utf16_wf (card_preview (replicate 149 0x61 @ [0xD83D, 0xDE00])) \<longleftrightarrow>
     length (replicate 149 (0x61::16 word) @ [0xD83D, 0xDE00]) \<le> 150 \<or>
     \<not> is_high_surrogate ((replicate 149 0x61 @ [0xD83D, 0xDE00]) ! 149)"
proof (rule card_preview_wf_iff)
  have plain: "\<not> is_high_surrogate 0x61" "\<not> is_low_surrogate 0x61"
    by (simp_all add: is_high_surrogate_def is_low_surrogate_def)
  show "utf16_wf (replicate 149 0x61 @ [0xD83D, 0xDE00])"
    unfolding utf16_wf_replicate_plain [OF plain] by (simp add: is_high_surrogate_def is_low_surrogate_def)
qed

end
