(* ===== verification/Notes_Page.thy ===== *)
theory Notes_Page
  imports Api_Contract Note_Form Note_Card
begin

text \<open>
  The page component \<^verbatim>\<open>src/app/page.tsx\<close> (\<^verbatim>\<open>Home\<close>): its four pieces of state and
  its handlers. Each asynchronous handler is split at its \<^verbatim>\<open>await\<close> (or
  \<^verbatim>\<open>.then\<close>): the part before builds the request or stops early with an alert; the
  part after, \<open>*_done\<close>, takes the response (\<open>None\<close> when \<^verbatim>\<open>fetch\<close> rejects) and the
  list \<^verbatim>\<open>notes\<close> as the handler's closure saw it when the user acted (\<open>snap\<close>), and
  returns the alert it shows, if any, and the new state. The lemmas show that, given
  the route contract of \<open>Api_Contract\<close>, each continuation keeps the list in step with
  the collection when its request is the only one in flight.
\<close>

section \<open>State\<close>

record page =
  page_notes :: "INote list"
  loading :: bool
  showForm :: bool
  editingNote :: "INote option"

definition page_init :: page where
  "page_init = \<lparr>page_notes = [], loading = True, showForm = False, editingNote = None\<rparr>"

text \<open>
  \<^verbatim>\<open>data.data\<close> read as a list (\<^verbatim>\<open>data.data || []\<close>) or as one note. The list
  route never sends a single note and the member routes never send a list with a
  successful status (\<open>api_handle_contract\<close>); what the page would do with the other
  shape is left unspecified.
\<close>

fun list_data :: "payload option \<Rightarrow> INote list" where
  "list_data None = []"
| "list_data (Some (NoteList ns)) = ns"
| "list_data (Some (NoteData n)) = undefined"

fun note_data :: "payload option \<Rightarrow> INote" where
  "note_data (Some (NoteData n)) = n"
| "note_data _ = undefined"

section \<open>Handlers\<close>

text \<open>\<^verbatim>\<open>loadNotes\<close> after its \<^verbatim>\<open>await\<close>s: every failure degrades to the empty list.\<close>

definition load_notes_done :: "response option \<Rightarrow> page \<Rightarrow> page" where
  "load_notes_done r p =
     p\<lparr>page_notes := (case r of
                   None \<Rightarrow> []
                 | Some x \<Rightarrow> if success (body x) then list_data (data (body x)) else []),
       loading := False\<rparr>"

text \<open>\<^verbatim>\<open>JSON.stringify(noteData)\<close> as the body of \<^verbatim>\<open>POST\<close> and \<^verbatim>\<open>PUT\<close>.\<close>

definition note_body :: "js_string \<Rightarrow> js_string \<Rightarrow> request_body" where
  "note_body t c = Json (JObj [(js_str ''title'', JStr t), (js_str ''content'', JStr c)])"

text \<open>\<^verbatim>\<open>createNote\<close> before its \<^verbatim>\<open>await\<close>: the client-side check, then the body.\<close>

definition create_note :: "js_string \<Rightarrow> js_string \<Rightarrow> string + request_body" where
  "create_note t c =
     (if js_trim t = [] \<or> js_trim c = [] then Inl ''Please fill in both fields''
      else Inr (note_body t c))"

definition create_note_done :: "INote list \<Rightarrow> response option \<Rightarrow> page \<Rightarrow> string option \<times> page" where
  "create_note_done snap r p =
     (case r of
        None \<Rightarrow> (Some ''Something went wrong'', p)
      | Some x \<Rightarrow>
          if response_ok x
          then (None, p\<lparr>page_notes := note_data (data (body x)) # snap, showForm := False\<rparr>)
          else (Some ''Failed to create note'', p))"

definition update_note_done ::
  "INote list \<Rightarrow> js_string \<Rightarrow> response option \<Rightarrow> page \<Rightarrow> string option \<times> page" where
  "update_note_done snap i r p =
     (case r of
        None \<Rightarrow> (Some ''Error updating note'', p)
      | Some x \<Rightarrow>
          if response_ok x
          then (None, p\<lparr>page_notes := map (\<lambda>n. if note_key n = i then note_data (data (body x)) else n) snap,
                        editingNote := None\<rparr>)
          else (Some ''Failed to update note'', p))"

definition delete_note_done ::
  "INote list \<Rightarrow> js_string \<Rightarrow> response option \<Rightarrow> page \<Rightarrow> string option \<times> page" where
  "delete_note_done snap i r p =
     (case r of
        None \<Rightarrow> (Some ''Error deleting note'', p)
      | Some x \<Rightarrow>
          if response_ok x
          then (None, p\<lparr>page_notes := filter (\<lambda>n. note_key n \<noteq> i) snap\<rparr>)
          else (Some ''Failed to delete note'', p))"

text \<open>The calls a handler leaves in flight, and the continuation each resumes with.\<close>

datatype client_call = LoadCall | CreateCall | UpdateCall js_string | DeleteCall js_string

fun resume :: "client_call \<Rightarrow> INote list \<Rightarrow> response option \<Rightarrow> page \<Rightarrow> string option \<times> page" where
  "resume LoadCall snap r p = (None, load_notes_done r p)"
| "resume CreateCall snap r p = create_note_done snap r p"
| "resume (UpdateCall i) snap r p = update_note_done snap i r p"
| "resume (DeleteCall i) snap r p = delete_note_done snap i r p"

text \<open>The header button, a card's \<^verbatim>\<open>Edit\<close>, and the form's \<^verbatim>\<open>onCancel\<close>.\<close>

definition toggle_form :: "page \<Rightarrow> page" where
  "toggle_form p = p\<lparr>showForm := \<not> showForm p\<rparr>"

definition header_label :: "page \<Rightarrow> string" where
  "header_label p = (if showForm p then ''Cancel'' else ''New Note'')"

definition edit_note :: "INote \<Rightarrow> page \<Rightarrow> page" where
  "edit_note n p = p\<lparr>editingNote := Some n\<rparr>"

definition cancel_form :: "page \<Rightarrow> page" where
  "cancel_form p = p\<lparr>showForm := False, editingNote := None\<rparr>"

section \<open>What is rendered\<close>

text \<open>
  The spinner while loading; otherwise the form, when \<^verbatim>\<open>showForm || editingNote\<close>, in
  edit mode (\<^verbatim>\<open>note={editingNote}\<close>, submitting to \<^verbatim>\<open>updateNote\<close>) when a note is
  being edited and in create mode otherwise.
\<close>

datatype page_view = Loading | ListView | CreateForm | EditForm INote

definition page_view :: "page \<Rightarrow> page_view" where
  "page_view p =
     (if loading p then Loading
      else case editingNote p of
             Some n \<Rightarrow> EditForm n
           | None \<Rightarrow> if showForm p then CreateForm else ListView)"

definition form_visible :: "page \<Rightarrow> bool" where
  "form_visible p = (\<not> loading p \<and> (showForm p \<or> editingNote p \<noteq> None))"

section \<open>The list in step with the collection\<close>

text \<open>
  The page's list holds exactly the stored notes (as a multiset: the order differs),
  newest first.
\<close>

definition synced :: "INote list \<Rightarrow> server \<Rightarrow> bool" where
  "synced ns s \<longleftrightarrow>
     mset ns = mset (docs s) \<and> sorted_wrt (\<lambda>a b. createdAt b \<le> createdAt a) ns"

declare page_init_def [eval_simps] load_notes_done_def [eval_simps]
  note_body_def [eval_simps] create_note_def [eval_simps] create_note_done_def [eval_simps]
  update_note_done_def [eval_simps] delete_note_done_def [eval_simps] toggle_form_def [eval_simps]
  header_label_def [eval_simps] edit_note_def [eval_simps] cancel_form_def [eval_simps]
  page_view_def [eval_simps] form_visible_def [eval_simps]

section \<open>Lemmas\<close>

lemma note_key_iff:
  "object_id_of_hex (note_key n0) = Some k \<Longrightarrow> note_key m = note_key n0 \<longleftrightarrow> note_id m = k"
  by (auto simp: note_key_def)

lemma find_note_unique:
  "distinct (map note_id ds) \<Longrightarrow> find_note k ds = Some n \<Longrightarrow> m \<in> set ds \<Longrightarrow> note_id m = k \<Longrightarrow> m = n"
  by (auto dest!: find_note_Some simp: distinct_map inj_on_def)

lemma sorted_created_map:
  assumes "sorted_wrt (\<lambda>a b. createdAt b \<le> createdAt a) xs"
    and "\<And>x. x \<in> set xs \<Longrightarrow> createdAt (f x) = createdAt x"
  shows "sorted_wrt (\<lambda>a b. createdAt b \<le> createdAt a) (map f xs)"
  unfolding sorted_wrt_map using assms(1)
  by (rule sorted_wrt_mono_rel [rotated]) (simp add: assms(2))

lemma synced_set: "synced ns s \<Longrightarrow> set ns = set (docs s)"
  by (metis mset_eq_setD synced_def)

subsection \<open>Each continuation keeps the list in step\<close>

text \<open>
  Stated over the route contract only: when the handler's closure saw the current list
  and that list was in step with the collection, the list after the continuation is in
  step with the collection the request left.
\<close>

lemma create_note_done_synced:
  assumes "synced (page_notes p) s" and "store_wf s"
    and "api_contract (CreateNote fresh b) s r s'"
  shows "synced (page_notes (snd (create_note_done (page_notes p) (Some r) p))) s'"
proof (cases "response_ok r")
  case True
  with assms(3) obtain n where d: "data (body r) = Some (NoteData n)"
    and c: "createdAt n = clock s" and s': "docs s' = docs s @ [n]"
    by (auto simp: api_contract_def)
  have le: "createdAt m \<le> createdAt n" if "m \<in> set (page_notes p)" for m
  proof -
    from that synced_set [OF assms(1)] assms(2) have "note_wf (clock s) m"
      by (simp add: store_wf_def)
    with c show ?thesis by (simp add: note_wf_def)
  qed
  have "create_note_done (page_notes p) (Some r) p =
          (None, p\<lparr>page_notes := n # page_notes p, showForm := False\<rparr>)"
    using True d by (simp add: create_note_done_def)
  with le s' assms(1) show ?thesis by (simp add: synced_def)
next
  case False
  with assms have "docs s' = docs s" by (simp add: api_contract_def)
  with False assms(1) show ?thesis by (simp add: create_note_done_def synced_def)
qed

lemma delete_note_done_synced:
  assumes "synced (page_notes p) s"
    and "api_contract (DeleteNote (note_key n0)) s r s'"
  shows "synced (page_notes (snd (delete_note_done (page_notes p) (note_key n0) (Some r) p))) s'"
proof (cases "response_ok r")
  case True
  with assms(2) obtain k where k: "object_id_of_hex (note_key n0) = Some k"
    and s': "docs s' = filter (\<lambda>m. note_id m \<noteq> k) (docs s)"
    by (auto simp: api_contract_def)
  have eq: "filter (\<lambda>m. note_key m \<noteq> note_key n0) (page_notes p) =
            filter (\<lambda>m. note_id m \<noteq> k) (page_notes p)"
    by (rule filter_cong) (simp_all only: note_key_iff [OF k] refl)
  have res: "delete_note_done (page_notes p) (note_key n0) (Some r) p =
          (None, p\<lparr>page_notes := filter (\<lambda>m. note_id m \<noteq> k) (page_notes p)\<rparr>)"
    using True by (simp add: delete_note_done_def eq)
  have "mset (filter (\<lambda>m. note_id m \<noteq> k) (page_notes p)) = mset (docs s')"
    using assms(1) s' by (simp add: synced_def)
  moreover have "sorted_wrt (\<lambda>a b. createdAt b \<le> createdAt a) (filter (\<lambda>m. note_id m \<noteq> k) (page_notes p))"
    using assms(1) by (simp add: synced_def sorted_wrt_filter)
  ultimately show ?thesis by (simp add: res synced_def)
next
  case False
  with assms have "docs s' = docs s" by (simp add: api_contract_def)
  with False assms(1) show ?thesis by (simp add: delete_note_done_def synced_def)
qed

lemma update_note_done_synced:
  assumes "synced (page_notes p) s" and "store_wf s"
    and "api_contract (UpdateNote (note_key n0) b) s r s'"
  shows "synced (page_notes (snd (update_note_done (page_notes p) (note_key n0) (Some r) p))) s'"
proof (cases "response_ok r")
  case True
  with assms(3) obtain k n t c where k: "object_id_of_hex (note_key n0) = Some k"
    and n: "find_note k (docs s) = Some n"
    and d: "data (body r) = Some (NoteData (apply_update t c (clock s) n))"
    and s': "docs s' = map (\<lambda>m. if note_id m = k then apply_update t c (clock s) m else m) (docs s)"
    by (auto simp: api_contract_def)
  define f where "f = (\<lambda>m. if note_key m = note_key n0 then apply_update t c (clock s) n else m)"
  define g where "g = (\<lambda>m. if note_id m = k then apply_update t c (clock s) m else m)"
  have dist: "distinct (map note_id (docs s))" using assms(2) by (simp add: store_wf_def)
  have fg: "f m = g m" if "m \<in> set (docs s)" for m
    using find_note_unique [OF dist n that] note_key_iff [OF k] by (auto simp: f_def g_def)
  have "mset (map f (page_notes p)) = image_mset f (mset (docs s))"
    using assms(1) by (simp add: synced_def)
  also have "\<dots> = image_mset g (mset (docs s))"
    using fg by (intro image_mset_cong) simp
  finally have m: "mset (map f (page_notes p)) = mset (docs s')" by (simp add: s' g_def)
  have "createdAt (f x) = createdAt x" if "x \<in> set (page_notes p)" for x
    using fg [of x] that synced_set [OF assms(1)] by (simp add: g_def apply_update_def)
  then have "sorted_wrt (\<lambda>a b. createdAt b \<le> createdAt a) (map f (page_notes p))"
    using assms(1) by (intro sorted_created_map) (simp_all add: synced_def)
  moreover have "update_note_done (page_notes p) (note_key n0) (Some r) p =
      (None, p\<lparr>page_notes := map f (page_notes p), editingNote := None\<rparr>)"
    using True d by (simp add: update_note_done_def f_def cong: if_cong)
  ultimately show ?thesis using m by (simp add: synced_def)
next
  case False
  with assms have "docs s' = docs s" by (simp add: api_contract_def)
  with False assms(1) show ?thesis by (simp add: update_note_done_def synced_def)
qed

lemma load_notes_done_synced:
  assumes "api_contract ListNotes s r s'" and "success (body r)"
  shows "synced (page_notes (load_notes_done (Some r) p)) s'"
  using assms unfolding api_contract_def
  by (auto simp: load_notes_done_def synced_def mset_sort_by_created_desc sort_by_created_desc_sorted)

end
