(* ===== verification/Notes_System.thy ===== *)
theory Notes_System
  imports Server_Events Notes_Page
begin

text \<open>
  The page of \<^verbatim>\<open>page.tsx\<close>, its \<^verbatim>\<open>NoteForm\<close> and the server as one system of
  events: user actions guarded by what is rendered, requests answered by the server
  when sent, answers reaching the page in any order or lost on the way, and the
  server's own events. The invariants: under one user the list stays in step with the
  collection; in every run a saving form awaits an answer in flight and titles stay
  within the form's bound; overlapping deletes and lost answers leave the page listing
  notes the collection no longer holds.
\<close>

section \<open>The page and the server together\<close>

text \<open>
  The browser and the server as one system. A request goes to the server when the page
  sends it and is answered at once (each handler is one atomic database operation);
  the answer then waits in \<open>inflight\<close> until the page's continuation runs, and
  answers reach the page in any order (\<open>Deliver k\<close> runs the \<open>k\<close>-th). A pending
  answer carries the list \<^verbatim>\<open>notes\<close> of the render whose handler sent the request
  (\<open>pd_snap\<close>) and, for a form submission, the form instance awaiting it
  (\<open>pd_waiter\<close>). \<open>form_gen\<close> counts the mounts of \<^verbatim>\<open>NoteForm\<close>, which React
  unmounts, losing its state, whenever the page stops rendering it.
\<close>

record pending =
  pd_call :: client_call
  pd_snap :: "INote list"
  pd_reply :: "response option"
  pd_waiter :: "nat option"

record system =
  ui :: page
  frm :: form
  form_gen :: nat
  srv :: server
  inflight :: "pending list"
  alerts :: "string list"

text \<open>
  A state change of the page and the re-render that follows: the form is unmounted when
  it is no longer shown, mounted afresh (its \<^verbatim>\<open>useState\<close> values, then its effect)
  when it appears, and refilled by its effect when \<^verbatim>\<open>editingNote\<close> changes.
\<close>

definition set_page :: "page \<Rightarrow> system \<Rightarrow> system" where
  "set_page p' sys =
     (if \<not> form_visible p' then sys\<lparr>ui := p', frm := form_init\<rparr>
      else if \<not> form_visible (ui sys)
      then sys\<lparr>ui := p', frm := form_load (editingNote p') form_init, form_gen := Suc (form_gen sys)\<rparr>
      else if editingNote p' \<noteq> editingNote (ui sys)
      then sys\<lparr>ui := p', frm := form_load (editingNote p') (frm sys)\<rparr>
      else sys\<lparr>ui := p'\<rparr>)"

text \<open>\<^verbatim>\<open>fetch\<close>: the server answers, the continuation waits.\<close>

definition send :: "client_call \<Rightarrow> api_request \<Rightarrow> nat option \<Rightarrow> system \<Rightarrow> system" where
  "send c q w sys =
     (let (r, s') = api_handle q (srv sys)
      in sys\<lparr>srv := s',
             inflight := inflight sys @ [\<lparr>pd_call = c, pd_snap = page_notes (ui sys),
                                          pd_reply = Some r, pd_waiter = w\<rparr>]\<rparr>)"

text \<open>
  The \<open>k\<close>-th answer reaches the page: its continuation runs on the closure's list,
  the page re-renders, and the form's \<^verbatim>\<open>finally\<close> clears \<^verbatim>\<open>saving\<close> when the
  instance that awaited the answer is still mounted.
\<close>

definition deliver :: "nat \<Rightarrow> system \<Rightarrow> system" where
  "deliver k sys =
     (if k < length (inflight sys) then
        let pd = inflight sys ! k;
            (a, p') = resume (pd_call pd) (pd_snap pd) (pd_reply pd) (ui sys);
            sys1 = set_page p' (sys\<lparr>inflight := take k (inflight sys) @ drop (Suc k) (inflight sys),
                                    alerts := alerts sys @ (case a of None \<Rightarrow> [] | Some m \<Rightarrow> [m])\<rparr>)
        in if pd_waiter pd = Some (form_gen sys1) \<and> form_visible (ui sys1)
           then sys1\<lparr>frm := form_submit_done (frm sys1)\<rparr> else sys1
      else sys)"

text \<open>
  A \<^verbatim>\<open>fetch\<close> that rejects after the server acted (the connection drops before the
  answer arrives): the \<open>k\<close>-th continuation runs its \<^verbatim>\<open>catch\<close> branch and the
  form's \<^verbatim>\<open>finally\<close> still runs.
\<close>

definition fail_answer :: "nat \<Rightarrow> system \<Rightarrow> system" where
  "fail_answer k sys =
     deliver k (sys\<lparr>inflight := (inflight sys)[k := (inflight sys ! k)\<lparr>pd_reply := None\<rparr>]\<rparr>)"

text \<open>
  The form's submit button: \<^verbatim>\<open>handleSubmit\<close>, then \<^verbatim>\<open>onSubmit\<close> as the page wires
  it: \<^verbatim>\<open>updateNote(editingNote._id, data)\<close> when a note is being edited,
  \<^verbatim>\<open>createNote\<close> otherwise. \<open>fresh\<close> is the ObjectId the driver will generate.
\<close>

definition submit :: "oid \<Rightarrow> system \<Rightarrow> system" where
  "submit fresh sys =
     (case form_submit (frm sys) of
        (FormAlert a, f) \<Rightarrow> sys\<lparr>frm := f, alerts := alerts sys @ [a]\<rparr>
      | (FormSubmit t c, f) \<Rightarrow>
          (case editingNote (ui sys) of
             Some n \<Rightarrow>
               send (UpdateCall (note_key n)) (UpdateNote (note_key n) (note_body t c))
                    (Some (form_gen sys)) (sys\<lparr>frm := f\<rparr>)
           | None \<Rightarrow>
               (case create_note t c of
                  Inl a \<Rightarrow> sys\<lparr>frm := form_submit_done f, alerts := alerts sys @ [a]\<rparr>
                | Inr b \<Rightarrow> send CreateCall (CreateNote fresh b) (Some (form_gen sys)) (sys\<lparr>frm := f\<rparr>))))"

text \<open>A card's \<^verbatim>\<open>Delete\<close>: \<^verbatim>\<open>deleteNote\<close> with the answer to \<^verbatim>\<open>confirm\<close>.\<close>

definition click_delete :: "INote \<Rightarrow> bool \<Rightarrow> system \<Rightarrow> system" where
  "click_delete n ok sys =
     (if ok then send (DeleteCall (note_key n)) (DeleteNote (note_key n)) None sys else sys)"

datatype ui_event =
    ClickToggle              \<comment> \<open>the header's New Note / Cancel button\<close>
  | ClickEdit INote          \<comment> \<open>a card's Edit\<close>
  | ClickCancel              \<comment> \<open>the form's Cancel\<close>
  | TypeTitle js_string      \<comment> \<open>the title input's new value\<close>
  | TypeContent js_string    \<comment> \<open>the textarea's new value\<close>
  | ClickSubmit oid          \<comment> \<open>the form's submit button\<close>
  | ClickDelete INote bool   \<comment> \<open>a card's Delete and the answer to the prompt\<close>
  | Deliver nat              \<comment> \<open>an answer reaches the page\<close>
  | FailAnswer nat           \<comment> \<open>a request's \<^verbatim>\<open>fetch\<close> rejects after the server acted\<close>
  | Env event                \<comment> \<open>the server's own events, and other clients' requests\<close>

text \<open>
  The guards are the page's rendering: nothing but the spinner while loading, the
  cards of the listed notes, the form's controls only while it is shown and, with
  \<^verbatim>\<open>disabled={saving}\<close>, its Cancel and submit buttons only while it is not saving.
\<close>

fun sys_step :: "system \<Rightarrow> ui_event \<Rightarrow> system" where
  "sys_step sys ClickToggle =
     (if loading (ui sys) then sys else set_page (toggle_form (ui sys)) sys)"
| "sys_step sys (ClickEdit n) =
     (if loading (ui sys) \<or> n \<notin> set (page_notes (ui sys)) then sys
      else set_page (edit_note n (ui sys)) sys)"
| "sys_step sys ClickCancel =
     (if \<not> form_visible (ui sys) \<or> saving (frm sys) then sys
      else set_page (cancel_form (ui sys)) sys)"
| "sys_step sys (TypeTitle v) =
     (if form_visible (ui sys) then sys\<lparr>frm := form_input_title v (frm sys)\<rparr> else sys)"
| "sys_step sys (TypeContent v) =
     (if form_visible (ui sys) then sys\<lparr>frm := form_input_content v (frm sys)\<rparr> else sys)"
| "sys_step sys (ClickSubmit fresh) =
     (if form_visible (ui sys) \<and> \<not> saving (frm sys) then submit fresh sys else sys)"
| "sys_step sys (ClickDelete n ok) =
     (if loading (ui sys) \<or> n \<notin> set (page_notes (ui sys)) then sys else click_delete n ok sys)"
| "sys_step sys (Deliver k) = deliver k sys"
| "sys_step sys (FailAnswer k) = fail_answer k sys"
| "sys_step sys (Env e) = sys\<lparr>srv := snd (server_step (srv sys) e)\<rparr>"

fun sys_run :: "system \<Rightarrow> ui_event list \<Rightarrow> system" where
  "sys_run sys [] = sys"
| "sys_run sys (e # es) = sys_run (sys_step sys e) es"

text \<open>The page mounts and its effect calls \<^verbatim>\<open>loadNotes\<close>.\<close>

definition sys_init :: "server \<Rightarrow> system" where
  "sys_init s =
     send LoadCall ListNotes None
       \<lparr>ui = page_init, frm = form_init, form_gen = 0, srv = s, inflight = [], alerts = []\<rparr>"

inductive sys_reachable :: "system \<Rightarrow> bool" where
  init: "store_wf s \<Longrightarrow> sys_reachable (sys_init s)"
| step: "sys_reachable sys \<Longrightarrow> sys_reachable (sys_step sys e)"

text \<open>
  One user at a time: every request's answer reaches the page before the next event,
  and no other client writes. The page starts from a successful load.
\<close>

definition settle :: "system \<Rightarrow> system" where
  "settle sys = (if inflight sys = [] then sys else deliver 0 sys)"

fun own_event :: "ui_event \<Rightarrow> bool" where
  "own_event (Env (Req q)) = False"
| "own_event _ = True"

inductive seq_reachable :: "system \<Rightarrow> bool" where
  start: "store_wf s \<Longrightarrow> reachable s \<Longrightarrow> seq_reachable (deliver 0 (sys_init s))"
| step: "seq_reachable sys \<Longrightarrow> own_event e \<Longrightarrow> seq_reachable (settle (sys_step sys e))"

text \<open>
  The invariants of the two system properties: under one user, the list is in step
  with the collection and nothing is in flight; in every run, a saving form is shown
  and awaits an answer still in flight.
\<close>

definition seq_inv :: "system \<Rightarrow> bool" where
  "seq_inv sys \<longleftrightarrow> store_wf (srv sys) \<and> synced (page_notes (ui sys)) (srv sys) \<and> inflight sys = []"

definition form_inv :: "system \<Rightarrow> bool" where
  "form_inv sys \<longleftrightarrow>
     (saving (frm sys) \<longrightarrow>
        form_visible (ui sys) \<and> (\<exists>pd\<in>set (inflight sys). pd_waiter pd = Some (form_gen sys)))"

text \<open>
  What every run keeps bounded: each note the page holds, edits or will splice in has
  a title of at most 100 code units, every answer in flight has the shape its
  continuation expects, and so the form's title field never passes 100 code units.
\<close>

definition short_note :: "INote \<Rightarrow> bool" where
  "short_note n \<longleftrightarrow> length (title n) \<le> 100"

fun reply_fits :: "client_call \<Rightarrow> response option \<Rightarrow> bool" where
  "reply_fits c None = True"
| "reply_fits LoadCall (Some x) =
     (\<not> success (body x) \<or>
      (case data (body x) of Some (NoteList ns) \<Rightarrow> list_all short_note ns | _ \<Rightarrow> False))"
| "reply_fits CreateCall (Some x) =
     (\<not> response_ok x \<or> (case data (body x) of Some (NoteData n) \<Rightarrow> short_note n | _ \<Rightarrow> False))"
| "reply_fits (UpdateCall i) (Some x) =
     (\<not> response_ok x \<or> (case data (body x) of Some (NoteData n) \<Rightarrow> short_note n | _ \<Rightarrow> False))"
| "reply_fits (DeleteCall i) (Some x) = True"

definition ui_inv :: "system \<Rightarrow> bool" where
  "ui_inv sys \<longleftrightarrow>
     store_wf (srv sys) \<and> list_all short_note (page_notes (ui sys)) \<and>
     pred_option short_note (editingNote (ui sys)) \<and>
     list_all (\<lambda>pd. list_all short_note (pd_snap pd) \<and> reply_fits (pd_call pd) (pd_reply pd))
       (inflight sys) \<and>
     length (form_title (frm sys)) \<le> 100"

declare set_page_def [eval_simps] send_def [eval_simps] deliver_def [eval_simps] fail_answer_def [eval_simps]
  submit_def [eval_simps] click_delete_def [eval_simps] sys_init_def [eval_simps]

section \<open>The page and the server: lemmas\<close>

lemma set_page_simps [simp]:
  "ui (set_page p' sys) = p'" "srv (set_page p' sys) = srv sys"
  "inflight (set_page p' sys) = inflight sys"
  by (simp_all add: set_page_def)

lemma send_simps [simp]:
  "ui (send c q w sys) = ui sys" "frm (send c q w sys) = frm sys"
  "form_gen (send c q w sys) = form_gen sys" "alerts (send c q w sys) = alerts sys"
  "srv (send c q w sys) = snd (api_handle q (srv sys))"
  "inflight (send c q w sys) = inflight sys @
     [\<lparr>pd_call = c, pd_snap = page_notes (ui sys), pd_reply = Some (fst (api_handle q (srv sys))),
       pd_waiter = w\<rparr>]"
  by (simp_all add: send_def case_prod_unfold Let_def)

lemma deliver_simps:
  assumes "k < length (inflight sys)"
  shows "ui (deliver k sys) =
           snd (resume (pd_call (inflight sys ! k)) (pd_snap (inflight sys ! k))
                       (pd_reply (inflight sys ! k)) (ui sys))"
    and "srv (deliver k sys) = srv sys"
    and "inflight (deliver k sys) = take k (inflight sys) @ drop (Suc k) (inflight sys)"
  using assms by (simp_all add: deliver_def Let_def case_prod_unfold)

lemma deliver_idle [simp]: "\<not> k < length (inflight sys) \<Longrightarrow> deliver k sys = sys"
  by (simp add: deliver_def)

lemma settle_send:
  assumes "inflight sys = []"
  shows "ui (settle (send c q w sys)) =
           snd (resume c (page_notes (ui sys)) (Some (fst (api_handle q (srv sys)))) (ui sys))"
    and "srv (settle (send c q w sys)) = snd (api_handle q (srv sys))"
    and "inflight (settle (send c q w sys)) = []"
  using assms by (simp_all add: settle_def deliver_simps)

lemma seq_inv_send:
  assumes inv: "seq_inv sys"
    and ok: "\<And>r s'. api_contract q (srv sys) r s' \<Longrightarrow>
               synced (page_notes (snd (resume c (page_notes (ui sys)) (Some r) (ui sys)))) s'"
  shows "seq_inv (settle (send c q w sys))"
proof -
  from inv have e: "inflight sys = []" and wf: "store_wf (srv sys)" by (simp_all add: seq_inv_def)
  have "synced (page_notes (snd (resume c (page_notes (ui sys)) (Some (fst (api_handle q (srv sys)))) (ui sys))))
               (snd (api_handle q (srv sys)))"
    by (rule ok) (rule api_handle_contract)
  moreover have "store_wf (snd (api_handle q (srv sys)))" using wf by (rule api_handle_store_wf)
  ultimately show ?thesis by (simp add: seq_inv_def settle_send [OF e])
qed

lemma settle_idle [simp]: "inflight sys = [] \<Longrightarrow> settle sys = sys"
  by (simp add: settle_def)

lemma seq_inv_submit:
  assumes inv: "seq_inv sys"
  shows "seq_inv (settle (submit fresh sys))"
proof (cases "form_submit (frm sys)")
  case (Pair out f)
  from inv have e: "inflight sys = []" and wf: "store_wf (srv sys)"
    and sy: "synced (page_notes (ui sys)) (srv sys)" by (simp_all add: seq_inv_def)
  show ?thesis
  proof (cases out)
    case (FormAlert a)
    with Pair inv e show ?thesis by (simp add: submit_def seq_inv_def)
  next
    case (FormSubmit t c)
    show ?thesis
    proof (cases "editingNote (ui sys)")
      case (Some n)
      have "seq_inv (settle (send (UpdateCall (note_key n)) (UpdateNote (note_key n) (note_body t c))
                    (Some (form_gen sys)) (sys\<lparr>frm := f\<rparr>)))"
        using inv sy wf
        by (intro seq_inv_send) (simp_all add: seq_inv_def update_note_done_synced)
      with Pair FormSubmit Some show ?thesis by (simp add: submit_def)
    next
      case None
      show ?thesis
      proof (cases "create_note t c")
        case (Inl a)
        with Pair FormSubmit None inv e show ?thesis by (simp add: submit_def seq_inv_def)
      next
        case (Inr b)
        have "seq_inv (settle (send CreateCall (CreateNote fresh b) (Some (form_gen sys)) (sys\<lparr>frm := f\<rparr>)))"
          using inv sy wf
          by (intro seq_inv_send) (simp_all add: seq_inv_def create_note_done_synced)
        with Pair FormSubmit None Inr show ?thesis by (simp add: submit_def)
      qed
    qed
  qed
qed

lemma seq_inv_step:
  assumes inv: "seq_inv sys" and own: "own_event e"
  shows "seq_inv (settle (sys_step sys e))"
proof (cases e)
  case (ClickSubmit fresh)
  from inv have "inflight sys = []" by (simp add: seq_inv_def)
  with ClickSubmit inv show ?thesis by (simp add: seq_inv_submit)
next
  case (ClickDelete n ok)
  have "seq_inv (settle (send (DeleteCall (note_key n)) (DeleteNote (note_key n)) None sys))"
    using inv by (intro seq_inv_send) (auto simp: seq_inv_def intro: delete_note_done_synced)
  with ClickDelete inv show ?thesis by (simp add: click_delete_def seq_inv_def)
next
  case (Deliver k)
  with inv show ?thesis by (simp add: seq_inv_def)
next
  case (FailAnswer k)
  with inv show ?thesis by (simp add: seq_inv_def fail_answer_def)
next
  case (Env ev)
  with own have "docs (snd (server_step (srv sys) ev)) = docs (srv sys)"
    by (cases ev) auto
  moreover have "store_wf (snd (server_step (srv sys) ev))"
    using inv by (simp add: seq_inv_def server_step_store_wf)
  ultimately show ?thesis using Env inv by (simp add: seq_inv_def synced_def)
qed (use inv in \<open>simp_all add: seq_inv_def toggle_form_def edit_note_def cancel_form_def\<close>)

lemma seq_inv_start:
  assumes "store_wf s" and "reachable s"
  shows "seq_inv (deliver 0 (sys_init s))"
proof -
  have ok: "success (body (fst (api_handle ListNotes s)))"
    using assms(2) by (simp add: api_get_notes_def run_route_def db_connect_def note_find_sorted_def)
  have "synced (page_notes (load_notes_done (Some (fst (api_handle ListNotes s))) page_init))
               (snd (api_handle ListNotes s))"
    by (rule load_notes_done_synced [OF api_handle_contract ok])
  moreover have "store_wf (snd (api_handle ListNotes s))" using assms(1) by (rule api_handle_store_wf)
  ultimately show ?thesis by (simp add: seq_inv_def sys_init_def deliver_simps)
qed

lemma set_page_saving:
  "saving (frm (set_page p' sys)) \<Longrightarrow>
     saving (frm sys) \<and> form_gen (set_page p' sys) = form_gen sys \<and> form_visible p'"
  by (auto simp: set_page_def form_init_def form_load_def split: if_splits option.splits)

lemma set_page_form_inv: "form_inv sys \<Longrightarrow> form_inv (set_page p' sys)"
  unfolding form_inv_def by (metis set_page_saving set_page_simps)

lemma set_remove_nth:
  assumes "x \<in> set xs" and "x \<noteq> xs ! k" and "k < length xs"
  shows "x \<in> set (take k xs @ drop (Suc k) xs)"
proof -
  have "xs = take k xs @ xs ! k # drop (Suc k) xs" using assms(3) by (simp add: id_take_nth_drop)
  with assms(1,2) show ?thesis by (metis Un_iff insert_iff list.simps(15) set_append)
qed

lemma deliver_form_inv:
  assumes inv: "form_inv sys"
  shows "form_inv (deliver k sys)"
proof (cases "k < length (inflight sys)")
  case True
  define pd where "pd = inflight sys ! k"
  obtain a p' where r: "resume (pd_call pd) (pd_snap pd) (pd_reply pd) (ui sys) = (a, p')"
    by (cases "resume (pd_call pd) (pd_snap pd) (pd_reply pd) (ui sys)")
  define sysA where "sysA = sys\<lparr>inflight := take k (inflight sys) @ drop (Suc k) (inflight sys),
                                alerts := alerts sys @ (case a of None \<Rightarrow> [] | Some m \<Rightarrow> [m])\<rparr>"
  define sys1 where "sys1 = set_page p' sysA"
  have d: "deliver k sys = (if pd_waiter pd = Some (form_gen sys1) \<and> form_visible (ui sys1)
                            then sys1\<lparr>frm := form_submit_done (frm sys1)\<rparr> else sys1)"
    using True r by (simp add: deliver_def pd_def sysA_def sys1_def Let_def)
  show ?thesis
  proof (cases "saving (frm (deliver k sys))")
    case sv: True
    then have s1: "saving (frm sys1)" and w: "\<not> (pd_waiter pd = Some (form_gen sys1) \<and> form_visible (ui sys1))"
      by (auto simp: d form_submit_done_def split: if_splits)
    from s1 have s0: "saving (frm sys)" and g: "form_gen sys1 = form_gen sys" and v: "form_visible p'"
      using set_page_saving [of p' sysA] by (simp_all add: sys1_def sysA_def)
    from inv s0 obtain pd' where pd': "pd' \<in> set (inflight sys)" "pd_waiter pd' = Some (form_gen sys)"
      by (auto simp: form_inv_def)
    from w g v have "pd_waiter pd \<noteq> Some (form_gen sys)" by (simp add: sys1_def)
    with pd' have "pd' \<noteq> inflight sys ! k" by (auto simp: pd_def)
    with pd' True have "pd' \<in> set (take k (inflight sys) @ drop (Suc k) (inflight sys))"
      by (intro set_remove_nth)
    then have "pd' \<in> set (inflight sys1)" by (simp add: sys1_def sysA_def)
    with pd' g v w show ?thesis by (auto simp: form_inv_def d sys1_def)
  next
    case False
    then show ?thesis by (simp add: form_inv_def)
  qed
next
  case False
  with inv show ?thesis by simp
qed

lemma submit_form_inv:
  assumes "form_inv sys" and "form_visible (ui sys)" and "\<not> saving (frm sys)"
  shows "form_inv (submit fresh sys)"
proof (cases "form_submit (frm sys)")
  case (Pair out f)
  show ?thesis
  proof (cases out)
    case (FormAlert a)
    with Pair assms show ?thesis by (auto simp: submit_def form_inv_def dest: form_submit_FormAlert)
  next
    case (FormSubmit t c)
    with Pair have f: "f = (frm sys)\<lparr>saving := True\<rparr>" by (simp add: form_submit_FormSubmit)
    with Pair FormSubmit assms show ?thesis
      by (auto simp: submit_def form_inv_def form_submit_done_def
               split: option.splits sum.splits)
  qed
qed

lemma form_inv_fail_reply:
  assumes "form_inv sys"
  shows "form_inv (sys\<lparr>inflight := (inflight sys)[k := (inflight sys ! k)\<lparr>pd_reply := None\<rparr>]\<rparr>)"
proof -
  have ex: "(\<exists>pd\<in>set xs. pd_waiter pd = w) \<longleftrightarrow> w \<in> set (map pd_waiter xs)" for xs w
    by auto
  have "map pd_waiter ((inflight sys)[k := (inflight sys ! k)\<lparr>pd_reply := None\<rparr>]) = map pd_waiter (inflight sys)"
    by (simp add: map_update) (metis list_update_id map_update)
  with assms show ?thesis unfolding form_inv_def ex by simp
qed

lemma sys_step_form_inv:
  assumes inv: "form_inv sys"
  shows "form_inv (sys_step sys e)"
proof (cases e)
  case (ClickSubmit fresh)
  with inv show ?thesis by (simp add: submit_form_inv)
next
  case (Deliver k)
  with inv show ?thesis by (simp add: deliver_form_inv)
next
  case (FailAnswer k)
  from inv have "form_inv (sys\<lparr>inflight := (inflight sys)[k := (inflight sys ! k)\<lparr>pd_reply := None\<rparr>]\<rparr>)"
    by (rule form_inv_fail_reply)
  with FailAnswer show ?thesis by (simp add: fail_answer_def deliver_form_inv)
next
  case (ClickDelete n ok)
  with inv show ?thesis by (auto simp: click_delete_def form_inv_def)
next
  case (TypeTitle v)
  with inv show ?thesis by (auto simp: form_inv_def form_input_title_def)
next
  case (TypeContent v)
  with inv show ?thesis by (simp add: form_inv_def form_input_content_def)
next
  case (Env ev)
  with inv show ?thesis by (simp add: form_inv_def)
qed (use inv in \<open>simp_all add: set_page_form_inv\<close>)

lemma reachable_form_inv: "sys_reachable sys \<Longrightarrow> form_inv sys"
proof (induction rule: sys_reachable.induct)
  case (init s)
  then show ?case by (simp add: form_inv_def sys_init_def form_init_def)
next
  case (step sys e)
  from step.IH show ?case by (rule sys_step_form_inv)
qed

lemma deliver_waiter:
  assumes "k < length (inflight sys)" and "pd_waiter (inflight sys ! k) = Some (form_gen sys)"
  shows "\<not> saving (frm (deliver k sys))"
proof -
  define pd where "pd = inflight sys ! k"
  obtain a p' where r: "resume (pd_call pd) (pd_snap pd) (pd_reply pd) (ui sys) = (a, p')"
    by (cases "resume (pd_call pd) (pd_snap pd) (pd_reply pd) (ui sys)")
  define sys1 where "sys1 = set_page p' (sys\<lparr>inflight := take k (inflight sys) @ drop (Suc k) (inflight sys),
                                alerts := alerts sys @ (case a of None \<Rightarrow> [] | Some m \<Rightarrow> [m])\<rparr>)"
  have d: "deliver k sys = (if pd_waiter pd = Some (form_gen sys1) \<and> form_visible (ui sys1)
                            then sys1\<lparr>frm := form_submit_done (frm sys1)\<rparr> else sys1)"
    using assms(1) r by (simp add: deliver_def pd_def sys1_def Let_def)
  show ?thesis
  proof (cases "saving (frm sys1)")
    case True
    then have "form_gen sys1 = form_gen sys" and "form_visible (ui sys1)"
      using set_page_saving [of p'] by (simp_all add: sys1_def)
    with assms(2) show ?thesis by (simp add: d pd_def form_submit_done_def)
  next
    case False
    then show ?thesis by (simp add: d form_submit_done_def)
  qed
qed

lemma sys_reachable_run: "sys_reachable sys \<Longrightarrow> sys_reachable (sys_run sys es)"
  by (induction es arbitrary: sys) (simp_all add: sys_reachable.step)

lemma store_wf_short: "store_wf s \<Longrightarrow> n \<in> set (docs s) \<Longrightarrow> short_note n"
  by (simp add: store_wf_def note_wf_def short_note_def)

lemma set_sort_by_created_desc [simp]: "set (sort_by_created_desc ns) = set ns"
  by (simp add: sort_by_created_desc_def)

lemma reply_fits_list: "store_wf s \<Longrightarrow> reply_fits LoadCall (Some (fst (api_handle ListNotes s)))"
  using api_handle_contract [of ListNotes s]
  by (auto simp: api_contract_def list_all_iff store_wf_short)

lemma reply_fits_create:
  assumes "store_wf s"
  shows "reply_fits CreateCall (Some (fst (api_handle (CreateNote fresh b) s)))"
proof -
  let ?r = "fst (api_handle (CreateNote fresh b) s)" and ?s' = "snd (api_handle (CreateNote fresh b) s)"
  have wf': "store_wf ?s'" using assms by (rule api_handle_store_wf)
  show ?thesis
  proof (cases "response_ok ?r")
    case True
    with api_handle_contract [of "CreateNote fresh b" s] obtain n
      where "data (body ?r) = Some (NoteData n)" and "docs ?s' = docs s @ [n]"
      by (auto simp: api_contract_def)
    with wf' show ?thesis by (simp add: store_wf_short)
  qed simp
qed

lemma reply_fits_update:
  assumes "store_wf s"
  shows "reply_fits (UpdateCall i) (Some (fst (api_handle (UpdateNote i b) s)))"
proof -
  let ?r = "fst (api_handle (UpdateNote i b) s)" and ?s' = "snd (api_handle (UpdateNote i b) s)"
  have wf': "store_wf ?s'" using assms by (rule api_handle_store_wf)
  show ?thesis
  proof (cases "response_ok ?r")
    case True
    with api_handle_contract [of "UpdateNote i b" s] obtain k n t c
      where n: "find_note k (docs s) = Some n"
        and d: "data (body ?r) = Some (NoteData (apply_update t c (clock s) n))"
        and s': "docs ?s' = map (\<lambda>m. if note_id m = k then apply_update t c (clock s) m else m) (docs s)"
      by (auto simp: api_contract_def)
    from n have "n \<in> set (docs s)" and "note_id n = k" by (simp_all add: find_note_Some)
    then have "apply_update t c (clock s) n \<in> set (docs ?s')"
      unfolding s' set_map by (intro image_eqI [where x = n]) simp_all
    with wf' d show ?thesis by (simp add: store_wf_short)
  qed simp
qed

lemma resume_short:
  assumes "list_all short_note snap" and "reply_fits c r"
    and "list_all short_note (page_notes p)" and "pred_option short_note (editingNote p)"
  shows "list_all short_note (page_notes (snd (resume c snap r p))) \<and>
         pred_option short_note (editingNote (snd (resume c snap r p)))"
  using assms
  by (cases c; cases r)
     (auto simp: load_notes_done_def create_note_done_def update_note_done_def delete_note_done_def
                 list_all_iff split: option.splits payload.splits)

lemma set_page_title:
  "pred_option short_note (editingNote p') \<Longrightarrow> length (form_title (frm sys)) \<le> 100 \<Longrightarrow>
   length (form_title (frm (set_page p' sys))) \<le> 100"
  by (auto simp: set_page_def form_init_def form_load_def short_note_def split: option.splits)

lemma ui_inv_set_page:
  "ui_inv sys \<Longrightarrow> list_all short_note (page_notes p') \<Longrightarrow> pred_option short_note (editingNote p') \<Longrightarrow>
   ui_inv (set_page p' sys)"
  by (simp add: ui_inv_def set_page_title)

lemma ui_inv_send:
  "ui_inv sys \<Longrightarrow> reply_fits c (Some (fst (api_handle q (srv sys)))) \<Longrightarrow> ui_inv (send c q w sys)"
  by (simp add: ui_inv_def api_handle_store_wf)

lemma list_all_remove_nth:
  "list_all P xs \<Longrightarrow> list_all P (take k xs @ drop (Suc k) xs)"
  by (auto simp: list_all_iff dest: in_set_takeD in_set_dropD)

lemma ui_inv_deliver:
  assumes inv: "ui_inv sys"
  shows "ui_inv (deliver k sys)"
proof (cases "k < length (inflight sys)")
  case True
  define pd where "pd = inflight sys ! k"
  obtain a p' where r: "resume (pd_call pd) (pd_snap pd) (pd_reply pd) (ui sys) = (a, p')"
    by (cases "resume (pd_call pd) (pd_snap pd) (pd_reply pd) (ui sys)")
  define sysA where "sysA = sys\<lparr>inflight := take k (inflight sys) @ drop (Suc k) (inflight sys),
                                alerts := alerts sys @ (case a of None \<Rightarrow> [] | Some m \<Rightarrow> [m])\<rparr>"
  define sys1 where "sys1 = set_page p' sysA"
  have d: "deliver k sys = (if pd_waiter pd = Some (form_gen sys1) \<and> form_visible (ui sys1)
                            then sys1\<lparr>frm := form_submit_done (frm sys1)\<rparr> else sys1)"
    using True r by (simp add: deliver_def pd_def sysA_def sys1_def Let_def)
  have "pd \<in> set (inflight sys)" using True by (simp add: pd_def)
  with inv have sn: "list_all short_note (pd_snap pd)" and fi: "reply_fits (pd_call pd) (pd_reply pd)"
    by (simp_all add: ui_inv_def list_all_iff)
  from inv have "list_all short_note (page_notes (ui sys))" "pred_option short_note (editingNote (ui sys))"
    by (simp_all add: ui_inv_def)
  from resume_short [OF sn fi this] r
  have p': "list_all short_note (page_notes p')" "pred_option short_note (editingNote p')" by simp_all
  from inv have "list_all (\<lambda>pd. list_all short_note (pd_snap pd) \<and> reply_fits (pd_call pd) (pd_reply pd))
                  (take k (inflight sys) @ drop (Suc k) (inflight sys))"
    by (intro list_all_remove_nth) (simp add: ui_inv_def)
  with inv have "ui_inv sysA" by (simp add: ui_inv_def sysA_def)
  then have "ui_inv sys1" using p' by (simp add: sys1_def ui_inv_set_page)
  then show ?thesis by (simp add: d ui_inv_def form_submit_done_def)
next
  case False
  with inv show ?thesis by simp
qed

lemma ui_inv_fail_reply:
  assumes "ui_inv sys"
  shows "ui_inv (sys\<lparr>inflight := (inflight sys)[k := (inflight sys ! k)\<lparr>pd_reply := None\<rparr>]\<rparr>)"
proof -
  have "set ((inflight sys)[k := (inflight sys ! k)\<lparr>pd_reply := None\<rparr>]) \<subseteq>
          insert ((inflight sys ! k)\<lparr>pd_reply := None\<rparr>) (set (inflight sys))"
    by (rule set_update_subset_insert)
  moreover have "list_all short_note (pd_snap (inflight sys ! k))" if "k < length (inflight sys)"
    using assms that by (auto simp: ui_inv_def list_all_iff)
  ultimately show ?thesis using assms
    by (cases "k < length (inflight sys)") (auto simp: ui_inv_def list_all_iff not_less list_update_beyond)
qed

lemma ui_inv_submit:
  assumes inv: "ui_inv sys"
  shows "ui_inv (submit fresh sys)"
proof (cases "form_submit (frm sys)")
  case (Pair out f)
  have wf: "store_wf (srv sys)" using inv by (simp add: ui_inv_def)
  show ?thesis
  proof (cases out)
    case (FormAlert a)
    with Pair inv show ?thesis by (auto simp: submit_def ui_inv_def dest: form_submit_FormAlert)
  next
    case (FormSubmit t c)
    with Pair have f: "f = (frm sys)\<lparr>saving := True\<rparr>" by (simp add: form_submit_FormSubmit)
    with inv have inv': "ui_inv (sys\<lparr>frm := f\<rparr>)" by (simp add: ui_inv_def)
    show ?thesis
    proof (cases "editingNote (ui sys)")
      case (Some n)
      have "ui_inv (send (UpdateCall (note_key n)) (UpdateNote (note_key n) (note_body t c))
                    (Some (form_gen sys)) (sys\<lparr>frm := f\<rparr>))"
        by (rule ui_inv_send [OF inv']) (use reply_fits_update [OF wf] in simp)
      with Pair FormSubmit Some show ?thesis by (simp add: submit_def)
    next
      case None
      show ?thesis
      proof (cases "create_note t c")
        case (Inl a)
        with Pair FormSubmit None inv' show ?thesis
          by (simp add: submit_def ui_inv_def form_submit_done_def f)
      next
        case (Inr b)
        have "ui_inv (send CreateCall (CreateNote fresh b) (Some (form_gen sys)) (sys\<lparr>frm := f\<rparr>))"
          by (rule ui_inv_send [OF inv']) (use reply_fits_create [OF wf] in simp)
        with Pair FormSubmit None Inr show ?thesis by (simp add: submit_def)
      qed
    qed
  qed
qed

lemma ui_inv_step:
  assumes inv: "ui_inv sys"
  shows "ui_inv (sys_step sys e)"
proof (cases e)
  case ClickToggle
  have "ui_inv (set_page (toggle_form (ui sys)) sys)"
    using inv by (intro ui_inv_set_page) (simp_all add: toggle_form_def ui_inv_def)
  with ClickToggle inv show ?thesis by simp
next
  case (ClickEdit n)
  have "n \<in> set (page_notes (ui sys)) \<Longrightarrow> ui_inv (set_page (edit_note n (ui sys)) sys)"
    using inv by (intro ui_inv_set_page) (simp_all add: edit_note_def ui_inv_def list_all_iff)
  with ClickEdit inv show ?thesis by simp
next
  case ClickCancel
  have "ui_inv (set_page (cancel_form (ui sys)) sys)"
    using inv by (intro ui_inv_set_page) (simp_all add: cancel_form_def ui_inv_def)
  with ClickCancel inv show ?thesis by simp
next
  case (TypeTitle v)
  with inv show ?thesis by (simp add: ui_inv_def form_input_title_def)
next
  case (TypeContent v)
  with inv show ?thesis by (simp add: ui_inv_def form_input_content_def)
next
  case (ClickSubmit fresh)
  with inv show ?thesis by (simp add: ui_inv_submit)
next
  case (ClickDelete n ok)
  have "ui_inv (send (DeleteCall (note_key n)) (DeleteNote (note_key n)) None sys)"
    by (rule ui_inv_send [OF inv]) simp
  with ClickDelete inv show ?thesis by (simp add: click_delete_def)
next
  case (Deliver k)
  with inv show ?thesis by (simp add: ui_inv_deliver)
next
  case (FailAnswer k)
  from inv have "ui_inv (sys\<lparr>inflight := (inflight sys)[k := (inflight sys ! k)\<lparr>pd_reply := None\<rparr>]\<rparr>)"
    by (rule ui_inv_fail_reply)
  with FailAnswer show ?thesis by (simp add: fail_answer_def ui_inv_deliver)
next
  case (Env ev)
  with inv show ?thesis by (simp add: ui_inv_def server_step_store_wf)
qed

lemma reachable_ui_inv: "sys_reachable sys \<Longrightarrow> ui_inv sys"
proof (induction rule: sys_reachable.induct)
  case (init s)
  then have "ui_inv \<lparr>ui = page_init, frm = form_init, form_gen = 0, srv = s, inflight = [], alerts = []\<rparr>"
    by (simp add: ui_inv_def page_init_def form_init_def)
  then show ?case unfolding sys_init_def
    by (rule ui_inv_send) (use reply_fits_list [OF init(1)] in simp)
next
  case (step sys e)
  from step.IH show ?case by (rule ui_inv_step)
qed

lemma deliver_alerts:
  assumes "k < length (inflight sys)"
  shows "alerts (deliver k sys) = alerts sys @
           (case fst (resume (pd_call (inflight sys ! k)) (pd_snap (inflight sys ! k))
                             (pd_reply (inflight sys ! k)) (ui sys)) of None \<Rightarrow> [] | Some m \<Rightarrow> [m])"
  using assms by (simp add: deliver_def Let_def case_prod_unfold set_page_def)

lemma click_delete_stored:
  assumes "\<not> loading (ui sys)" and "n \<in> set (page_notes (ui sys))"
    and "reachable (srv sys)" and "n \<in> set (docs (srv sys))"
  shows "sys_step sys (ClickDelete n True) =
           send (DeleteCall (note_key n)) (DeleteNote (note_key n)) None sys"
    and "srv (sys_step sys (ClickDelete n True)) =
           (srv sys)\<lparr>connected := True, docs := filter (\<lambda>m. note_id m \<noteq> note_id n) (docs (srv sys))\<rparr>"
    and "pd_reply (last (inflight (sys_step sys (ClickDelete n True)))) =
           Some (message_response 200 ''Note deleted successfully'')"
  using assms by (simp_all add: click_delete_def note_key_def api_delete_stored)

section \<open>Properties of the page with the server\<close>

text \<open>
  C18. With one user acting at a time, each answer reaching the page before the next
  event and no other client writing, the page's list always holds exactly the stored
  notes (as a multiset) and is ordered newest first, from the successful initial load
  through any sequence of creates, updates, deletes, form edits, clock ticks and
  database outages; failed requests change neither side.
\<close>

theorem sequential_page_in_step:
  "seq_reachable sys \<Longrightarrow>
     mset (page_notes (ui sys)) = mset (docs (srv sys)) \<and>
     sorted_wrt (\<lambda>a b. createdAt b \<le> createdAt a) (page_notes (ui sys))"
proof -
  assume "seq_reachable sys"
  then have "seq_inv sys"
    by (induction rule: seq_reachable.induct) (simp_all add: seq_inv_start seq_inv_step)
  then show ?thesis by (simp add: seq_inv_def synced_def)
qed

theorem sequential_page_in_step_witness:
  "mset (page_notes (ui (settle (sys_step (deliver 0 (sys_init \<lparr>docs = [\<lparr>note_id = 7, title = js_str ''Shopping'', content = js_str ''Milk'', createdAt = 1000, updatedAt = 1000\<rparr>],
       clock = 2000, connected = False, reachable = True\<rparr>)) (ClickDelete \<lparr>note_id = 7, title = js_str ''Shopping'', content = js_str ''Milk'', createdAt = 1000, updatedAt = 1000\<rparr> True))))) = mset (docs (srv (settle (sys_step (deliver 0 (sys_init \<lparr>docs = [\<lparr>note_id = 7, title = js_str ''Shopping'', content = js_str ''Milk'', createdAt = 1000, updatedAt = 1000\<rparr>],
       clock = 2000, connected = False, reachable = True\<rparr>)) (ClickDelete \<lparr>note_id = 7, title = js_str ''Shopping'', content = js_str ''Milk'', createdAt = 1000, updatedAt = 1000\<rparr> True))))) \<and>
   sorted_wrt (\<lambda>a b. createdAt b \<le> createdAt a) (page_notes (ui (settle (sys_step (deliver 0 (sys_init \<lparr>docs = [\<lparr>note_id = 7, title = js_str ''Shopping'', content = js_str ''Milk'', createdAt = 1000, updatedAt = 1000\<rparr>],
       clock = 2000, connected = False, reachable = True\<rparr>)) (ClickDelete \<lparr>note_id = 7, title = js_str ''Shopping'', content = js_str ''Milk'', createdAt = 1000, updatedAt = 1000\<rparr> True)))))"
  by (rule sequential_page_in_step, rule seq_reachable.step [OF seq_reachable.start])
     (simp_all add: store_wf_def note_wf_def eval_simps)

text \<open>
  C19. The handlers splice the list captured by their closure rather than the current
  one (\<^verbatim>\<open>setNotes(notes.filter(...))\<close>). Whenever two listed notes are deleted
  one after the other before either answer arrives, both deletes succeed on the
  server, but the second answer overwrites the first: the page ends with its list
  minus only the second note, so it keeps listing the first, which the collection no
  longer holds. This holds whatever else is in flight.
\<close>

theorem overlapping_deletes_resurrect:
  assumes "\<not> loading (ui sys)" and "a \<in> set (page_notes (ui sys))" and "b \<in> set (page_notes (ui sys))"
    and "reachable (srv sys)" and "a \<in> set (docs (srv sys))" and "b \<in> set (docs (srv sys))"
    and "note_id a \<noteq> note_id b"
  shows "let sys' = sys_run sys [ClickDelete a True, ClickDelete b True,
                                 Deliver (length (inflight sys)), Deliver (length (inflight sys))]
         in page_notes (ui sys') = filter (\<lambda>m. note_key m \<noteq> note_key b) (page_notes (ui sys)) \<and>
            docs (srv sys') = filter (\<lambda>m. note_id m \<noteq> note_id a \<and> note_id m \<noteq> note_id b) (docs (srv sys)) \<and>
            a \<in> set (page_notes (ui sys')) \<and> a \<notin> set (docs (srv sys'))"
proof -
  define sys1 where "sys1 = sys_step sys (ClickDelete a True)"
  have s1: "srv sys1 = (srv sys)\<lparr>connected := True, docs := filter (\<lambda>m. note_id m \<noteq> note_id a) (docs (srv sys))\<rparr>"
    and u1: "ui sys1 = ui sys"
    and i1: "inflight sys1 = inflight sys @ [\<lparr>pd_call = DeleteCall (note_key a), pd_snap = page_notes (ui sys),
               pd_reply = Some (message_response 200 ''Note deleted successfully''), pd_waiter = None\<rparr>]"
    using click_delete_stored [OF assms(1,2,4,5)] by (simp_all add: sys1_def)
  define sys2 where "sys2 = sys_step sys1 (ClickDelete b True)"
  have b1: "b \<in> set (docs (srv sys1))" using assms(6,7) by (simp add: s1)
  have s2: "srv sys2 = (srv sys)\<lparr>connected := True,
              docs := filter (\<lambda>m. note_id m \<noteq> note_id a \<and> note_id m \<noteq> note_id b) (docs (srv sys))\<rparr>"
    and u2: "ui sys2 = ui sys"
    and i2: "inflight sys2 = inflight sys1 @ [\<lparr>pd_call = DeleteCall (note_key b), pd_snap = page_notes (ui sys),
               pd_reply = Some (message_response 200 ''Note deleted successfully''), pd_waiter = None\<rparr>]"
    using click_delete_stored [of sys1 b] assms(1,3,4) b1
    by (simp_all add: sys2_def s1 u1 conj_commute)
  define k where "k = length (inflight sys)"
  then have klen: "length (inflight sys) = k" by simp
  have ab: "note_key a \<noteq> note_key b" using assms(7) by (simp add: note_key_def)
  have u3: "page_notes (ui (deliver k sys2)) = filter (\<lambda>m. note_key m \<noteq> note_key a) (page_notes (ui sys))"
    and i3: "inflight (deliver k sys2) = inflight sys @ [\<lparr>pd_call = DeleteCall (note_key b), pd_snap = page_notes (ui sys),
               pd_reply = Some (message_response 200 ''Note deleted successfully''), pd_waiter = None\<rparr>]"
    and s3: "srv (deliver k sys2) = srv sys2"
    by (simp_all add: deliver_simps i2 i1 klen nth_append delete_note_done_def)
  have k3: "k < length (inflight (deliver k sys2))" by (simp add: i3 klen)
  have u4: "page_notes (ui (deliver k (deliver k sys2))) = filter (\<lambda>m. note_key m \<noteq> note_key b) (page_notes (ui sys))"
    and s4: "srv (deliver k (deliver k sys2)) = srv sys2"
    by (simp_all add: deliver_simps [OF k3] i3 s3 klen nth_append delete_note_done_def)
  have run: "sys_run sys [ClickDelete a True, ClickDelete b True, Deliver k, Deliver k] = deliver k (deliver k sys2)"
    by (simp add: sys1_def sys2_def)
  show ?thesis
    unfolding Let_def k_def [symmetric] run using u4 s4 s2 assms(2) ab by auto
qed

theorem overlapping_deletes_resurrect_witness:
  "let sys' = sys_run
       \<lparr>ui = \<lparr>page_notes = [\<lparr>note_id = 8, title = js_str ''B'', content = js_str ''b'', createdAt = 2000, updatedAt = 2000\<rparr>,
                            \<lparr>note_id = 7, title = js_str ''A'', content = js_str ''a'', createdAt = 1000, updatedAt = 1000\<rparr>],
               loading = False, showForm = False, editingNote = None\<rparr>,
        frm = form_init, form_gen = 0,
        srv = \<lparr>docs = [\<lparr>note_id = 7, title = js_str ''A'', content = js_str ''a'', createdAt = 1000, updatedAt = 1000\<rparr>,
                       \<lparr>note_id = 8, title = js_str ''B'', content = js_str ''b'', createdAt = 2000, updatedAt = 2000\<rparr>],
               clock = 3000, connected = True, reachable = True\<rparr>,
        inflight = [], alerts = []\<rparr>
       [ClickDelete \<lparr>note_id = 7, title = js_str ''A'', content = js_str ''a'', createdAt = 1000, updatedAt = 1000\<rparr> True,
        ClickDelete \<lparr>note_id = 8, title = js_str ''B'', content = js_str ''b'', createdAt = 2000, updatedAt = 2000\<rparr> True,
        Deliver 0, Deliver 0]
   in page_notes (ui sys') = [\<lparr>note_id = 7, title = js_str ''A'', content = js_str ''a'', createdAt = 1000, updatedAt = 1000\<rparr>] \<and>
      docs (srv sys') = [] \<and>
      \<lparr>note_id = 7, title = js_str ''A'', content = js_str ''a'', createdAt = 1000, updatedAt = 1000\<rparr> \<in> set (page_notes (ui sys')) \<and>
      \<lparr>note_id = 7, title = js_str ''A'', content = js_str ''a'', createdAt = 1000, updatedAt = 1000\<rparr> \<notin> set (docs (srv sys'))"
  using overlapping_deletes_resurrect [where sys = "\<lparr>ui = \<lparr>page_notes = [\<lparr>note_id = 8, title = js_str ''B'', content = js_str ''b'', createdAt = 2000, updatedAt = 2000\<rparr>,
                            \<lparr>note_id = 7, title = js_str ''A'', content = js_str ''a'', createdAt = 1000, updatedAt = 1000\<rparr>],
               loading = False, showForm = False, editingNote = None\<rparr>,
        frm = form_init, form_gen = 0,
        srv = \<lparr>docs = [\<lparr>note_id = 7, title = js_str ''A'', content = js_str ''a'', createdAt = 1000, updatedAt = 1000\<rparr>,
                       \<lparr>note_id = 8, title = js_str ''B'', content = js_str ''b'', createdAt = 2000, updatedAt = 2000\<rparr>],
               clock = 3000, connected = True, reachable = True\<rparr>,
        inflight = [], alerts = []\<rparr>"
      and a = "\<lparr>note_id = 7, title = js_str ''A'', content = js_str ''a'', createdAt = 1000, updatedAt = 1000\<rparr>"
      and b = "\<lparr>note_id = 8, title = js_str ''B'', content = js_str ''b'', createdAt = 2000, updatedAt = 2000\<rparr>"]
  by (simp add: note_key_def)

text \<open>
  C20. In every state the page and server can reach, under any interleaving of answers
  and with other clients writing, a form that shows \<^verbatim>\<open>Saving...\<close> is on screen and
  the request it awaits is in flight.
\<close>

theorem saving_awaits_answer:
  "sys_reachable sys \<Longrightarrow> saving (frm sys) \<Longrightarrow>
     form_visible (ui sys) \<and> (\<exists>pd\<in>set (inflight sys). pd_waiter pd = Some (form_gen sys))"
proof -
  assume "sys_reachable sys" "saving (frm sys)"
  moreover from \<open>sys_reachable sys\<close> have "form_inv sys" by (rule reachable_form_inv)
  ultimately show ?thesis by (simp add: form_inv_def)
qed

theorem saving_awaits_answer_witness:
  "form_visible (ui (sys_run (sys_init \<lparr>docs = [], clock = 1000, connected = False, reachable = True\<rparr>)
      [Deliver 0, ClickToggle, TypeTitle (js_str ''Shopping''), TypeContent (js_str ''Milk''), ClickSubmit 7])) \<and>
   (\<exists>pd\<in>set (inflight (sys_run (sys_init \<lparr>docs = [], clock = 1000, connected = False, reachable = True\<rparr>)
      [Deliver 0, ClickToggle, TypeTitle (js_str ''Shopping''), TypeContent (js_str ''Milk''), ClickSubmit 7])).
      pd_waiter pd = Some (form_gen (sys_run (sys_init \<lparr>docs = [], clock = 1000, connected = False, reachable = True\<rparr>)
      [Deliver 0, ClickToggle, TypeTitle (js_str ''Shopping''), TypeContent (js_str ''Milk''), ClickSubmit 7])))"
proof (rule saving_awaits_answer)
  show "sys_reachable (sys_run (sys_init \<lparr>docs = [], clock = 1000, connected = False, reachable = True\<rparr>)
      [Deliver 0, ClickToggle, TypeTitle (js_str ''Shopping''), TypeContent (js_str ''Milk''), ClickSubmit 7])"
    by (intro sys_reachable_run sys_reachable.init) (simp add: store_wf_def)
  show "saving (frm (sys_run (sys_init \<lparr>docs = [], clock = 1000, connected = False, reachable = True\<rparr>)
      [Deliver 0, ClickToggle, TypeTitle (js_str ''Shopping''), TypeContent (js_str ''Milk''), ClickSubmit 7]))"
    by (simp add: eval_simps)
qed

text \<open>
  C21. A form never stays stuck in \<^verbatim>\<open>Saving...\<close>: in every reachable state where it
  saves, delivering one of the answers in flight re-enables it.
\<close>

theorem saving_released:
  "sys_reachable sys \<Longrightarrow> saving (frm sys) \<Longrightarrow>
     \<exists>k < length (inflight sys). \<not> saving (frm (deliver k sys))"
proof -
  assume "sys_reachable sys" and "saving (frm sys)"
  then obtain pd where "pd \<in> set (inflight sys)" and w: "pd_waiter pd = Some (form_gen sys)"
    using reachable_form_inv by (auto simp: form_inv_def)
  then obtain k where k: "k < length (inflight sys)" and "inflight sys ! k = pd"
    by (auto simp: in_set_conv_nth)
  with w have "\<not> saving (frm (deliver k sys))" by (simp add: deliver_waiter)
  with k show ?thesis by blast
qed

theorem saving_released_witness:
  "\<exists>k < length (inflight (sys_run (sys_init \<lparr>docs = [], clock = 1000, connected = False, reachable = True\<rparr>)
      [Deliver 0, ClickToggle, TypeTitle (js_str ''Shopping''), TypeContent (js_str ''Milk''), ClickSubmit 7])).
     \<not> saving (frm (deliver k (sys_run (sys_init \<lparr>docs = [], clock = 1000, connected = False, reachable = True\<rparr>)
      [Deliver 0, ClickToggle, TypeTitle (js_str ''Shopping''), TypeContent (js_str ''Milk''), ClickSubmit 7])))"
proof (rule saving_released)
  show "sys_reachable (sys_run (sys_init \<lparr>docs = [], clock = 1000, connected = False, reachable = True\<rparr>)
      [Deliver 0, ClickToggle, TypeTitle (js_str ''Shopping''), TypeContent (js_str ''Milk''), ClickSubmit 7])"
    by (intro sys_reachable_run sys_reachable.init) (simp add: store_wf_def)
  show "saving (frm (sys_run (sys_init \<lparr>docs = [], clock = 1000, connected = False, reachable = True\<rparr>)
      [Deliver 0, ClickToggle, TypeTitle (js_str ''Shopping''), TypeContent (js_str ''Milk''), ClickSubmit 7]))"
    by (simp add: eval_simps)
qed

text \<open>
  C22. A request whose answer is lost after the server acted is not reconciled:
  whenever the \<^verbatim>\<open>fetch\<close> of a confirmed delete of a listed, stored note rejects
  after the server removed it, the page alerts \<^verbatim>\<open>Error deleting note\<close> and keeps
  its list unchanged, so it lists a note that no longer exists.
\<close>

theorem lost_delete_answer_keeps_note:
  assumes "\<not> loading (ui sys)" and "n \<in> set (page_notes (ui sys))"
    and "reachable (srv sys)" and "n \<in> set (docs (srv sys))"
  shows "let sys' = sys_run sys [ClickDelete n True, FailAnswer (length (inflight sys))]
         in page_notes (ui sys') = page_notes (ui sys) \<and>
            alerts sys' = alerts sys @ [''Error deleting note''] \<and>
            docs (srv sys') = filter (\<lambda>m. note_id m \<noteq> note_id n) (docs (srv sys)) \<and>
            n \<in> set (page_notes (ui sys')) \<and> n \<notin> set (docs (srv sys'))"
proof -
  define sys1 where "sys1 = sys_step sys (ClickDelete n True)"
  have s1: "srv sys1 = (srv sys)\<lparr>connected := True, docs := filter (\<lambda>m. note_id m \<noteq> note_id n) (docs (srv sys))\<rparr>"
    and u1: "ui sys1 = ui sys" and a1: "alerts sys1 = alerts sys"
    and i1: "inflight sys1 = inflight sys @ [\<lparr>pd_call = DeleteCall (note_key n), pd_snap = page_notes (ui sys),
               pd_reply = Some (message_response 200 ''Note deleted successfully''), pd_waiter = None\<rparr>]"
    using click_delete_stored [OF assms] by (simp_all add: sys1_def)
  define k where "k = length (inflight sys)"
  then have klen: "length (inflight sys) = k" by simp
  define sysF where "sysF = sys1\<lparr>inflight := (inflight sys1)[k := (inflight sys1 ! k)\<lparr>pd_reply := None\<rparr>]\<rparr>"
  have iF: "inflight sysF = inflight sys @ [\<lparr>pd_call = DeleteCall (note_key n), pd_snap = page_notes (ui sys),
               pd_reply = None, pd_waiter = None\<rparr>]"
    by (simp add: sysF_def i1 klen nth_append list_update_append)
  have kF: "k < length (inflight sysF)" by (simp add: iF klen)
  have uF: "ui sysF = ui sys" and aF: "alerts sysF = alerts sys" and sF: "srv sysF = srv sys1"
    by (simp_all add: sysF_def u1 a1)
  have run: "sys_run sys [ClickDelete n True, FailAnswer k] = deliver k sysF"
    by (simp add: sys1_def sysF_def fail_answer_def)
  have u: "page_notes (ui (deliver k sysF)) = page_notes (ui sys)"
    and a: "alerts (deliver k sysF) = alerts sys @ [''Error deleting note'']"
    and s: "srv (deliver k sysF) = srv sys1"
    by (simp_all add: deliver_simps [OF kF] deliver_alerts [OF kF] iF klen nth_append
                      delete_note_done_def uF aF sF)
  show ?thesis
    unfolding Let_def k_def [symmetric] run using u a s s1 assms(2) by auto
qed

theorem lost_delete_answer_keeps_note_witness:
  "let sys' = sys_run
       \<lparr>ui = \<lparr>page_notes = [\<lparr>note_id = 7, title = js_str ''A'', content = js_str ''a'', createdAt = 1000, updatedAt = 1000\<rparr>],
               loading = False, showForm = False, editingNote = None\<rparr>,
        frm = form_init, form_gen = 0,
        srv = \<lparr>docs = [\<lparr>note_id = 7, title = js_str ''A'', content = js_str ''a'', createdAt = 1000, updatedAt = 1000\<rparr>],
               clock = 3000, connected = True, reachable = True\<rparr>,
        inflight = [], alerts = []\<rparr>
       [ClickDelete \<lparr>note_id = 7, title = js_str ''A'', content = js_str ''a'', createdAt = 1000, updatedAt = 1000\<rparr> True,
        FailAnswer 0]
   in page_notes (ui sys') = [\<lparr>note_id = 7, title = js_str ''A'', content = js_str ''a'', createdAt = 1000, updatedAt = 1000\<rparr>] \<and>
      alerts sys' = [''Error deleting note''] \<and> docs (srv sys') = [] \<and>
      \<lparr>note_id = 7, title = js_str ''A'', content = js_str ''a'', createdAt = 1000, updatedAt = 1000\<rparr> \<in> set (page_notes (ui sys')) \<and>
      \<lparr>note_id = 7, title = js_str ''A'', content = js_str ''a'', createdAt = 1000, updatedAt = 1000\<rparr> \<notin> set (docs (srv sys'))"
  using lost_delete_answer_keeps_note [where sys = "\<lparr>ui = \<lparr>page_notes = [\<lparr>note_id = 7, title = js_str ''A'', content = js_str ''a'', createdAt = 1000, updatedAt = 1000\<rparr>],
               loading = False, showForm = False, editingNote = None\<rparr>,
        frm = form_init, form_gen = 0,
        srv = \<lparr>docs = [\<lparr>note_id = 7, title = js_str ''A'', content = js_str ''a'', createdAt = 1000, updatedAt = 1000\<rparr>],
               clock = 3000, connected = True, reachable = True\<rparr>,
        inflight = [], alerts = []\<rparr>"
      and n = "\<lparr>note_id = 7, title = js_str ''A'', content = js_str ''a'', createdAt = 1000, updatedAt = 1000\<rparr>"]
  by simp

text \<open>
  C23. In every reachable state, under any interleaving, lost answers and other
  clients' writes, the form's counter \<^verbatim>\<open>{title.length}/100 characters\<close> never shows
  more than 100: notes loaded into the form come from the store, whose titles are
  bounded, and the input refuses longer values.
\<close>

theorem form_counter_bounded:
  "sys_reachable sys \<Longrightarrow> fv_count (render_form (editingNote (ui sys)) (frm sys)) \<le> 100"
  by (drule reachable_ui_inv) (simp add: ui_inv_def render_form_def)

theorem form_counter_bounded_witness:
  "fv_count (render_form (editingNote (ui (sys_run (sys_init \<lparr>docs = [], clock = 1000, connected = False, reachable = True\<rparr>)
      [Deliver 0, ClickToggle, TypeTitle (js_str ''Shopping'')])))
     (frm (sys_run (sys_init \<lparr>docs = [], clock = 1000, connected = False, reachable = True\<rparr>)
      [Deliver 0, ClickToggle, TypeTitle (js_str ''Shopping'')]))) \<le> 100"
  by (rule form_counter_bounded) (intro sys_reachable_run sys_reachable.init, simp add: store_wf_def)

text \<open>
  C24. Whatever the form submits from a reachable state passes the schema's cast and
  validation unchanged, so the UI never provokes the 500 of an oversized title, and
  the page's own check in \<^verbatim>\<open>createNote\<close> never fires on it.
\<close>

theorem ui_submissions_pass_schema:
  assumes "sys_reachable sys" and "form_submit (frm sys) = (FormSubmit t c, f')"
  shows "note_schema_cast t c = Inr (t, c) \<and> create_note t c = Inr (note_body t c)"
proof -
  from assms(2) have t: "t = js_trim (form_title (frm sys))" and c: "c = js_trim (form_content (frm sys))"
    and ne: "t \<noteq> []" "c \<noteq> []"
    unfolding form_submit_FormSubmit by auto
  from assms(1) have "length (form_title (frm sys)) \<le> 100"
    by (drule_tac reachable_ui_inv) (simp add: ui_inv_def)
  then have "length t \<le> 100" using js_trim_length [of "form_title (frm sys)"] t by simp
  with t c ne show ?thesis by (simp add: note_schema_cast_def create_note_def)
qed

theorem ui_submissions_pass_schema_witness:
  "note_schema_cast (js_str ''Shopping'') (js_str ''Milk'') = Inr (js_str ''Shopping'', js_str ''Milk'') \<and>
   create_note (js_str ''Shopping'') (js_str ''Milk'') = Inr (note_body (js_str ''Shopping'') (js_str ''Milk''))"
proof (rule ui_submissions_pass_schema [where sys = "sys_run (sys_init \<lparr>docs = [], clock = 1000, connected = False, reachable = True\<rparr>)
      [Deliver 0, ClickToggle, TypeTitle (js_str '' Shopping''), TypeContent (js_str ''Milk'')]"
    and f' = "(frm (sys_run (sys_init \<lparr>docs = [], clock = 1000, connected = False, reachable = True\<rparr>)
      [Deliver 0, ClickToggle, TypeTitle (js_str '' Shopping''), TypeContent (js_str ''Milk'')]))\<lparr>saving := True\<rparr>"])
  show "sys_reachable (sys_run (sys_init \<lparr>docs = [], clock = 1000, connected = False, reachable = True\<rparr>)
      [Deliver 0, ClickToggle, TypeTitle (js_str '' Shopping''), TypeContent (js_str ''Milk'')])"
    by (intro sys_reachable_run sys_reachable.init) (simp add: store_wf_def)
qed (simp add: eval_simps)

end
