(* ===== verification/Spec2Isabelle.thy ===== *)
theory Spec2Isabelle
  imports Notes_System
begin

text \<open>
  \<^bold>\<open>A verification development of the notes application.\<close>

  The repository is a Next.js note-taking application: a MongoDB collection of notes
  behind a Mongoose model (\<^verbatim>\<open>src/models/Note.ts\<close>), two route files that answer the
  REST API (\<^verbatim>\<open>src/app/api/notes/route.ts\<close>: list and create;
  \<^verbatim>\<open>src/app/api/notes/[id]/route.ts\<close>: read, update, delete one note), and a React page
  (\<^verbatim>\<open>src/app/page.tsx\<close> with \<^verbatim>\<open>src/components/NoteForm.tsx\<close> and
  \<^verbatim>\<open>src/components/NoteCard.tsx\<close>) that fetches the API and keeps its own copy of the
  list. Data flows request by request: page, route handler, Mongoose, database, and back.

  \<^bold>\<open>Theories.\<close>
  \<^item> \<open>Prelude\<close>: JavaScript strings as lists of UTF-16 code units (\<open>js_string\<close>,
    \<open>16 word list\<close>); the exceptions a handler can meet (\<open>exn\<close>); the
    state-exception monad (\<open>returnE\<close>, \<open>throwE\<close>, \<open>bindE\<close>) in which a handler's
    \<^verbatim>\<open>try\<close> block is written, with \<open>preserves\<close> to compose invariant proofs; keyed
    association lists and their map view (\<open>keyed\<close>); the collections
    \<open>exn_st_simps\<close>, \<open>keyed_simps\<close>, \<open>eval_simps\<close> (the definitions unfolded to
    evaluate the model on concrete inputs).
  \<^item> \<open>Js_Runtime\<close>: the JavaScript the handlers rely on: JSON values from
    \<^verbatim>\<open>request.json()\<close> (\<open>jsval\<close>, \<open>request_body\<close>), destructuring
    (\<open>js_get_field\<close>), truthiness (\<open>js_truthy\<close>), \<^verbatim>\<open>String.prototype.trim\<close>
    (\<open>js_trim\<close>, with ECMAScript's white space \<open>is_js_space\<close>) and \<^verbatim>\<open>v.trim()\<close> on
    a non-string (\<open>js_call_trim\<close>, a \<^verbatim>\<open>TypeError\<close>), with the lemmas on trim
    the route claims use (its result is a trimmed infix, never longer).
  \<^item> \<open>ObjectId\<close>: 96-bit ids (\<open>oid = 96 word\<close>), \<^verbatim>\<open>ObjectId.isValid\<close> on the URL
    segment (\<open>is_valid_object_id\<close>: 24 hex digits), the cast used by \<^verbatim>\<open>findById\<close>
    and its kin (\<open>object_id_of_hex\<close>), the \<^verbatim>\<open>_id\<close> serialisation (\<open>oid_to_hex\<close>),
    and the round trip between the last two, which the page's id comparisons use.
  \<^item> \<open>Note_Model\<close> (\<^verbatim>\<open>Note.ts\<close> and the Mongoose calls of the routes): the stored
    document \<open>INote\<close>; the schema's trim setter, \<^verbatim>\<open>required\<close> and
    \<^verbatim>\<open>maxlength: 100\<close> (\<open>note_schema_cast\<close>); the server state \<open>server\<close> (the
    collection in natural order, the clock \<^verbatim>\<open>Date.now()\<close>, whether \<^verbatim>\<open>dbConnect\<close>
    has opened the connection, whether the database answers); \<open>db_connect\<close>; the
    operations \<open>note_find_sorted\<close>, \<open>note_create\<close>, \<open>note_find_by_id\<close>,
    \<open>note_find_by_id_and_update\<close>, \<open>note_find_by_id_and_delete\<close>; the store invariant
    \<open>store_wf\<close> (unique ids; trimmed non-empty title of at most 100 code units; trimmed
    non-empty content; \<open>createdAt \<le> updatedAt \<le>\<close> clock) with one preservation lemma
    per operation; the abstraction \<open>store_map\<close> to a map from ids to notes and the
    abstract specification \<open>store_spec\<close>, which the operations refine (C13).
  \<^item> \<open>Notes_Api\<close> (both route files): the envelope \<open>envelope\<close> and \<open>response\<close>;
    \<open>run_route\<close>, the \<^verbatim>\<open>catch\<close> that turns any exception into a 500 with the
    route's fixed message; \<open>read_note_fields\<close>, the body checks \<^verbatim>\<open>POST\<close> and
    \<^verbatim>\<open>PUT\<close> share; the five handlers \<open>api_get_notes\<close>, \<open>api_post_note\<close>,
    \<open>api_get_note\<close>, \<open>api_put_note\<close>, \<open>api_delete_note\<close>, each its whole
    \<^verbatim>\<open>try\<close> block in source order; \<open>api_handle\<close>, the router. Claims C1 to C8, C10
    to C12 and C14 state each route's behaviour on every branch, errors included.
  \<^item> \<open>Note_Card\<close> (\<^verbatim>\<open>NoteCard.tsx\<close>): what a card shows (\<open>render_card\<close>,
    \<open>card_view\<close>): the title, the content preview \<open>card_preview\<close>, the dates through
    \<open>format_date\<close> (the browser's locale formatters are parameters), the
    \<^verbatim>\<open>Updated:\<close> line when \<open>card_shows_updated\<close>, and the id \<open>note_key\<close> the
    Delete button passes; with a predicate for well-formed UTF-16 (\<open>utf16_wf\<close>), the
    preview's shape (C15) and exactly when the preview splits a surrogate pair (C16).
  \<^item> \<open>Note_Form\<close> (\<^verbatim>\<open>NoteForm.tsx\<close>): the form's state \<open>form\<close>, the effect that
    fills it (\<open>form_load\<close>), the inputs (\<open>form_input_title\<close> with \<^verbatim>\<open>maxLength\<close>,
    \<open>form_input_content\<close>), \<^verbatim>\<open>handleSubmit\<close> up to \<^verbatim>\<open>onSubmit\<close>
    (\<open>form_submit\<close>) and its \<^verbatim>\<open>finally\<close> (\<open>form_submit_done\<close>), and what it
    shows (\<open>render_form\<close>: heading, counter, button label, enabled). What the form
    submits passes the schema (C17).
  \<^item> \<open>Api_Contract\<close>: the interface between routes and page. \<open>api_contract\<close> says
    what a response tells the page about the collection (a failure left it alone, a
    success changed it as \<open>ok_effect\<close> says); \<open>api_handle_contract\<close> proves every
    route meets it, and the page's lemmas rely on nothing else.
  \<^item> \<open>Notes_Page\<close> (\<^verbatim>\<open>page.tsx\<close>): the page state \<open>page\<close>; each handler
    split at its \<^verbatim>\<open>await\<close> into the part before (\<open>create_note\<close>,
    \<open>note_body\<close>) and the continuation that runs on the list its closure captured
    (\<open>load_notes_done\<close>, \<open>create_note_done\<close>, \<open>update_note_done\<close>,
    \<open>delete_note_done\<close>); the header button, Edit and Cancel; what is rendered
    (\<open>page_view\<close>, \<open>form_visible\<close>); \<open>synced\<close>, the list in step with the
    collection, and one lemma per continuation that keeps it, stated over the contract.
  \<^item> \<open>Server_Events\<close>: the server as a system of events (requests, clock ticks, the
    database going down and up), \<open>server_run\<close>, and the states a fresh deployment
    reaches (\<open>server_reachable\<close>).
  \<^item> \<open>Notes_System\<close>: the page, its form and the server as one system
    (\<open>system\<close>, \<open>sys_step\<close> over \<open>ui_event\<close>): user actions guarded by what is
    rendered, \<open>send\<close> (the server answers), \<open>deliver\<close> (an answer reaches the page,
    in any order), \<open>fail_answer\<close> (the \<^verbatim>\<open>fetch\<close> rejects after the server acted),
    \<open>set_page\<close> (re-render, mounting and unmounting the form). Under one user the list
    stays in step with the collection (C18, by rule induction over
    \<open>seq_reachable\<close>); two overlapping deletes break it in every state where they
    happen (C19), and so does a lost delete answer (C22); in every run a saving form
    awaits an answer in flight (C20, invariant \<open>form_inv\<close>) whose delivery releases
    it (C21), the form's title never passes 100 code units (C23, invariant
    \<open>ui_inv\<close>) and what it submits passes the schema (C24).
  \<^item> This theory: the property of the whole server: the store invariant over every
    reachable state (C9).

  \<^bold>\<open>Modelling choices.\<close> Time is an \<open>int\<close> of milliseconds that only moves forward,
  by \<open>Tick\<close> events; both timestamps of a created note and the \<open>updatedAt\<close> of an
  update are the clock at the call, as the timestamps plugin takes one \<^verbatim>\<open>new Date()\<close>.
  The ObjectId the driver generates for an insert is an input of the create request
  (\<open>fresh\<close>); the model does not assume it is new: a used one is the duplicate-key
  error the database raises. \<open>is_valid_object_id\<close> is \<^verbatim>\<open>ObjectId.isValid\<close> of
  bson 6 and later (24 hex digits); older bson also accepts any 12-character string, and
  the repository pins no version. String lengths count UTF-16 code units, as
  \<^verbatim>\<open>String.length\<close> and Mongoose's \<^verbatim>\<open>maxlength\<close> do. \<^verbatim>\<open>sort({createdAt: -1})\<close>
  is a stable sort, newest first; MongoDB leaves the order of equal timestamps open and
  no theorem depends on it. No loop of the program is unbounded, so there is no fuel:
  every definition is structural or a fold.
  On the client, a request reaches the server when the page sends it and is answered at
  once (each handler is one atomic database operation); only the order in which the
  answers reach the page is left open, which is where the page's handlers race. A
  pending answer keeps the list of the render whose handler sent it, as the handler's
  closure does, and for a submission the mount of the form awaiting it
  (\<open>form_gen\<close> counts mounts, so a \<^verbatim>\<open>finally\<close> of an unmounted form changes
  nothing). \<^verbatim>\<open>alert\<close> appends to \<open>alerts\<close>; \<^verbatim>\<open>confirm\<close>'s answer is part of
  the delete event. The title input's \<^verbatim>\<open>maxLength\<close> is the browser refusing a longer
  value. \<open>note_key\<close> reads \<^verbatim>\<open>_id\<close> as the 24 lowercase hex digits JSON gives it.
  A payload shape a route never sends with that status (a single note from the list
  route) is \<open>undefined\<close> in the page's reading of it.

  \<^bold>\<open>Not modelled.\<close> \<^verbatim>\<open>src/lib/mongodb\<close> is not in the repository; \<open>db_connect\<close>
  follows the specification's description (reuse the cached connection, open it once).
  Console logging, HTTP headers, the Mongoose version key \<^verbatim>\<open>__v\<close>, JSON serialisation
  of dates, the \<^verbatim>\<open>toLocale*\<close> date formatting of \<^verbatim>\<open>NoteCard\<close> (it depends on
  the browser's locale; they are parameters of \<open>format_date\<close>), CSS and layout are
  outside the model. A \<^verbatim>\<open>fetch\<close> that rejects is modelled after the server acted
  (\<open>FailAnswer\<close>); one that never reaches the server is indistinguishable for the page
  from a failed request, and is not a separate event. Concurrent requests on the server are not interleaved: each
  handler performs one database operation, so a request is one atomic step.

  \<^bold>\<open>Findings\<close> (see the manifest). An oversized title is a 500, not a 400 (C10); a
  non-string title or content is a 500 (C11); the member routes connect before they
  validate the id, so a malformed id can be a 500 (C12); an update sets
  \<open>updatedAt\<close> to the clock, so one made in the same millisecond as the previous
  write leaves it unchanged, where the specification promises a strictly later one
  (C6), and the card then shows no \<^verbatim>\<open>Updated:\<close> line. On the client: the card
  preview cuts an emoji in half whenever one straddles code unit 150 (C16); the
  handlers splice a stale list, so overlapping deletes undo each other's change (C19);
  a lost answer leaves the list out of step with no reload (C22);
  \<^verbatim>\<open>showForm\<close> and \<^verbatim>\<open>editingNote\<close> together form a fourth view state whose
  header Cancel does not close the form (\<open>toggle_form\<close>, \<open>page_view\<close>).
\<close>

section \<open>Properties of the whole server\<close>

text \<open>
  C9. In every state the server can reach from a fresh deployment, through any sequence
  of requests, clock ticks and database outages, the store invariant holds: ids are
  unique, every title and content is trimmed and non-empty, titles have at most 100
  code units, and \<open>createdAt \<le> updatedAt \<le>\<close> the clock.
\<close>

theorem reachable_store_wf: "server_reachable s \<Longrightarrow> store_wf s"
proof (induction rule: server_reachable.induct)
  case (init t up)
  show ?case by (simp add: init_server_def store_wf_def)
next
  case (step s e)
  from step.IH show ?case by (rule server_step_store_wf)
qed

theorem reachable_store_wf_witness:
  "store_wf (snd (server_step (init_server 1000 True)
     (Req (CreateNote 7 (Json (JObj [(js_str ''title'', JStr (js_str ''Shopping'')),
                                     (js_str ''content'', JStr (js_str ''Milk, eggs''))]))))))"
  by (rule reachable_store_wf) (rule server_reachable.step [OF server_reachable.init])

end
